theory Spec2Isabelle
  imports Main "HOL-Library.Word"
begin

section \<open>Blip: metric values, the var.global collector, the collector registry, events\<close>

text \<open>
  A shallow embedding of the Go sources: the metric value model of package \<open>blip\<close>,
  the system-variable collector \<open>sysvar.Global\<close> (metrics/var/global.go), the
  collector registry and built-in factory of package \<open>metrics\<close>, and the event
  names of package \<open>event\<close>.

  Mutation of the receiver becomes state passing, a Go \<open>error\<close> result is an
  \<open>error option\<close> (\<open>None\<close> is \<open>nil\<close>), and a run-time panic is a value of its own,
  so every function that can panic returns an \<open>outcome\<close>.
\<close>

subsection \<open>Errors, panics, outcomes\<close>

datatype error =
    DbError string
  | InvalidMetricName string
  | InvalidSource string
  | AutoSourceFailed error
  | AlreadyRegistered string
  | NotRegistered string
  | CollectorNotRegistered string

datatype panic =
    InvalidSourceInCollect string
  | IndexOutOfRange nat nat

datatype 'a outcome = Returns 'a | Panics panic

subsection \<open>Package blip: metric types and MetricValue\<close>

type_synonym byte = "8 word"

definition UNKNOWN :: byte where "UNKNOWN = 0"
definition COUNTER :: byte where "COUNTER = 1"
definition GAUGE :: byte where "GAUGE = 2"
definition BOOL :: byte where "BOOL = 3"
definition EVENT :: byte where "EVENT = 4"

text \<open>
  \<open>Value\<close> is a float64 in the source. The collector only obtains values from
  \<open>strconv.ParseFloat\<close> and stores them, so the value type is a parameter \<open>'v\<close>
  and the parser is a parameter \<open>pf\<close> of the collecting functions
  (\<open>pf s = None\<close> when ParseFloat returns an error). A nil map is \<open>None\<close>.
\<close>

record 'v MetricValue =
  Name :: string
  Value :: 'v
  Type :: byte
  Group :: "(string \<rightharpoonup> string) option"
  Meta :: "(string \<rightharpoonup> string) option"

subsection \<open>The database handle\<close>

text \<open>
  \<open>*sql.DB\<close> is the outside world. A row is its list of columns, \<open>None\<close> for SQL
  NULL. The server's answer to a query may depend on everything issued before, and
  every query issued is recorded in \<open>issued\<close>.
\<close>

type_synonym row = "string option list"

record sql_DB =
  respond :: "string list \<Rightarrow> string \<Rightarrow> string + row list"
  issued :: "string list"

definition QueryContext :: "sql_DB \<Rightarrow> string \<Rightarrow> (string + row list) \<times> sql_DB" where
  "QueryContext d q = (respond d (issued d) q, d\<lparr>issued := issued d @ [q]\<rparr>)"

text \<open>\<open>rows.Scan\<close> into one, respectively two, string destinations: it fails on a
  column-count mismatch and on NULL.\<close>

fun Scan1 :: "row \<Rightarrow> string option" where
  "Scan1 [Some v] = Some v"
| "Scan1 _ = None"

fun Scan2 :: "row \<Rightarrow> (string \<times> string) option" where
  "Scan2 [Some n, Some v] = Some (n, v)"
| "Scan2 _ = None"

subsection \<open>Strings: strings.Split, strings.Join\<close>

fun Split :: "string \<Rightarrow> char \<Rightarrow> string list" where
  "Split [] sep = [[]]"
| "Split (c # cs) sep =
     (if c = sep then [] # Split cs sep
      else (case Split cs sep of [] \<Rightarrow> [[c]] | w # ws \<Rightarrow> (c # w) # ws))"

fun Join :: "string list \<Rightarrow> string \<Rightarrow> string" where
  "Join [] sep = []"
| "Join [x] sep = x"
| "Join (x # y # ys) sep = x @ sep @ Join (y # ys) sep"

subsection \<open>The plan model\<close>

text \<open>
  Modelled from the spec: the declarations of \<open>collect.Plan\<close>, its levels and
  domains are not among the sources. A plan has a name and a mapping from level name to
  level; a level has a frequency and a mapping \<open>collect\<close> from domain name to domain;
  a domain has an ordered list of metric names and a string-to-string option map.
  Go iterates a map in an unspecified order: \<open>Levels\<close> lists the levels in the order
  in which one run of \<open>range plan.Levels\<close> visits them, and the theorems hold for
  every such order. The option map may be nil (\<open>None\<close>).
\<close>

record Domain_plan =
  Metrics :: "string list"
  Options :: "(string \<rightharpoonup> string) option"

record Level =
  Freq :: nat
  Collect_level :: "string \<rightharpoonup> Domain_plan"

record Plan =
  Plan_name :: string
  Levels :: "(string \<times> Level) list"

subsection \<open>metrics/var/global.go\<close>

definition OPT_SOURCE :: string where "OPT_SOURCE = ''source''"
definition SOURCE_SELECT :: string where "SOURCE_SELECT = ''select''"
definition SOURCE_PFS :: string where "SOURCE_PFS = ''pfs''"
definition SOURCE_SHOW :: string where "SOURCE_SHOW = ''show''"

text \<open>\<open>validMetricRegex\<close> is \<open>^[a-zA-Z0-9_-]*$\<close>; without the multi-line flag Go's
  \<open>$\<close> matches at the end of the text only, so a string matches exactly when each of
  its characters is in the class.\<close>

definition validMetricChar :: "char \<Rightarrow> bool" where
  "validMetricChar ch \<longleftrightarrow>
     ch \<in> set ''abcdefghijklmnopqrstuvwxyzABCDEFGHIJKLMNOPQRSTUVWXYZ0123456789_-''"

definition MatchString :: "string \<Rightarrow> bool" where
  "MatchString name = list_all validMetricChar name"

text \<open>The collector. Its field \<open>plans\<close> is never read or written and is left out.\<close>

record Global =
  db :: sql_DB
  domain :: string
  workIn :: "string \<rightharpoonup> string list"
  queryIn :: "string \<rightharpoonup> string"
  sourceIn :: "string \<rightharpoonup> string"

definition NewGlobal :: "sql_DB \<Rightarrow> Global" where
  "NewGlobal d =
     \<lparr>db = d, domain = ''var.global'', workIn = Map.empty, queryIn = Map.empty,
      sourceIn = Map.empty\<rparr>"

text \<open>Reading a Go map at a key it does not hold gives the zero value.\<close>

definition workOf :: "Global \<Rightarrow> string \<Rightarrow> string list" where
  "workOf c levelName = (case workIn c levelName of None \<Rightarrow> [] | Some w \<Rightarrow> w)"

definition queryOf :: "Global \<Rightarrow> string \<Rightarrow> string" where
  "queryOf c levelName = (case queryIn c levelName of None \<Rightarrow> [] | Some q \<Rightarrow> q)"

definition sourceOf :: "Global \<Rightarrow> string \<Rightarrow> string" where
  "sourceOf c levelName = (case sourceIn c levelName of None \<Rightarrow> [] | Some s \<Rightarrow> s)"

fun validateMetricNames :: "string list \<Rightarrow> error option" where
  "validateMetricNames [] = None"
| "validateMetricNames (name # metricNames) =
     (if \<not> MatchString name then Some (InvalidMetricName name)
      else validateMetricNames metricNames)"

text \<open>The inner loop of \<open>collectSELECT\<close>: \<open>values[idx]\<close> panics when \<open>idx\<close> is
  not below \<open>len(values)\<close>; a value that does not parse is skipped.\<close>

fun parseValues ::
  "(string \<Rightarrow> 'v option) \<Rightarrow> string list \<Rightarrow> nat \<Rightarrow> string list \<Rightarrow> 'v MetricValue list
     \<Rightarrow> 'v MetricValue list outcome" where
  "parseValues pf vals idx [] metrics = Returns metrics"
| "parseValues pf vals idx (name # names) metrics =
     (if length vals \<le> idx then Panics (IndexOutOfRange idx (length vals))
      else (case pf (vals ! idx) of
              None \<Rightarrow> parseValues pf vals (Suc idx) names metrics
            | Some s \<Rightarrow>
                parseValues pf vals (Suc idx) names
                  (metrics @ [\<lparr>Name = name, Value = s, Type = GAUGE, Group = None, Meta = None\<rparr>])))"

text \<open>The outer loop of \<open>collectSELECT\<close> over the rows; a row that does not scan is
  skipped.\<close>

fun selectRows ::
  "(string \<Rightarrow> 'v option) \<Rightarrow> string list \<Rightarrow> row list \<Rightarrow> 'v MetricValue list
     \<Rightarrow> 'v MetricValue list outcome" where
  "selectRows pf work [] metrics = Returns metrics"
| "selectRows pf work (r # rs) metrics =
     (case Scan1 r of
        None \<Rightarrow> selectRows pf work rs metrics
      | Some val \<Rightarrow>
          (case parseValues pf (Split val CHR '','') 0 work metrics of
             Panics p \<Rightarrow> Panics p
           | Returns metrics' \<Rightarrow> selectRows pf work rs metrics'))"

definition collectSELECT ::
  "(string \<Rightarrow> 'v option) \<Rightarrow> Global \<Rightarrow> string
     \<Rightarrow> ('v MetricValue list \<times> error option) outcome \<times> Global" where
  "collectSELECT pf c levelName =
     (case QueryContext (db c) (queryOf c levelName) of
        (Inl e, d) \<Rightarrow> (Returns ([], Some (DbError e)), c\<lparr>db := d\<rparr>)
      | (Inr rows, d) \<Rightarrow>
          (case selectRows pf (workOf c levelName) rows [] of
             Panics p \<Rightarrow> (Panics p, c\<lparr>db := d\<rparr>)
           | Returns metrics \<Rightarrow> (Returns (metrics, None), c\<lparr>db := d\<rparr>)))"

text \<open>The row loop of \<open>collectSHOWorPFS\<close>.\<close>

fun showRows ::
  "(string \<Rightarrow> 'v option) \<Rightarrow> row list \<Rightarrow> 'v MetricValue list \<Rightarrow> 'v MetricValue list" where
  "showRows pf [] metrics = metrics"
| "showRows pf (r # rs) metrics =
     (case Scan2 r of
        None \<Rightarrow> showRows pf rs metrics
      | Some (n, val) \<Rightarrow>
          (case pf val of
             None \<Rightarrow> showRows pf rs metrics
           | Some s \<Rightarrow>
               showRows pf rs
                 (metrics @ [\<lparr>Name = n, Value = s, Type = GAUGE, Group = None, Meta = None\<rparr>])))"

definition collectSHOWorPFS ::
  "(string \<Rightarrow> 'v option) \<Rightarrow> Global \<Rightarrow> string
     \<Rightarrow> ('v MetricValue list \<times> error option) outcome \<times> Global" where
  "collectSHOWorPFS pf c levelName =
     (case QueryContext (db c) (queryOf c levelName) of
        (Inl e, d) \<Rightarrow> (Returns ([], Some (DbError e)), c\<lparr>db := d\<rparr>)
      | (Inr rows, d) \<Rightarrow> (Returns (showRows pf rows [], None), c\<lparr>db := d\<rparr>))"

definition collectPFS ::
  "(string \<Rightarrow> 'v option) \<Rightarrow> Global \<Rightarrow> string
     \<Rightarrow> ('v MetricValue list \<times> error option) outcome \<times> Global" where
  "collectPFS pf c levelName = collectSHOWorPFS pf c levelName"

definition collectSHOW ::
  "(string \<Rightarrow> 'v option) \<Rightarrow> Global \<Rightarrow> string
     \<Rightarrow> ('v MetricValue list \<times> error option) outcome \<times> Global" where
  "collectSHOW pf c levelName = collectSHOWorPFS pf c levelName"

text \<open>The three prepare functions store the query and the source tag, then collect once
  and keep only the error.\<close>

definition discard ::
  "('v MetricValue list \<times> error option) outcome \<times> Global \<Rightarrow> error option outcome \<times> Global" where
  "discard r =
     (case r of
        (Panics p, c) \<Rightarrow> (Panics p, c)
      | (Returns (ms, err), c) \<Rightarrow> (Returns err, c))"

text \<open>The query texts that the prepare functions build from the level's metric names;
  \<open>CHR 0x27\<close> is the single quote.\<close>

definition selectQuery :: "string list \<Rightarrow> string" where
  "selectQuery work =
     ''SELECT CONCAT_WS('' @ [CHR 0x27] @ '','' @ [CHR 0x27] @ '', '' @
       Join (map (\<lambda>str. ''@@GLOBAL.'' @ str) work) '', '' @ '') v;''"

definition pfsQuery :: "string list \<Rightarrow> string" where
  "pfsQuery work =
     ''SELECT variable_name, variable_value from performance_schema.global_variables WHERE variable_name in ('' @
       [CHR 0x27] @ Join work ([CHR 0x27] @ '', '' @ [CHR 0x27]) @ [CHR 0x27] @ '');''"

definition showQuery :: "string list \<Rightarrow> string" where
  "showQuery work =
     ''SHOW GLOBAL VARIABLES WHERE variable_name in ('' @
       [CHR 0x27] @ Join work ([CHR 0x27] @ '', '' @ [CHR 0x27]) @ [CHR 0x27] @ '');''"

definition prepareSELECT ::
  "(string \<Rightarrow> 'v option) \<Rightarrow> Global \<Rightarrow> string \<Rightarrow> error option outcome \<times> Global" where
  "prepareSELECT pf c levelName =
     discard (collectSELECT pf
       (c\<lparr>queryIn := (queryIn c)(levelName \<mapsto> selectQuery (workOf c levelName)),
          sourceIn := (sourceIn c)(levelName \<mapsto> SOURCE_SELECT)\<rparr>) levelName)"

definition preparePFS ::
  "(string \<Rightarrow> 'v option) \<Rightarrow> Global \<Rightarrow> string \<Rightarrow> error option outcome \<times> Global" where
  "preparePFS pf c levelName =
     discard (collectPFS pf
       (c\<lparr>queryIn := (queryIn c)(levelName \<mapsto> pfsQuery (workOf c levelName)),
          sourceIn := (sourceIn c)(levelName \<mapsto> SOURCE_PFS)\<rparr>) levelName)"

definition prepareSHOW ::
  "(string \<Rightarrow> 'v option) \<Rightarrow> Global \<Rightarrow> string \<Rightarrow> error option outcome \<times> Global" where
  "prepareSHOW pf c levelName =
     discard (collectPFS pf
       (c\<lparr>queryIn := (queryIn c)(levelName \<mapsto> showQuery (workOf c levelName)),
          sourceIn := (sourceIn c)(levelName \<mapsto> SOURCE_SHOW)\<rparr>) levelName)"

text \<open>The source option as \<open>prepareLevel\<close> reads it: the empty string when the option
  map is nil or has no \<open>source\<close> key.\<close>

definition optSource :: "(string \<rightharpoonup> string) option \<Rightarrow> string" where
  "optSource options =
     (case options of
        None \<Rightarrow> []
      | Some m \<Rightarrow> (case m OPT_SOURCE of None \<Rightarrow> [] | Some src \<Rightarrow> src))"

text \<open>The last part of \<open>prepareLevel\<close>, the automatic source: select, then pfs,
  then show, leaving at the first that returns nil; the error of show is wrapped.\<close>

definition autoSource ::
  "(string \<Rightarrow> 'v option) \<Rightarrow> Global \<Rightarrow> string \<Rightarrow> error option outcome \<times> Global" where
  "autoSource pf c levelName =
     (case prepareSELECT pf c levelName of
        (Panics p, c1) \<Rightarrow> (Panics p, c1)
      | (Returns None, c1) \<Rightarrow> (Returns None, c1)
      | (Returns (Some e1), c1) \<Rightarrow>
          (case preparePFS pf c1 levelName of
             (Panics p, c2) \<Rightarrow> (Panics p, c2)
           | (Returns None, c2) \<Rightarrow> (Returns None, c2)
           | (Returns (Some e2), c2) \<Rightarrow>
               (case prepareSHOW pf c2 levelName of
                  (Panics p, c3) \<Rightarrow> (Panics p, c3)
                | (Returns None, c3) \<Rightarrow> (Returns None, c3)
                | (Returns (Some e3), c3) \<Rightarrow> (Returns (Some (AutoSourceFailed e3)), c3))))"

text \<open>The first three statements of \<open>prepareLevel\<close>: the level's entries are reset.\<close>

definition resetLevel :: "Global \<Rightarrow> string \<Rightarrow> Global" where
  "resetLevel c levelName =
     c\<lparr>sourceIn := (sourceIn c)(levelName \<mapsto> []),
       queryIn := (queryIn c)(levelName \<mapsto> []),
       workIn := (workIn c)(levelName \<mapsto> [])\<rparr>"

definition prepareLevel ::
  "(string \<Rightarrow> 'v option) \<Rightarrow> Global \<Rightarrow> string \<Rightarrow> string list \<Rightarrow> (string \<rightharpoonup> string) option
     \<Rightarrow> error option outcome \<times> Global" where
  "prepareLevel pf c levelName metrics options =
     (let c0 = resetLevel c levelName in
      case validateMetricNames metrics of
        Some err \<Rightarrow> (Returns (Some err), c0)
      | None \<Rightarrow>
          (let c1 = c0\<lparr>workIn := (workIn c0)(levelName \<mapsto> workOf c0 levelName @ metrics)\<rparr>;
               src = optSource options
           in if options \<noteq> None \<and> 0 < length src \<and> src \<noteq> ''auto'' then
                (if src = SOURCE_SELECT then prepareSELECT pf c1 levelName
                 else if src = SOURCE_PFS then preparePFS pf c1 levelName
                 else if src = SOURCE_SHOW then prepareSHOW pf c1 levelName
                 else (Returns (Some (InvalidSource src)), c1))
              else autoSource pf c1 levelName))"

text \<open>\<open>Prepare\<close>: the loop over the plan's levels, leaving at the first error.\<close>

fun prepareLevels ::
  "(string \<Rightarrow> 'v option) \<Rightarrow> Global \<Rightarrow> (string \<times> Level) list \<Rightarrow> error option outcome \<times> Global" where
  "prepareLevels pf c [] = (Returns None, c)"
| "prepareLevels pf c ((levelName, level) # rest) =
     (case Collect_level level (domain c) of
        None \<Rightarrow> prepareLevels pf c rest
      | Some dm \<Rightarrow>
          (case prepareLevel pf c levelName (Metrics dm) (Options dm) of
             (Returns None, c') \<Rightarrow> prepareLevels pf c' rest
           | (Returns (Some err), c') \<Rightarrow> (Returns (Some err), c')
           | (Panics p, c') \<Rightarrow> (Panics p, c')))"

definition Prepare ::
  "(string \<Rightarrow> 'v option) \<Rightarrow> Global \<Rightarrow> Plan \<Rightarrow> error option outcome \<times> Global" where
  "Prepare pf c plan = prepareLevels pf c (Levels plan)"

definition Collect_Global ::
  "(string \<Rightarrow> 'v option) \<Rightarrow> Global \<Rightarrow> string
     \<Rightarrow> ('v MetricValue list \<times> error option) outcome \<times> Global" where
  "Collect_Global pf c levelName =
     (if sourceOf c levelName = SOURCE_SELECT then collectSELECT pf c levelName
      else if sourceOf c levelName = SOURCE_PFS then collectPFS pf c levelName
      else if sourceOf c levelName = SOURCE_SHOW then collectSHOW pf c levelName
      else (Panics (InvalidSourceInCollect (sourceOf c levelName)), c))"

subsection \<open>Package event: the event names\<close>

text \<open>Blip events (non-monitor).\<close>

definition BOOT_CONFIG_INVALID :: string where "BOOT_CONFIG_INVALID = ''boot-config-invalid''"
definition BOOT_CONFIG_LOADED :: string where "BOOT_CONFIG_LOADED = ''boot-config-loaded''"
definition BOOT_CONFIG_LOADING :: string where "BOOT_CONFIG_LOADING = ''boot-config-loading''"
definition BOOT_ERROR :: string where "BOOT_ERROR = ''boot-error''"
definition BOOT_START :: string where "BOOT_START = ''boot-start''"
definition BOOT_SUCCESS :: string where "BOOT_SUCCESS = ''boot-success''"
definition MONITORS_LOADED :: string where "MONITORS_LOADED = ''monitors-loaded''"
definition MONITORS_LOADING :: string where "MONITORS_LOADING = ''monitors-loading''"
definition MONITORS_RELOAD_ERROR :: string where "MONITORS_RELOAD_ERROR = ''monitors-reload-error''"
definition MONITORS_STARTED :: string where "MONITORS_STARTED = ''monitors-started''"
definition MONITORS_STARTING :: string where "MONITORS_STARTING = ''monitors-starting''"
definition MONITORS_STOPLOSS :: string where "MONITORS_STOPLOSS = ''monitors-stoploss''"
definition MONITOR_LOADER_PANIC :: string where "MONITOR_LOADER_PANIC = ''monitor-loader-panic''"
definition PLANS_LOAD_MONITOR :: string where "PLANS_LOAD_MONITOR = ''plans-load-monitor''"
definition PLANS_LOAD_SHARED :: string where "PLANS_LOAD_SHARED = ''plans-load-shared''"
definition SERVER_API_PANIC :: string where "SERVER_API_PANIC = ''server-api-panic''"
definition SERVER_API_ERROR :: string where "SERVER_API_ERROR = ''server-api-error''"
definition SERVER_RUN :: string where "SERVER_RUN = ''server-run''"
definition SERVER_STOPPED :: string where "SERVER_STOPPED = ''server-stopped''"

text \<open>Monitor events.\<close>

definition CHANGE_PLAN :: string where "CHANGE_PLAN = ''change-plan''"
definition CHANGE_PLAN_ERROR :: string where "CHANGE_PLAN_ERROR = ''change-plan-error''"
definition CHANGE_PLAN_SUCCESS :: string where "CHANGE_PLAN_SUCCESS = ''change-plan-success''"
definition COLLECTOR_ERROR :: string where "COLLECTOR_ERROR = ''collector-error''"
definition COLLECTOR_PANIC :: string where "COLLECTOR_PANIC = ''collector-panic''"
definition DB_RELOAD_PASSWORD_ERROR :: string where "DB_RELOAD_PASSWORD_ERROR = ''db-reload-password-error''"
definition ENGINE_COLLECT_ERROR :: string where "ENGINE_COLLECT_ERROR = ''engine-collect-error''"
definition ENGINE_PREPARE :: string where "ENGINE_PREPARE = ''engine-prepare''"
definition ENGINE_PREPARE_ERROR :: string where "ENGINE_PREPARE_ERROR = ''engine-prepare-error''"
definition ENGINE_PREPARE_SUCCESS :: string where "ENGINE_PREPARE_SUCCESS = ''engine-prepare-success''"
definition LPC_BLOCKED :: string where "LPC_BLOCKED = ''lpc-blocked''"
definition LPC_PANIC :: string where "LPC_PANIC = ''lpc-panic''"
definition LPC_PAUSED :: string where "LPC_PAUSED = ''lpc-paused''"
definition LPC_RUNNING :: string where "LPC_RUNNING = ''lpc-running''"
definition MONITOR_CONNECTED :: string where "MONITOR_CONNECTED = ''connected''"
definition MONITOR_CONNECTING :: string where "MONITOR_CONNECTING = ''connecting''"
definition MONITOR_ERROR :: string where "MONITOR_ERROR = ''monitor-error''"
definition MONITOR_PANIC :: string where "MONITOR_PANIC = ''monitor-panic''"
definition MONITOR_STARTED :: string where "MONITOR_STARTED = ''monitor-started''"
definition MONITOR_STOPPED :: string where "MONITOR_STOPPED = ''monitor-stopped''"
definition SINK_SEND_ERROR :: string where "SINK_SEND_ERROR = ''sink-send-error''"
definition STATE_CHANGE_ABORT :: string where "STATE_CHANGE_ABORT = ''state-change-abort''"
definition STATE_CHANGE_BEGIN :: string where "STATE_CHANGE_BEGIN = ''state-change-begin''"
definition STATE_CHANGE_END :: string where "STATE_CHANGE_END = ''state-change-end''"
definition REPL_SOURCE_CHANGE :: string where "REPL_SOURCE_CHANGE = ''repl-soruce-change''"

text \<open>Sink events.\<close>

definition SINK_ERROR :: string where "SINK_ERROR = ''sink-error''"

text \<open>
  Modelled from the spec: \<open>event.REGISTER_METRICS\<close> is used by \<open>metrics.Register\<close>,
  but its declaration is not in the file of event constants among the sources. The
  spec's event hook names the event \<open>register-metrics\<close>.
\<close>

definition REGISTER_METRICS :: string where "REGISTER_METRICS = ''register-metrics''"

subsection \<open>Package metrics: the registry and the built-in factory\<close>

text \<open>
  Modelled from the spec: \<open>blip.CollectorFactoryArgs\<close>, \<open>blip.CollectorFactory\<close>,
  \<open>blip.Collector\<close> and the constructors \<open>status.NewGlobal\<close>, \<open>size.NewData\<close>,
  \<open>size.NewBinlogs\<close> and \<open>innodb.NewMetrics\<close> are not among the sources. The
  factory arguments carry the database handle; a factory is its one method \<open>Make\<close>; a
  built-in collector other than \<open>sysvar.Global\<close> is the kind of collector and the
  handle it was made with.
\<close>

record CollectorFactoryArgs =
  DB :: sql_DB

datatype Collector =
    status_Global sql_DB
  | sysvar_Global Global
  | size_Data sql_DB
  | size_Binlogs sql_DB
  | innodb_Metrics sql_DB

type_synonym ('a, 'c) CollectorFactory = "string \<Rightarrow> 'a \<Rightarrow> error + 'c"

text \<open>The package instance \<open>r\<close>; \<open>sent\<close> records the events passed to
  \<open>event.Sendf\<close> (name and argument). \<open>blip.Strict\<close> is a parameter.\<close>

record ('a, 'c) repo =
  factory :: "string \<rightharpoonup> ('a, 'c) CollectorFactory"
  sent :: "(string \<times> string) list"

definition Register ::
  "bool \<Rightarrow> ('a, 'c) repo \<Rightarrow> string \<Rightarrow> ('a, 'c) CollectorFactory \<Rightarrow> error option \<times> ('a, 'c) repo" where
  "Register Strict r dmn f =
     (if factory r dmn \<noteq> None \<and> Strict then (Some (AlreadyRegistered dmn), r)
      else (None, r\<lparr>factory := (factory r)(dmn \<mapsto> f),
                     sent := sent r @ [(REGISTER_METRICS, dmn)]\<rparr>))"

definition Make :: "('a, 'c) repo \<Rightarrow> string \<Rightarrow> 'a \<Rightarrow> error + 'c" where
  "Make r dmn args =
     (case factory r dmn of
        None \<Rightarrow> Inl (NotRegistered dmn)
      | Some f \<Rightarrow> f dmn args)"

definition factory_Make :: "(CollectorFactoryArgs, Collector) CollectorFactory" where
  "factory_Make dmn args =
     (if dmn = ''status.global'' then Inr (status_Global (DB args))
      else if dmn = ''var.global'' then Inr (sysvar_Global (NewGlobal (DB args)))
      else if dmn = ''size.data'' then Inr (size_Data (DB args))
      else if dmn = ''size.binlogs'' then Inr (size_Binlogs (DB args))
      else if dmn = ''innodb'' then Inr (innodb_Metrics (DB args))
      else Inl (CollectorNotRegistered dmn))"

definition builtinCollectors :: "string list" where
  "builtinCollectors =
     [''status.global'', ''var.global'', ''size.data'', ''size.binlogs'', ''innodb'']"

text \<open>\<open>init\<close> registers the built-in factory under every built-in domain and drops
  the result of \<open>Register\<close>.\<close>

definition init ::
  "bool \<Rightarrow> (CollectorFactoryArgs, Collector) repo \<Rightarrow> (CollectorFactoryArgs, Collector) repo" where
  "init Strict r = fold (\<lambda>mc r'. snd (Register Strict r' mc factory_Make)) builtinCollectors r"

definition r_initial :: "(CollectorFactoryArgs, Collector) repo" where
  "r_initial = \<lparr>factory = Map.empty, sent = []\<rparr>"

subsection \<open>Concrete inputs\<close>

text \<open>
  The examples need a parser and a server. \<open>ParseFloat_decimal\<close> is
  \<open>strconv.ParseFloat\<close> on unsigned decimal integer literals, where the float64 result
  is that integer (exactly, below \<open>2^53\<close>); it rejects every other string, which
  ParseFloat does not, so it stands for ParseFloat only at the inputs of the examples.
\<close>

definition digitOf :: "char \<Rightarrow> nat option" where
  "digitOf ch =
     (let n = (of_char ch :: nat) in if 48 \<le> n \<and> n \<le> 57 then Some (n - 48) else None)"

fun decimalFrom :: "nat \<Rightarrow> string \<Rightarrow> nat option" where
  "decimalFrom acc [] = Some acc"
| "decimalFrom acc (ch # cs) =
     (case digitOf ch of None \<Rightarrow> None | Some d \<Rightarrow> decimalFrom (10 * acc + d) cs)"

definition ParseFloat_decimal :: "string \<Rightarrow> nat option" where
  "ParseFloat_decimal s = (if s = [] then None else decimalFrom 0 s)"

text \<open>A server that refuses every query.\<close>

definition db_down :: sql_DB where
  "db_down = \<lparr>respond = (\<lambda>h q. Inl ''connection refused''), issued = []\<rparr>"

text \<open>A server that answers every query with the same rows.\<close>

definition db_fixed :: "row list \<Rightarrow> sql_DB" where
  "db_fixed rows = \<lparr>respond = (\<lambda>h q. Inr rows), issued = []\<rparr>"

text \<open>A server that refuses the \<open>CONCAT_WS\<close> query of the select source and answers
  every other query with one name-value row.\<close>

definition db_pfs_only :: sql_DB where
  "db_pfs_only =
     \<lparr>respond = (\<lambda>h q. if take 16 q = ''SELECT CONCAT_WS'' then Inl ''unknown system variable''
                        else Inr [[Some ''max_connections'', Some ''151'']]),
      issued = []\<rparr>"

text \<open>A server that answers the \<open>SHOW\<close> query only.\<close>

definition db_show_only :: sql_DB where
  "db_show_only =
     \<lparr>respond = (\<lambda>h q. if take 4 q = ''SHOW''
                        then Inr [[Some ''max_connections'', Some ''151'']]
                        else Inl ''access denied''),
      issued = []\<rparr>"

text \<open>A server whose first answer is a row of two values and whose later answers are a
  row of one value, as \<open>CONCAT_WS\<close> gives when one of two variables has become NULL.\<close>

definition db_short_row :: sql_DB where
  "db_short_row =
     \<lparr>respond = (\<lambda>h q. if h = [] then Inr [[Some ''151,134217728'']] else Inr [[Some ''151'']]),
      issued = []\<rparr>"

text \<open>A server that answers the \<open>CONCAT_WS\<close> query of the select source with a row of
  one value, as \<open>CONCAT_WS\<close> gives for two variables of which one is NULL, and every
  other query with one name-value row.\<close>

definition db_null_variable :: sql_DB where
  "db_null_variable =
     \<lparr>respond = (\<lambda>h q. if take 16 q = ''SELECT CONCAT_WS'' then Inr [[Some ''151'']]
                        else Inr [[Some ''max_connections'', Some ''151'']]),
      issued = []\<rparr>"

definition two_metrics :: "string list" where
  "two_metrics = [''max_connections'', ''innodb_buffer_pool_size'']"

text \<open>A level that collects only var.global, with the given metrics and options.\<close>

definition level_of :: "string list \<Rightarrow> (string \<rightharpoonup> string) option \<Rightarrow> Level" where
  "level_of metrics opts =
     \<lparr>Freq = 5, Collect_level = [''var.global'' \<mapsto> \<lparr>Metrics = metrics, Options = opts\<rparr>]\<rparr>"

text \<open>A plan of one level.\<close>

definition plan_one :: "string \<Rightarrow> string list \<Rightarrow> (string \<rightharpoonup> string) option \<Rightarrow> Plan" where
  "plan_one levelName metrics opts =
     \<lparr>Plan_name = ''plan'', Levels = [(levelName, level_of metrics opts)]\<rparr>"

text \<open>The collector as a Prepare that adopted the select source for one level leaves
  it.\<close>

definition global_select :: "sql_DB \<Rightarrow> string \<Rightarrow> string list \<Rightarrow> Global" where
  "global_select d levelName work =
     \<lparr>db = d, domain = ''var.global'', workIn = [levelName \<mapsto> work],
      queryIn = [levelName \<mapsto> selectQuery work], sourceIn = [levelName \<mapsto> SOURCE_SELECT]\<rparr>"

text \<open>A plan of three levels, visited in this order, the second with an invalid metric
  name.\<close>

definition plan_then_bad :: Plan where
  "plan_then_bad =
     \<lparr>Plan_name = ''plan'',
      Levels = [(''l2'', level_of two_metrics None),
                (''l1'', level_of [''max_connections'', ''bad name''] None),
                (''l3'', level_of two_metrics None)]\<rparr>"

text \<open>A factory that makes nothing.\<close>

definition factory_none :: "(CollectorFactoryArgs, Collector) CollectorFactory" where
  "factory_none dmn args = Inl (CollectorNotRegistered dmn)"

section \<open>Properties\<close>

subsection \<open>Parsing the rows in collectSELECT\<close>

text \<open>When the row has a field for every metric name, the inner loop returns a value
  for every field that parses; when it has fewer, the loop panics at the first index
  past the fields.\<close>

lemma parseValues_enough:
  "idx + length names \<le> length vals \<Longrightarrow>
   parseValues pf vals idx names acc =
     Returns (acc @ concat (map (\<lambda>(name, s). case pf s of None \<Rightarrow> []
        | Some v \<Rightarrow> [\<lparr>Name = name, Value = v, Type = GAUGE, Group = None, Meta = None\<rparr>])
        (zip names (drop idx vals))))"
proof (induction names arbitrary: idx acc)
  case Nil
  then show ?case by simp
next
  case (Cons name names)
  then have lt: "idx < length vals" and le: "Suc idx + length names \<le> length vals"
    by simp_all
  have d: "drop idx vals = vals ! idx # drop (Suc idx) vals"
    using lt by (simp add: Cons_nth_drop_Suc)
  show ?case
    using lt Cons.IH [OF le] by (simp add: d split: option.splits)
qed

lemma parseValues_short:
  "length vals < idx + length names \<Longrightarrow> idx \<le> length vals \<Longrightarrow>
   parseValues pf vals idx names acc = Panics (IndexOutOfRange (length vals) (length vals))"
proof (induction names arbitrary: idx acc)
  case Nil
  then show ?case by simp
next
  case (Cons name names)
  show ?case
  proof (cases "idx = length vals")
    case True
    then show ?thesis by simp
  next
    case False
    with Cons.prems have lt: "idx < length vals" by simp
    with Cons.prems have "length vals < Suc idx + length names" "Suc idx \<le> length vals"
      by simp_all
    from Cons.IH [OF this] lt show ?thesis
      by (simp split: option.splits)
  qed
qed

lemma all_parsed:
  "\<forall>s\<in>set vals. pf s \<noteq> None \<Longrightarrow>
   concat (map (\<lambda>(name, s). case pf s of None \<Rightarrow> []
        | Some v \<Rightarrow> [\<lparr>Name = name, Value = v, Type = GAUGE, Group = None, Meta = None\<rparr>])
        (zip names vals)) =
   map (\<lambda>(name, s). \<lparr>Name = name, Value = the (pf s), Type = GAUGE, Group = None, Meta = None\<rparr>)
        (zip names vals)"
proof (induction names arbitrary: vals)
  case Nil
  show ?case by simp
next
  case (Cons n names)
  then show ?case by (cases vals) auto
qed

lemma parseValues_no_source_panic:
  "parseValues pf vals idx names acc \<noteq> Panics (InvalidSourceInCollect s)"
  by (induction names arbitrary: idx acc) (auto split: option.splits)

lemma selectRows_no_source_panic:
  "selectRows pf work rows acc \<noteq> Panics (InvalidSourceInCollect s)"
  by (induction rows arbitrary: acc)
    (auto split: option.splits outcome.splits simp: parseValues_no_source_panic)

lemma selectRows_enough:
  "(\<forall>r\<in>set rows. \<forall>v. Scan1 r = Some v \<longrightarrow> length work \<le> length (Split v CHR '','')) \<Longrightarrow>
   \<exists>ms. selectRows pf work rows acc = Returns ms"
proof (induction rows arbitrary: acc)
  case Nil
  then show ?case by simp
next
  case (Cons r rows)
  show ?case
  proof (cases "Scan1 r")
    case None
    with Cons show ?thesis by simp
  next
    case (Some v)
    with Cons.prems have "0 + length work \<le> length (Split v CHR '','')" by simp
    then obtain ms where "parseValues pf (Split v CHR '','') 0 work acc = Returns ms"
      using parseValues_enough [of 0 work "Split v CHR '',''" pf acc] by blast
    with Some Cons show ?thesis by simp
  qed
qed

lemma selectRows_no_work: "selectRows pf [] rows acc = Returns acc"
  by (induction rows arbitrary: acc) (auto split: option.splits)

subsection \<open>Collecting and probing\<close>

text \<open>Each collect function issues the stored query of the level, once, and changes
  nothing else; each prepare function stores its query and its source tag first.\<close>

lemma collectSELECT_snd:
  "snd (collectSELECT pf c l) = c\<lparr>db := (db c)\<lparr>issued := issued (db c) @ [queryOf c l]\<rparr>\<rparr>"
  by (simp add: collectSELECT_def QueryContext_def split: sum.splits outcome.splits)

lemma collectSELECT_fst:
  "fst (collectSELECT pf c l) =
     (case respond (db c) (issued (db c)) (queryOf c l) of
        Inl e \<Rightarrow> Returns ([], Some (DbError e))
      | Inr rows \<Rightarrow>
          (case selectRows pf (workOf c l) rows [] of
             Panics p \<Rightarrow> Panics p
           | Returns ms \<Rightarrow> Returns (ms, None)))"
  by (simp add: collectSELECT_def QueryContext_def split: sum.splits outcome.splits)

lemma collectSHOWorPFS_snd:
  "snd (collectSHOWorPFS pf c l) = c\<lparr>db := (db c)\<lparr>issued := issued (db c) @ [queryOf c l]\<rparr>\<rparr>"
  by (simp add: collectSHOWorPFS_def QueryContext_def split: sum.splits)

lemma collectSHOWorPFS_fst:
  "fst (collectSHOWorPFS pf c l) =
     (case respond (db c) (issued (db c)) (queryOf c l) of
        Inl e \<Rightarrow> Returns ([], Some (DbError e))
      | Inr rows \<Rightarrow> Returns (showRows pf rows [], None))"
  by (simp add: collectSHOWorPFS_def QueryContext_def split: sum.splits)

lemma snd_discard: "snd (discard r) = snd r"
  by (simp add: discard_def split: prod.splits outcome.splits)

lemma fst_discard:
  "fst (discard r) = (case fst r of Panics p \<Rightarrow> Panics p | Returns x \<Rightarrow> Returns (snd x))"
  by (simp add: discard_def split: prod.splits outcome.splits)

lemma prepareSELECT_snd:
  "snd (prepareSELECT pf c l) =
     c\<lparr>queryIn := (queryIn c)(l \<mapsto> selectQuery (workOf c l)),
       sourceIn := (sourceIn c)(l \<mapsto> SOURCE_SELECT),
       db := (db c)\<lparr>issued := issued (db c) @ [selectQuery (workOf c l)]\<rparr>\<rparr>"
  by (simp add: prepareSELECT_def snd_discard collectSELECT_snd queryOf_def)

lemma preparePFS_snd:
  "snd (preparePFS pf c l) =
     c\<lparr>queryIn := (queryIn c)(l \<mapsto> pfsQuery (workOf c l)),
       sourceIn := (sourceIn c)(l \<mapsto> SOURCE_PFS),
       db := (db c)\<lparr>issued := issued (db c) @ [pfsQuery (workOf c l)]\<rparr>\<rparr>"
  by (simp add: preparePFS_def collectPFS_def snd_discard collectSHOWorPFS_snd queryOf_def)

lemma prepareSHOW_snd:
  "snd (prepareSHOW pf c l) =
     c\<lparr>queryIn := (queryIn c)(l \<mapsto> showQuery (workOf c l)),
       sourceIn := (sourceIn c)(l \<mapsto> SOURCE_SHOW),
       db := (db c)\<lparr>issued := issued (db c) @ [showQuery (workOf c l)]\<rparr>\<rparr>"
  by (simp add: prepareSHOW_def collectPFS_def snd_discard collectSHOWorPFS_snd queryOf_def)

lemma prepareSELECT_fst:
  "fst (prepareSELECT pf c l) =
     (case respond (db c) (issued (db c)) (selectQuery (workOf c l)) of
        Inl e \<Rightarrow> Returns (Some (DbError e))
      | Inr rows \<Rightarrow>
          (case selectRows pf (workOf c l) rows [] of
             Panics p \<Rightarrow> Panics p
           | Returns ms \<Rightarrow> Returns None))"
  by (simp add: prepareSELECT_def fst_discard collectSELECT_fst queryOf_def workOf_def
      split: sum.splits outcome.splits)

lemma preparePFS_fst:
  "fst (preparePFS pf c l) =
     (case respond (db c) (issued (db c)) (pfsQuery (workOf c l)) of
        Inl e \<Rightarrow> Returns (Some (DbError e))
      | Inr rows \<Rightarrow> Returns None)"
  by (simp add: preparePFS_def collectPFS_def fst_discard collectSHOWorPFS_fst queryOf_def
      split: sum.splits)

lemma prepareSHOW_fst:
  "fst (prepareSHOW pf c l) =
     (case respond (db c) (issued (db c)) (showQuery (workOf c l)) of
        Inl e \<Rightarrow> Returns (Some (DbError e))
      | Inr rows \<Rightarrow> Returns None)"
  by (simp add: prepareSHOW_def collectPFS_def fst_discard collectSHOWorPFS_fst queryOf_def
      split: sum.splits)

lemma prepareSELECT_eq:
  "prepareSELECT pf c l =
     ((case respond (db c) (issued (db c)) (selectQuery (workOf c l)) of
        Inl e \<Rightarrow> Returns (Some (DbError e))
      | Inr rows \<Rightarrow>
          (case selectRows pf (workOf c l) rows [] of
             Panics p \<Rightarrow> Panics p
           | Returns ms \<Rightarrow> Returns None)),
      c\<lparr>queryIn := (queryIn c)(l \<mapsto> selectQuery (workOf c l)),
        sourceIn := (sourceIn c)(l \<mapsto> SOURCE_SELECT),
        db := (db c)\<lparr>issued := issued (db c) @ [selectQuery (workOf c l)]\<rparr>\<rparr>)"
  by (simp add: prod_eq_iff prepareSELECT_fst prepareSELECT_snd)

lemma preparePFS_eq:
  "preparePFS pf c l =
     ((case respond (db c) (issued (db c)) (pfsQuery (workOf c l)) of
        Inl e \<Rightarrow> Returns (Some (DbError e))
      | Inr rows \<Rightarrow> Returns None),
      c\<lparr>queryIn := (queryIn c)(l \<mapsto> pfsQuery (workOf c l)),
        sourceIn := (sourceIn c)(l \<mapsto> SOURCE_PFS),
        db := (db c)\<lparr>issued := issued (db c) @ [pfsQuery (workOf c l)]\<rparr>\<rparr>)"
  by (simp add: prod_eq_iff preparePFS_fst preparePFS_snd)

lemma prepareSHOW_eq:
  "prepareSHOW pf c l =
     ((case respond (db c) (issued (db c)) (showQuery (workOf c l)) of
        Inl e \<Rightarrow> Returns (Some (DbError e))
      | Inr rows \<Rightarrow> Returns None),
      c\<lparr>queryIn := (queryIn c)(l \<mapsto> showQuery (workOf c l)),
        sourceIn := (sourceIn c)(l \<mapsto> SOURCE_SHOW),
        db := (db c)\<lparr>issued := issued (db c) @ [showQuery (workOf c l)]\<rparr>\<rparr>)"
  by (simp add: prod_eq_iff prepareSHOW_fst prepareSHOW_snd)

lemma workOf_prepare [simp]:
  "workOf (snd (prepareSELECT pf c l)) l' = workOf c l'"
  "workOf (snd (preparePFS pf c l)) l' = workOf c l'"
  "workOf (snd (prepareSHOW pf c l)) l' = workOf c l'"
  by (simp_all add: prepareSELECT_snd preparePFS_snd prepareSHOW_snd workOf_def)

lemma db_prepare:
  "db (snd (prepareSELECT pf c l)) = (db c)\<lparr>issued := issued (db c) @ [selectQuery (workOf c l)]\<rparr>"
  "db (snd (preparePFS pf c l)) = (db c)\<lparr>issued := issued (db c) @ [pfsQuery (workOf c l)]\<rparr>"
  "db (snd (prepareSHOW pf c l)) = (db c)\<lparr>issued := issued (db c) @ [showQuery (workOf c l)]\<rparr>"
  by (simp_all add: prepareSELECT_snd preparePFS_snd prepareSHOW_snd)

lemma prepare_fields:
  "domain (snd (prepareSELECT pf c l)) = domain c"
  "domain (snd (preparePFS pf c l)) = domain c"
  "domain (snd (prepareSHOW pf c l)) = domain c"
  "workIn (snd (prepareSELECT pf c l)) = workIn c"
  "workIn (snd (preparePFS pf c l)) = workIn c"
  "workIn (snd (prepareSHOW pf c l)) = workIn c"
  "sourceIn (snd (prepareSELECT pf c l)) = (sourceIn c)(l \<mapsto> SOURCE_SELECT)"
  "sourceIn (snd (preparePFS pf c l)) = (sourceIn c)(l \<mapsto> SOURCE_PFS)"
  "sourceIn (snd (prepareSHOW pf c l)) = (sourceIn c)(l \<mapsto> SOURCE_SHOW)"
  "queryIn (snd (prepareSELECT pf c l)) = (queryIn c)(l \<mapsto> selectQuery (workOf c l))"
  "queryIn (snd (preparePFS pf c l)) = (queryIn c)(l \<mapsto> pfsQuery (workOf c l))"
  "queryIn (snd (prepareSHOW pf c l)) = (queryIn c)(l \<mapsto> showQuery (workOf c l))"
  by (simp_all add: prepareSELECT_snd preparePFS_snd prepareSHOW_snd)

lemma SOURCE_distinct:
  "SOURCE_SELECT \<noteq> SOURCE_PFS" "SOURCE_SELECT \<noteq> SOURCE_SHOW" "SOURCE_PFS \<noteq> SOURCE_SHOW"
  "SOURCE_PFS \<noteq> SOURCE_SELECT" "SOURCE_SHOW \<noteq> SOURCE_SELECT" "SOURCE_SHOW \<noteq> SOURCE_PFS"
  "SOURCE_SELECT \<noteq> []" "SOURCE_PFS \<noteq> []" "SOURCE_SHOW \<noteq> []"
  by (simp_all add: SOURCE_SELECT_def SOURCE_PFS_def SOURCE_SHOW_def)

lemma SOURCE_manual:
  "SOURCE_SELECT \<noteq> [] \<and> SOURCE_SELECT \<noteq> ''auto''"
  "SOURCE_PFS \<noteq> [] \<and> SOURCE_PFS \<noteq> ''auto''"
  "SOURCE_SHOW \<noteq> [] \<and> SOURCE_SHOW \<noteq> ''auto''"
  by (simp_all add: SOURCE_SELECT_def SOURCE_PFS_def SOURCE_SHOW_def)

lemma Collect_Global_select:
  "sourceOf c l = SOURCE_SELECT \<Longrightarrow> Collect_Global pf c l = collectSELECT pf c l"
  by (simp add: Collect_Global_def)

lemma per_level_db_update:
  "sourceOf (c\<lparr>db := d\<rparr>) l = sourceOf c l"
  "queryOf (c\<lparr>db := d\<rparr>) l = queryOf c l"
  "workOf (c\<lparr>db := d\<rparr>) l = workOf c l"
  by (simp_all add: sourceOf_def queryOf_def workOf_def)

subsection \<open>The automatic source\<close>

lemma autoSource_select:
  assumes "respond (db c) (issued (db c)) (selectQuery (workOf c l)) = Inr rows"
  shows "autoSource pf c l = prepareSELECT pf c l"
proof -
  have "fst (prepareSELECT pf c l) \<noteq> Returns (Some e)" for e
    using assms by (simp add: prepareSELECT_fst split: outcome.splits)
  then show ?thesis
    by (cases "prepareSELECT pf c l" rule: prod.exhaust)
       (auto simp: autoSource_def split: outcome.splits option.splits)
qed

lemma autoSource_pfs:
  assumes "respond (db c) (issued (db c)) (selectQuery (workOf c l)) = Inl e1"
    and "respond (db c) (issued (db c) @ [selectQuery (workOf c l)]) (pfsQuery (workOf c l)) = Inr rows"
  shows "autoSource pf c l = (Returns None, snd (preparePFS pf (snd (prepareSELECT pf c l)) l))"
proof -
  have 1: "fst (prepareSELECT pf c l) = Returns (Some (DbError e1))"
    using assms(1) by (simp add: prepareSELECT_fst)
  have 2: "fst (preparePFS pf (snd (prepareSELECT pf c l)) l) = Returns None"
    using assms(2) by (simp add: preparePFS_fst db_prepare)
  show ?thesis
    using 1 2
    by (cases "prepareSELECT pf c l" rule: prod.exhaust,
        cases "preparePFS pf (snd (prepareSELECT pf c l)) l" rule: prod.exhaust)
       (simp add: autoSource_def)
qed

lemma autoSource_show:
  assumes "respond (db c) (issued (db c)) (selectQuery (workOf c l)) = Inl e1"
    and "respond (db c) (issued (db c) @ [selectQuery (workOf c l)]) (pfsQuery (workOf c l)) = Inl e2"
  shows "autoSource pf c l =
     ((case respond (db c) (issued (db c) @ [selectQuery (workOf c l), pfsQuery (workOf c l)])
              (showQuery (workOf c l)) of
         Inl e3 \<Rightarrow> Returns (Some (AutoSourceFailed (DbError e3)))
       | Inr rows \<Rightarrow> Returns None),
      snd (prepareSHOW pf (snd (preparePFS pf (snd (prepareSELECT pf c l)) l)) l))"
proof -
  have 1: "fst (prepareSELECT pf c l) = Returns (Some (DbError e1))"
    using assms(1) by (simp add: prepareSELECT_fst)
  have 2: "fst (preparePFS pf (snd (prepareSELECT pf c l)) l) = Returns (Some (DbError e2))"
    using assms(2) by (simp add: preparePFS_fst db_prepare)
  have 3: "fst (prepareSHOW pf (snd (preparePFS pf (snd (prepareSELECT pf c l)) l)) l) =
     (case respond (db c) (issued (db c) @ [selectQuery (workOf c l), pfsQuery (workOf c l)])
              (showQuery (workOf c l)) of
         Inl e3 \<Rightarrow> Returns (Some (DbError e3))
       | Inr rows \<Rightarrow> Returns None)"
    by (simp add: prepareSHOW_fst db_prepare)
  show ?thesis
    using 1 2 3
    by (cases "prepareSELECT pf c l" rule: prod.exhaust,
        cases "preparePFS pf (snd (prepareSELECT pf c l)) l" rule: prod.exhaust,
        cases "prepareSHOW pf (snd (preparePFS pf (snd (prepareSELECT pf c l)) l)) l" rule: prod.exhaust)
       (simp add: autoSource_def split: sum.splits)
qed

text \<open>The three ways \<open>autoSource\<close> can end, by the server's answers.\<close>

lemma autoSource_ends:
  obtains
    (by_select) "autoSource pf c l = prepareSELECT pf c l"
  | (by_pfs) "autoSource pf c l = (Returns None, snd (preparePFS pf (snd (prepareSELECT pf c l)) l))"
  | (by_show) r where "autoSource pf c l =
        (r, snd (prepareSHOW pf (snd (preparePFS pf (snd (prepareSELECT pf c l)) l)) l))"
proof (cases "respond (db c) (issued (db c)) (selectQuery (workOf c l))")
  case (Inr rows)
  then show ?thesis using by_select autoSource_select by blast
next
  case e1: (Inl e1)
  show ?thesis
  proof (cases "respond (db c) (issued (db c) @ [selectQuery (workOf c l)]) (pfsQuery (workOf c l))")
    case (Inr rows)
    with e1 show ?thesis using by_pfs autoSource_pfs by blast
  next
    case (Inl e2)
    with e1 show ?thesis using by_show autoSource_show by blast
  qed
qed

lemma autoSource_frame:
  "domain (snd (autoSource pf c l)) = domain c"
  "respond (db (snd (autoSource pf c l))) = respond (db c)"
  "workIn (snd (autoSource pf c l)) = workIn c"
  "l' \<noteq> l \<Longrightarrow> sourceIn (snd (autoSource pf c l)) l' = sourceIn c l'"
  "l' \<noteq> l \<Longrightarrow> queryIn (snd (autoSource pf c l)) l' = queryIn c l'"
  "\<exists>qs. issued (db (snd (autoSource pf c l))) = issued (db c) @ selectQuery (workOf c l) # qs"
  by (cases rule: autoSource_ends [of pf c l]; simp add: prepare_fields db_prepare)+

lemma autoSource_source:
  "sourceOf (snd (autoSource pf c l)) l \<in> {SOURCE_SELECT, SOURCE_PFS, SOURCE_SHOW}"
  by (cases rule: autoSource_ends [of pf c l]; simp add: prepare_fields sourceOf_def)

lemma autoSource_select_query:
  "sourceOf (snd (autoSource pf c l)) l = SOURCE_SELECT \<Longrightarrow>
   queryOf (snd (autoSource pf c l)) l = selectQuery (workOf c l)"
  by (cases rule: autoSource_ends [of pf c l];
      simp add: prepare_fields sourceOf_def queryOf_def SOURCE_distinct)

lemma autoSource_adopts_select:
  assumes "respond (db c) (issued (db c)) (selectQuery (workOf c l)) = Inr rows"
    and "\<forall>r\<in>set rows. \<forall>v. Scan1 r = Some v \<longrightarrow> length (workOf c l) \<le> length (Split v CHR '','')"
  shows "fst (autoSource pf c l) = Returns None"
    and "sourceOf (snd (autoSource pf c l)) l = SOURCE_SELECT"
    and "queryOf (snd (autoSource pf c l)) l = selectQuery (workOf c l)"
    and "issued (db (snd (autoSource pf c l))) = issued (db c) @ [selectQuery (workOf c l)]"
proof -
  note eq = autoSource_select [OF assms(1), of pf]
  obtain ms where "selectRows pf (workOf c l) rows [] = Returns ms"
    using selectRows_enough [OF assms(2)] by blast
  then show "fst (autoSource pf c l) = Returns None"
    by (simp add: eq prepareSELECT_fst assms(1))
  show "sourceOf (snd (autoSource pf c l)) l = SOURCE_SELECT"
    by (simp add: eq prepare_fields sourceOf_def)
  show "queryOf (snd (autoSource pf c l)) l = selectQuery (workOf c l)"
    by (simp add: eq prepare_fields queryOf_def)
  show "issued (db (snd (autoSource pf c l))) = issued (db c) @ [selectQuery (workOf c l)]"
    by (simp add: eq db_prepare)
qed

lemma autoSource_adopts_pfs:
  assumes "respond (db c) (issued (db c)) (selectQuery (workOf c l)) = Inl e1"
    and "respond (db c) (issued (db c) @ [selectQuery (workOf c l)]) (pfsQuery (workOf c l)) = Inr rows"
  shows "fst (autoSource pf c l) = Returns None"
    and "sourceOf (snd (autoSource pf c l)) l = SOURCE_PFS"
    and "queryOf (snd (autoSource pf c l)) l = pfsQuery (workOf c l)"
    and "issued (db (snd (autoSource pf c l))) =
           issued (db c) @ [selectQuery (workOf c l), pfsQuery (workOf c l)]"
  by (simp_all add: autoSource_pfs [OF assms, of pf] prepare_fields db_prepare sourceOf_def queryOf_def)

lemma autoSource_adopts_show:
  assumes "respond (db c) (issued (db c)) (selectQuery (workOf c l)) = Inl e1"
    and "respond (db c) (issued (db c) @ [selectQuery (workOf c l)]) (pfsQuery (workOf c l)) = Inl e2"
    and "respond (db c) (issued (db c) @ [selectQuery (workOf c l), pfsQuery (workOf c l)])
           (showQuery (workOf c l)) = Inr rows"
  shows "fst (autoSource pf c l) = Returns None"
    and "sourceOf (snd (autoSource pf c l)) l = SOURCE_SHOW"
    and "queryOf (snd (autoSource pf c l)) l = showQuery (workOf c l)"
    and "issued (db (snd (autoSource pf c l))) =
           issued (db c) @ [selectQuery (workOf c l), pfsQuery (workOf c l), showQuery (workOf c l)]"
  by (simp_all add: autoSource_show [OF assms(1,2), of pf] assms(3) prepare_fields db_prepare
      sourceOf_def queryOf_def)

lemma autoSource_all_fail:
  assumes "respond (db c) (issued (db c)) (selectQuery (workOf c l)) = Inl e1"
    and "respond (db c) (issued (db c) @ [selectQuery (workOf c l)]) (pfsQuery (workOf c l)) = Inl e2"
    and "respond (db c) (issued (db c) @ [selectQuery (workOf c l), pfsQuery (workOf c l)])
           (showQuery (workOf c l)) = Inl e3"
  shows "fst (autoSource pf c l) = Returns (Some (AutoSourceFailed (DbError e3)))"
    and "issued (db (snd (autoSource pf c l))) =
           issued (db c) @ [selectQuery (workOf c l), pfsQuery (workOf c l), showQuery (workOf c l)]"
  by (simp_all add: autoSource_show [OF assms(1,2), of pf] assms(3) prepare_fields db_prepare)

subsection \<open>Preparing one level\<close>

lemma prepareLevel_valid:
  assumes "validateMetricNames metrics = None"
  shows "prepareLevel pf c l metrics opts =
     (if optSource opts \<noteq> [] \<and> optSource opts \<noteq> ''auto'' then
        (if optSource opts = SOURCE_SELECT then
           prepareSELECT pf (c\<lparr>sourceIn := (sourceIn c)(l \<mapsto> []),
             queryIn := (queryIn c)(l \<mapsto> []), workIn := (workIn c)(l \<mapsto> metrics)\<rparr>) l
         else if optSource opts = SOURCE_PFS then
           preparePFS pf (c\<lparr>sourceIn := (sourceIn c)(l \<mapsto> []),
             queryIn := (queryIn c)(l \<mapsto> []), workIn := (workIn c)(l \<mapsto> metrics)\<rparr>) l
         else if optSource opts = SOURCE_SHOW then
           prepareSHOW pf (c\<lparr>sourceIn := (sourceIn c)(l \<mapsto> []),
             queryIn := (queryIn c)(l \<mapsto> []), workIn := (workIn c)(l \<mapsto> metrics)\<rparr>) l
         else (Returns (Some (InvalidSource (optSource opts))),
               c\<lparr>sourceIn := (sourceIn c)(l \<mapsto> []),
                 queryIn := (queryIn c)(l \<mapsto> []), workIn := (workIn c)(l \<mapsto> metrics)\<rparr>))
      else autoSource pf (c\<lparr>sourceIn := (sourceIn c)(l \<mapsto> []),
             queryIn := (queryIn c)(l \<mapsto> []), workIn := (workIn c)(l \<mapsto> metrics)\<rparr>) l)"
proof -
  have "optSource None = []" by (simp add: optSource_def)
  then show ?thesis
    using assms
    by (cases opts) (simp_all add: prepareLevel_def resetLevel_def workOf_def Let_def)
qed

lemma prepareLevel_auto:
  assumes "validateMetricNames metrics = None"
    and "optSource opts = [] \<or> optSource opts = ''auto''"
  shows "prepareLevel pf c l metrics opts =
     autoSource pf (c\<lparr>sourceIn := (sourceIn c)(l \<mapsto> []),
       queryIn := (queryIn c)(l \<mapsto> []), workIn := (workIn c)(l \<mapsto> metrics)\<rparr>) l"
proof -
  from assms(2) have n: "\<not> (optSource opts \<noteq> [] \<and> optSource opts \<noteq> ''auto'')" by blast
  show ?thesis
    unfolding prepareLevel_valid [OF assms(1)] if_not_P [OF n] by (rule refl)
qed

lemma prepareLevel_manual:
  assumes "validateMetricNames metrics = None"
  shows "optSource opts = SOURCE_SELECT \<Longrightarrow>
      prepareLevel pf c l metrics opts =
        prepareSELECT pf (c\<lparr>sourceIn := (sourceIn c)(l \<mapsto> []),
          queryIn := (queryIn c)(l \<mapsto> []), workIn := (workIn c)(l \<mapsto> metrics)\<rparr>) l"
    and "optSource opts = SOURCE_PFS \<Longrightarrow>
      prepareLevel pf c l metrics opts =
        preparePFS pf (c\<lparr>sourceIn := (sourceIn c)(l \<mapsto> []),
          queryIn := (queryIn c)(l \<mapsto> []), workIn := (workIn c)(l \<mapsto> metrics)\<rparr>) l"
    and "optSource opts = SOURCE_SHOW \<Longrightarrow>
      prepareLevel pf c l metrics opts =
        prepareSHOW pf (c\<lparr>sourceIn := (sourceIn c)(l \<mapsto> []),
          queryIn := (queryIn c)(l \<mapsto> []), workIn := (workIn c)(l \<mapsto> metrics)\<rparr>) l"
    and "optSource opts \<notin> {[], ''auto'', SOURCE_SELECT, SOURCE_PFS, SOURCE_SHOW} \<Longrightarrow>
      prepareLevel pf c l metrics opts =
        (Returns (Some (InvalidSource (optSource opts))),
         c\<lparr>sourceIn := (sourceIn c)(l \<mapsto> []),
           queryIn := (queryIn c)(l \<mapsto> []), workIn := (workIn c)(l \<mapsto> metrics)\<rparr>)"
  by (simp_all add: prepareLevel_valid [OF assms] SOURCE_manual SOURCE_distinct)

text \<open>The six ways \<open>prepareLevel\<close> can end.\<close>

lemma prepareLevel_ends:
  obtains
    (invalid_name) e where
      "prepareLevel pf c l metrics opts = (Returns (Some e), resetLevel c l)"
  | (invalid_source) src where "validateMetricNames metrics = None"
      "prepareLevel pf c l metrics opts =
         (Returns (Some (InvalidSource src)),
          c\<lparr>sourceIn := (sourceIn c)(l \<mapsto> []), queryIn := (queryIn c)(l \<mapsto> []),
            workIn := (workIn c)(l \<mapsto> metrics)\<rparr>)"
  | (manual_select) "validateMetricNames metrics = None"
      "prepareLevel pf c l metrics opts =
         prepareSELECT pf (c\<lparr>sourceIn := (sourceIn c)(l \<mapsto> []),
           queryIn := (queryIn c)(l \<mapsto> []), workIn := (workIn c)(l \<mapsto> metrics)\<rparr>) l"
  | (manual_pfs) "validateMetricNames metrics = None"
      "prepareLevel pf c l metrics opts =
         preparePFS pf (c\<lparr>sourceIn := (sourceIn c)(l \<mapsto> []),
           queryIn := (queryIn c)(l \<mapsto> []), workIn := (workIn c)(l \<mapsto> metrics)\<rparr>) l"
  | (manual_show) "validateMetricNames metrics = None"
      "prepareLevel pf c l metrics opts =
         prepareSHOW pf (c\<lparr>sourceIn := (sourceIn c)(l \<mapsto> []),
           queryIn := (queryIn c)(l \<mapsto> []), workIn := (workIn c)(l \<mapsto> metrics)\<rparr>) l"
  | (auto_source) "validateMetricNames metrics = None"
      "prepareLevel pf c l metrics opts =
         autoSource pf (c\<lparr>sourceIn := (sourceIn c)(l \<mapsto> []),
           queryIn := (queryIn c)(l \<mapsto> []), workIn := (workIn c)(l \<mapsto> metrics)\<rparr>) l"
proof (cases "validateMetricNames metrics")
  case (Some e)
  then have "prepareLevel pf c l metrics opts = (Returns (Some e), resetLevel c l)"
    by (simp add: prepareLevel_def)
  then show ?thesis by (rule invalid_name)
next
  case None
  note step = prepareLevel_valid [OF None, of pf c l opts]
  show ?thesis
  proof (cases "optSource opts \<noteq> [] \<and> optSource opts \<noteq> ''auto''")
    case False
    show ?thesis
      by (rule auto_source [OF None]) (unfold step if_not_P [OF False], rule refl)
  next
    case manual: True
    show ?thesis
    proof (cases "optSource opts = SOURCE_SELECT")
      case True
      show ?thesis
        by (rule manual_select [OF None]) (unfold step if_P [OF manual] if_P [OF True], rule refl)
    next
      case ns: False
      show ?thesis
      proof (cases "optSource opts = SOURCE_PFS")
        case True
        show ?thesis
          by (rule manual_pfs [OF None])
            (unfold step if_P [OF manual] if_not_P [OF ns] if_P [OF True], rule refl)
      next
        case np: False
        show ?thesis
        proof (cases "optSource opts = SOURCE_SHOW")
          case True
          show ?thesis
            by (rule manual_show [OF None])
              (unfold step if_P [OF manual] if_not_P [OF ns] if_not_P [OF np] if_P [OF True],
                rule refl)
        next
          case False
          show ?thesis
            by (rule invalid_source [OF None])
              (unfold step if_P [OF manual] if_not_P [OF ns] if_not_P [OF np] if_not_P [OF False],
                rule refl)
        qed
      qed
    qed
  qed
qed

lemma workOf_loaded:
  "workOf (c\<lparr>sourceIn := s, queryIn := q, workIn := (workIn c)(l \<mapsto> metrics)\<rparr>) l = metrics"
  by (simp add: workOf_def)

lemma db_loaded:
  "db (c\<lparr>sourceIn := s, queryIn := q, workIn := w\<rparr>) = db c"
  by simp

lemma prepareLevel_domain:
  "domain (snd (prepareLevel pf c l metrics opts)) = domain c"
  by (cases rule: prepareLevel_ends [of pf c l metrics opts])
    (simp_all add: prepare_fields autoSource_frame resetLevel_def)

lemma prepareLevel_respond:
  "respond (db (snd (prepareLevel pf c l metrics opts))) = respond (db c)"
  by (cases rule: prepareLevel_ends [of pf c l metrics opts])
    (simp_all add: db_prepare autoSource_frame resetLevel_def)

lemma prepareLevel_other:
  assumes "l' \<noteq> l"
  shows "sourceIn (snd (prepareLevel pf c l metrics opts)) l' = sourceIn c l'"
    and "queryIn (snd (prepareLevel pf c l metrics opts)) l' = queryIn c l'"
    and "workIn (snd (prepareLevel pf c l metrics opts)) l' = workIn c l'"
proof -
  show "sourceIn (snd (prepareLevel pf c l metrics opts)) l' = sourceIn c l'"
    using assms
    by (cases rule: prepareLevel_ends [of pf c l metrics opts])
      (simp_all add: prepare_fields autoSource_frame resetLevel_def)
  show "queryIn (snd (prepareLevel pf c l metrics opts)) l' = queryIn c l'"
    using assms
    by (cases rule: prepareLevel_ends [of pf c l metrics opts])
      (simp_all add: prepare_fields autoSource_frame resetLevel_def)
  show "workIn (snd (prepareLevel pf c l metrics opts)) l' = workIn c l'"
    using assms
    by (cases rule: prepareLevel_ends [of pf c l metrics opts])
      (simp_all add: prepare_fields autoSource_frame resetLevel_def)
qed

lemma prepareLevel_issued:
  "\<exists>qs. issued (db (snd (prepareLevel pf c l metrics opts))) = issued (db c) @ qs"
proof (cases rule: prepareLevel_ends [of pf c l metrics opts])
  case (auto_source)
  show ?thesis
    unfolding auto_source(2)
    using autoSource_frame(6) [of pf "c\<lparr>sourceIn := (sourceIn c)(l \<mapsto> []),
           queryIn := (queryIn c)(l \<mapsto> []), workIn := (workIn c)(l \<mapsto> metrics)\<rparr>" l]
    by auto
qed (simp_all add: db_prepare resetLevel_def)

lemma prepareLevel_success_issued:
  assumes "fst (prepareLevel pf c l metrics opts) = Returns None"
  shows "\<exists>q qs. issued (db (snd (prepareLevel pf c l metrics opts))) = issued (db c) @ q # qs"
proof (cases rule: prepareLevel_ends [of pf c l metrics opts])
  case (auto_source)
  show ?thesis
    unfolding auto_source(2)
    using autoSource_frame(6) [of pf "c\<lparr>sourceIn := (sourceIn c)(l \<mapsto> []),
           queryIn := (queryIn c)(l \<mapsto> []), workIn := (workIn c)(l \<mapsto> metrics)\<rparr>" l]
    by auto
qed (use assms in \<open>simp_all add: db_prepare\<close>)

lemma prepareLevel_success:
  assumes "fst (prepareLevel pf c l metrics opts) = Returns None"
  shows "sourceOf (snd (prepareLevel pf c l metrics opts)) l \<in> {SOURCE_SELECT, SOURCE_PFS, SOURCE_SHOW}"
    and "workOf (snd (prepareLevel pf c l metrics opts)) l = metrics"
    and "validateMetricNames metrics = None"
proof -
  show "sourceOf (snd (prepareLevel pf c l metrics opts)) l \<in> {SOURCE_SELECT, SOURCE_PFS, SOURCE_SHOW}"
  proof (cases rule: prepareLevel_ends [of pf c l metrics opts])
    case (auto_source)
    show ?thesis
      unfolding auto_source(2) by (rule autoSource_source)
  qed (use assms in \<open>simp_all add: prepare_fields sourceOf_def\<close>)
  show "workOf (snd (prepareLevel pf c l metrics opts)) l = metrics"
    using assms
    by (cases rule: prepareLevel_ends [of pf c l metrics opts])
      (simp_all add: prepare_fields autoSource_frame workOf_def)
  show "validateMetricNames metrics = None"
    using assms
    by (cases rule: prepareLevel_ends [of pf c l metrics opts]) simp_all
qed

lemma prepareLevel_success_select:
  assumes "fst (prepareLevel pf c l metrics opts) = Returns None"
    and "sourceOf (snd (prepareLevel pf c l metrics opts)) l = SOURCE_SELECT"
  shows "queryOf (snd (prepareLevel pf c l metrics opts)) l = selectQuery metrics"
proof (cases rule: prepareLevel_ends [of pf c l metrics opts])
  case (auto_source)
  show ?thesis
    using assms(2) autoSource_select_query [of pf "c\<lparr>sourceIn := (sourceIn c)(l \<mapsto> []),
           queryIn := (queryIn c)(l \<mapsto> []), workIn := (workIn c)(l \<mapsto> metrics)\<rparr>" l]
    unfolding auto_source(2) workOf_loaded by simp
qed (use assms in \<open>simp_all add: prepare_fields sourceOf_def queryOf_def SOURCE_distinct workOf_loaded\<close>)

lemma prepareLevel_adopts_select:
  assumes "validateMetricNames metrics = None"
    and "optSource opts = [] \<or> optSource opts = ''auto''"
    and "respond (db c) (issued (db c)) (selectQuery metrics) = Inr rows"
    and "\<forall>r\<in>set rows. \<forall>v. Scan1 r = Some v \<longrightarrow> length metrics \<le> length (Split v CHR '','')"
  shows "fst (prepareLevel pf c l metrics opts) = Returns None \<and>
         sourceOf (snd (prepareLevel pf c l metrics opts)) l = SOURCE_SELECT \<and>
         queryOf (snd (prepareLevel pf c l metrics opts)) l = selectQuery metrics \<and>
         issued (db (snd (prepareLevel pf c l metrics opts))) = issued (db c) @ [selectQuery metrics]"
  unfolding prepareLevel_auto [OF assms(1,2)]
  using autoSource_adopts_select [of "c\<lparr>sourceIn := (sourceIn c)(l \<mapsto> []),
       queryIn := (queryIn c)(l \<mapsto> []), workIn := (workIn c)(l \<mapsto> metrics)\<rparr>" l rows pf]
    assms(3,4)
  unfolding workOf_loaded db_loaded by blast

lemma prepareLevel_adopts_pfs:
  assumes "validateMetricNames metrics = None"
    and "optSource opts = [] \<or> optSource opts = ''auto''"
    and "respond (db c) (issued (db c)) (selectQuery metrics) = Inl e1"
    and "respond (db c) (issued (db c) @ [selectQuery metrics]) (pfsQuery metrics) = Inr rows"
  shows "fst (prepareLevel pf c l metrics opts) = Returns None \<and>
         sourceOf (snd (prepareLevel pf c l metrics opts)) l = SOURCE_PFS \<and>
         queryOf (snd (prepareLevel pf c l metrics opts)) l = pfsQuery metrics \<and>
         issued (db (snd (prepareLevel pf c l metrics opts))) =
           issued (db c) @ [selectQuery metrics, pfsQuery metrics]"
  unfolding prepareLevel_auto [OF assms(1,2)]
  using autoSource_adopts_pfs [of "c\<lparr>sourceIn := (sourceIn c)(l \<mapsto> []),
       queryIn := (queryIn c)(l \<mapsto> []), workIn := (workIn c)(l \<mapsto> metrics)\<rparr>" l e1 rows pf]
    assms(3,4)
  unfolding workOf_loaded db_loaded by blast

lemma prepareLevel_adopts_show:
  assumes "validateMetricNames metrics = None"
    and "optSource opts = [] \<or> optSource opts = ''auto''"
    and "respond (db c) (issued (db c)) (selectQuery metrics) = Inl e1"
    and "respond (db c) (issued (db c) @ [selectQuery metrics]) (pfsQuery metrics) = Inl e2"
    and "respond (db c) (issued (db c) @ [selectQuery metrics, pfsQuery metrics])
           (showQuery metrics) = Inr rows"
  shows "fst (prepareLevel pf c l metrics opts) = Returns None \<and>
         sourceOf (snd (prepareLevel pf c l metrics opts)) l = SOURCE_SHOW \<and>
         queryOf (snd (prepareLevel pf c l metrics opts)) l = showQuery metrics \<and>
         issued (db (snd (prepareLevel pf c l metrics opts))) =
           issued (db c) @ [selectQuery metrics, pfsQuery metrics, showQuery metrics]"
  unfolding prepareLevel_auto [OF assms(1,2)]
  using autoSource_adopts_show [of "c\<lparr>sourceIn := (sourceIn c)(l \<mapsto> []),
       queryIn := (queryIn c)(l \<mapsto> []), workIn := (workIn c)(l \<mapsto> metrics)\<rparr>" l e1 e2 rows pf]
    assms(3,4,5)
  unfolding workOf_loaded db_loaded by blast

lemma prepareLevel_auto_fails:
  assumes "validateMetricNames metrics = None"
    and "optSource opts = [] \<or> optSource opts = ''auto''"
    and "respond (db c) (issued (db c)) (selectQuery metrics) = Inl e1"
    and "respond (db c) (issued (db c) @ [selectQuery metrics]) (pfsQuery metrics) = Inl e2"
    and "respond (db c) (issued (db c) @ [selectQuery metrics, pfsQuery metrics])
           (showQuery metrics) = Inl e3"
  shows "fst (prepareLevel pf c l metrics opts) = Returns (Some (AutoSourceFailed (DbError e3))) \<and>
         issued (db (snd (prepareLevel pf c l metrics opts))) =
           issued (db c) @ [selectQuery metrics, pfsQuery metrics, showQuery metrics]"
  unfolding prepareLevel_auto [OF assms(1,2)]
  using autoSource_all_fail [of "c\<lparr>sourceIn := (sourceIn c)(l \<mapsto> []),
       queryIn := (queryIn c)(l \<mapsto> []), workIn := (workIn c)(l \<mapsto> metrics)\<rparr>" l e1 e2 e3 pf]
    assms(3,4,5)
  unfolding workOf_loaded db_loaded by blast

lemma prepareLevel_forced_select:
  assumes "validateMetricNames metrics = None" and "optSource opts = SOURCE_SELECT"
  shows "issued (db (snd (prepareLevel pf c l metrics opts))) = issued (db c) @ [selectQuery metrics] \<and>
         sourceOf (snd (prepareLevel pf c l metrics opts)) l = SOURCE_SELECT \<and>
         (\<forall>e. respond (db c) (issued (db c)) (selectQuery metrics) = Inl e \<longrightarrow>
              fst (prepareLevel pf c l metrics opts) = Returns (Some (DbError e)))"
  by (simp add: prepareLevel_manual(1) [OF assms] prepare_fields db_prepare prepareSELECT_fst
      workOf_loaded sourceOf_def)

lemma prepareLevel_forced_pfs:
  assumes "validateMetricNames metrics = None" and "optSource opts = SOURCE_PFS"
  shows "issued (db (snd (prepareLevel pf c l metrics opts))) = issued (db c) @ [pfsQuery metrics] \<and>
         sourceOf (snd (prepareLevel pf c l metrics opts)) l = SOURCE_PFS \<and>
         (\<forall>e. respond (db c) (issued (db c)) (pfsQuery metrics) = Inl e \<longrightarrow>
              fst (prepareLevel pf c l metrics opts) = Returns (Some (DbError e))) \<and>
         (\<forall>rows. respond (db c) (issued (db c)) (pfsQuery metrics) = Inr rows \<longrightarrow>
              fst (prepareLevel pf c l metrics opts) = Returns None)"
  by (simp add: prepareLevel_manual(2) [OF assms] prepare_fields db_prepare preparePFS_fst
      workOf_loaded sourceOf_def)

lemma prepareLevel_forced_show:
  assumes "validateMetricNames metrics = None" and "optSource opts = SOURCE_SHOW"
  shows "issued (db (snd (prepareLevel pf c l metrics opts))) = issued (db c) @ [showQuery metrics] \<and>
         sourceOf (snd (prepareLevel pf c l metrics opts)) l = SOURCE_SHOW \<and>
         (\<forall>e. respond (db c) (issued (db c)) (showQuery metrics) = Inl e \<longrightarrow>
              fst (prepareLevel pf c l metrics opts) = Returns (Some (DbError e))) \<and>
         (\<forall>rows. respond (db c) (issued (db c)) (showQuery metrics) = Inr rows \<longrightarrow>
              fst (prepareLevel pf c l metrics opts) = Returns None)"
  by (simp add: prepareLevel_manual(3) [OF assms] prepare_fields db_prepare prepareSHOW_fst
      workOf_loaded sourceOf_def)

lemma prepareLevel_invalid_source:
  assumes "validateMetricNames metrics = None"
    and "optSource opts \<notin> {[], ''auto'', SOURCE_SELECT, SOURCE_PFS, SOURCE_SHOW}"
  shows "fst (prepareLevel pf c l metrics opts) = Returns (Some (InvalidSource (optSource opts))) \<and>
         issued (db (snd (prepareLevel pf c l metrics opts))) = issued (db c)"
  by (simp add: prepareLevel_manual(4) [OF assms])

subsection \<open>The loop of Prepare\<close>

text \<open>One step of the loop, by the outcome of the level.\<close>

lemma prepareLevels_skip:
  "Collect_level level (domain c) = None \<Longrightarrow>
   prepareLevels pf c ((levelName, level) # rest) = prepareLevels pf c rest"
  by simp

lemma prepareLevels_ok:
  assumes "Collect_level level (domain c) = Some dm"
    and "fst (prepareLevel pf c levelName (Metrics dm) (Options dm)) = Returns None"
  shows "prepareLevels pf c ((levelName, level) # rest) =
     prepareLevels pf (snd (prepareLevel pf c levelName (Metrics dm) (Options dm))) rest"
  using assms
  by (cases "prepareLevel pf c levelName (Metrics dm) (Options dm)" rule: prod.exhaust) simp

lemma prepareLevels_stop:
  assumes "Collect_level level (domain c) = Some dm"
    and "fst (prepareLevel pf c levelName (Metrics dm) (Options dm)) \<noteq> Returns None"
  shows "prepareLevels pf c ((levelName, level) # rest) =
     prepareLevel pf c levelName (Metrics dm) (Options dm)"
  using assms
  by (cases "prepareLevel pf c levelName (Metrics dm) (Options dm)" rule: prod.exhaust)
    (auto split: outcome.splits option.splits)

lemma prepareLevels_domain: "domain (snd (prepareLevels pf c ls)) = domain c"
proof (induction ls arbitrary: c)
  case Nil
  show ?case by simp
next
  case (Cons x ls)
  obtain levelName level where x: "x = (levelName, level)" by (cases x)
  show ?case
  proof (cases "Collect_level level (domain c)")
    case None
    then show ?thesis using Cons.IH [of c] by (simp add: x)
  next
    case (Some dm)
    show ?thesis
    proof (cases "fst (prepareLevel pf c levelName (Metrics dm) (Options dm)) = Returns None")
      case True
      show ?thesis
        unfolding x prepareLevels_ok [OF Some True]
        by (simp add: Cons.IH prepareLevel_domain)
    next
      case False
      show ?thesis
        unfolding x prepareLevels_stop [OF Some False]
        by (rule prepareLevel_domain)
    qed
  qed
qed

lemma prepareLevels_append:
  assumes "fst (prepareLevels pf c xs) = Returns None"
  shows "prepareLevels pf c (xs @ ys) = prepareLevels pf (snd (prepareLevels pf c xs)) ys"
  using assms
proof (induction xs arbitrary: c)
  case Nil
  show ?case by simp
next
  case (Cons x xs)
  obtain levelName level where x: "x = (levelName, level)" by (cases x)
  show ?case
  proof (cases "Collect_level level (domain c)")
    case None
    then show ?thesis using Cons.IH [of c] Cons.prems by (simp add: x)
  next
    case (Some dm)
    show ?thesis
    proof (cases "fst (prepareLevel pf c levelName (Metrics dm) (Options dm)) = Returns None")
      case True
      have "fst (prepareLevels pf (snd (prepareLevel pf c levelName (Metrics dm) (Options dm))) xs)
          = Returns None"
        using Cons.prems unfolding x prepareLevels_ok [OF Some True] .
      from Cons.IH [OF this] show ?thesis
        unfolding x append_Cons prepareLevels_ok [OF Some True] .
    next
      case False
      with Cons.prems show ?thesis
        unfolding x prepareLevels_stop [OF Some False] by simp
    qed
  qed
qed

text \<open>A level name that the loop does not prepare keeps its state.\<close>

lemma prepareLevels_unvisited:
  assumes "\<forall>lv. (l, lv) \<in> set ls \<longrightarrow> Collect_level lv (domain c) = None"
  shows "sourceIn (snd (prepareLevels pf c ls)) l = sourceIn c l \<and>
         queryIn (snd (prepareLevels pf c ls)) l = queryIn c l \<and>
         workIn (snd (prepareLevels pf c ls)) l = workIn c l"
  using assms
proof (induction ls arbitrary: c)
  case Nil
  show ?case by simp
next
  case (Cons x ls)
  obtain levelName level where x: "x = (levelName, level)" by (cases x)
  from Cons.prems have rest: "\<forall>lv. (l, lv) \<in> set ls \<longrightarrow> Collect_level lv (domain c) = None"
    by simp
  show ?case
  proof (cases "Collect_level level (domain c)")
    case None
    then show ?thesis using Cons.IH [OF rest] by (simp add: x)
  next
    case (Some dm)
    with Cons.prems have ne: "l \<noteq> levelName" by (auto simp: x)
    let ?c1 = "snd (prepareLevel pf c levelName (Metrics dm) (Options dm))"
    show ?thesis
    proof (cases "fst (prepareLevel pf c levelName (Metrics dm) (Options dm)) = Returns None")
      case True
      have "\<forall>lv. (l, lv) \<in> set ls \<longrightarrow> Collect_level lv (domain ?c1) = None"
        using rest by (simp add: prepareLevel_domain)
      from Cons.IH [OF this] show ?thesis
        unfolding x prepareLevels_ok [OF Some True]
        by (simp add: prepareLevel_other [OF ne])
    next
      case False
      show ?thesis
        unfolding x prepareLevels_stop [OF Some False]
        by (simp add: prepareLevel_other [OF ne])
    qed
  qed
qed

text \<open>After a loop that returned nil, every level it prepared has a valid source tag, and
  so has every level that had one before.\<close>

lemma prepareLevels_sources:
  assumes "fst (prepareLevels pf c ls) = Returns None"
    and "sourceOf c l \<in> {SOURCE_SELECT, SOURCE_PFS, SOURCE_SHOW} \<or>
         (\<exists>lv. (l, lv) \<in> set ls \<and> Collect_level lv (domain c) \<noteq> None)"
  shows "sourceOf (snd (prepareLevels pf c ls)) l \<in> {SOURCE_SELECT, SOURCE_PFS, SOURCE_SHOW}"
  using assms
proof (induction ls arbitrary: c)
  case Nil
  then show ?case by simp
next
  case (Cons x ls)
  obtain levelName level where x: "x = (levelName, level)" by (cases x)
  show ?case
  proof (cases "Collect_level level (domain c)")
    case None
    have "fst (prepareLevels pf c ls) = Returns None"
      using Cons.prems(1) None by (simp add: x)
    moreover have "sourceOf c l \<in> {SOURCE_SELECT, SOURCE_PFS, SOURCE_SHOW} \<or>
         (\<exists>lv. (l, lv) \<in> set ls \<and> Collect_level lv (domain c) \<noteq> None)"
      using Cons.prems(2) None by (auto simp: x)
    ultimately show ?thesis
      using Cons.IH [of c] None by (simp add: x)
  next
    case (Some dm)
    let ?c1 = "snd (prepareLevel pf c levelName (Metrics dm) (Options dm))"
    have ok: "fst (prepareLevel pf c levelName (Metrics dm) (Options dm)) = Returns None"
    proof (rule ccontr)
      assume n: "fst (prepareLevel pf c levelName (Metrics dm) (Options dm)) \<noteq> Returns None"
      from Cons.prems(1) show False
        unfolding x prepareLevels_stop [OF Some n] using n by simp
    qed
    have rest: "fst (prepareLevels pf ?c1 ls) = Returns None"
      using Cons.prems(1) unfolding x prepareLevels_ok [OF Some ok] .
    have "sourceOf ?c1 l \<in> {SOURCE_SELECT, SOURCE_PFS, SOURCE_SHOW} \<or>
         (\<exists>lv. (l, lv) \<in> set ls \<and> Collect_level lv (domain ?c1) \<noteq> None)"
    proof (cases "l = levelName")
      case True
      then show ?thesis using prepareLevel_success(1) [OF ok] by simp
    next
      case False
      have "sourceOf ?c1 l = sourceOf c l"
        by (simp add: sourceOf_def prepareLevel_other [OF False])
      then show ?thesis
        using Cons.prems(2) False by (auto simp: x prepareLevel_domain)
    qed
    from Cons.IH [OF rest this] show ?thesis
      unfolding x prepareLevels_ok [OF Some ok] .
  qed
qed

subsection \<open>The concrete inputs\<close>

lemma two_metrics_valid: "validateMetricNames two_metrics = None"
  by (simp add: two_metrics_def MatchString_def validMetricChar_def)

lemma ParseFloat_decimal_examples:
  "ParseFloat_decimal ''151'' = Some 151"
  "ParseFloat_decimal ''134217728'' = Some 134217728"
  by (simp_all add: ParseFloat_decimal_def digitOf_def)

lemma selectQuery_two_metrics:
  "selectQuery two_metrics =
     ''SELECT CONCAT_WS('' @ [CHR 0x27] @ '','' @ [CHR 0x27] @
     '', @@GLOBAL.max_connections, @@GLOBAL.innodb_buffer_pool_size) v;''"
  by (simp add: selectQuery_def two_metrics_def)

lemma optSource_None: "optSource None = []"
  by (simp add: optSource_def)

lemma db_fixed_fields:
  "respond (db_fixed rows) h q = Inr rows" "issued (db_fixed rows) = []"
  by (simp_all add: db_fixed_def)

lemma db_short_row_fields:
  "respond db_short_row [] q = Inr [[Some ''151,134217728'']]"
  "h \<noteq> [] \<Longrightarrow> respond db_short_row h q = Inr [[Some ''151'']]"
  "issued db_short_row = []"
  by (simp_all add: db_short_row_def)

lemma domain_NewGlobal: "domain (NewGlobal d) = ''var.global''"
  by (simp add: NewGlobal_def)

lemma level_of_domain:
  "Collect_level (level_of metrics opts) ''var.global'' = Some \<lparr>Metrics = metrics, Options = opts\<rparr>"
  by (simp add: level_of_def)

lemma Prepare_plan_one:
  assumes "domain c = ''var.global''"
  shows "fst (prepareLevel pf c l metrics opts) = Returns None \<Longrightarrow>
           Prepare pf c (plan_one l metrics opts) =
             (Returns None, snd (prepareLevel pf c l metrics opts))"
    and "fst (prepareLevel pf c l metrics opts) \<noteq> Returns None \<Longrightarrow>
           Prepare pf c (plan_one l metrics opts) = prepareLevel pf c l metrics opts"
proof -
  have dm: "Collect_level (level_of metrics opts) (domain c) =
      Some \<lparr>Metrics = metrics, Options = opts\<rparr>"
    by (simp add: level_of_def assms)
  show "fst (prepareLevel pf c l metrics opts) = Returns None \<Longrightarrow>
           Prepare pf c (plan_one l metrics opts) =
             (Returns None, snd (prepareLevel pf c l metrics opts))"
    using prepareLevels_ok [OF dm, of pf l "[]"] by (simp add: Prepare_def plan_one_def)
  show "fst (prepareLevel pf c l metrics opts) \<noteq> Returns None \<Longrightarrow>
           Prepare pf c (plan_one l metrics opts) = prepareLevel pf c l metrics opts"
    using prepareLevels_stop [OF dm, of pf l "[]"] by (simp add: Prepare_def plan_one_def)
qed

lemma db_fixed_adopts_select:
  assumes "db c = db_fixed [[Some ''151,134217728'']]"
  shows "fst (prepareLevel pf c l two_metrics None) = Returns None \<and>
         sourceOf (snd (prepareLevel pf c l two_metrics None)) l = SOURCE_SELECT \<and>
         queryOf (snd (prepareLevel pf c l two_metrics None)) l = selectQuery two_metrics \<and>
         issued (db (snd (prepareLevel pf c l two_metrics None))) = [selectQuery two_metrics]"
proof -
  have enough: "\<forall>r\<in>set [[Some ''151,134217728'']]. \<forall>v. Scan1 r = Some v \<longrightarrow>
      length two_metrics \<le> length (Split v CHR '','')"
    by (simp add: two_metrics_def)
  have resp: "respond (db c) (issued (db c)) (selectQuery two_metrics) =
      Inr [[Some ''151,134217728'']]"
    by (simp add: assms db_fixed_fields)
  show ?thesis
    using prepareLevel_adopts_select [OF two_metrics_valid _ resp enough, of None pf l]
    by (simp add: optSource_None assms db_fixed_fields)
qed

lemma bad_name_invalid:
  "validateMetricNames [''max_connections'', ''bad name''] = Some (InvalidMetricName ''bad name'')"
  by (simp add: MatchString_def validMetricChar_def)

lemma prepareLevel_bad_name:
  "prepareLevel pf c l [''max_connections'', ''bad name''] opts =
     (Returns (Some (InvalidMetricName ''bad name'')), resetLevel c l)"
  by (simp add: prepareLevel_def bad_name_invalid del: validateMetricNames.simps)

lemma global_select_fields:
  "db (global_select d l work) = d"
  "domain (global_select d l work) = ''var.global''"
  "sourceOf (global_select d l work) l = SOURCE_SELECT"
  "l' \<noteq> l \<Longrightarrow> sourceOf (global_select d l work) l' = []"
  "l' \<noteq> l \<Longrightarrow> sourceIn (global_select d l work) l' = None"
  by (simp_all add: global_select_def sourceOf_def)

lemma global_select_collects:
  "fst (Collect_Global ParseFloat_decimal
          (global_select (db_fixed [[Some ''151,134217728'']]) ''l1'' two_metrics) ''l1'') =
     Returns ([\<lparr>Name = ''max_connections'', Value = 151, Type = GAUGE, Group = None, Meta = None\<rparr>,
               \<lparr>Name = ''innodb_buffer_pool_size'', Value = 134217728, Type = GAUGE,
                Group = None, Meta = None\<rparr>], None)"
proof -
  let ?c = "global_select (db_fixed [[Some ''151,134217728'']]) ''l1'' two_metrics"
  have w: "workOf ?c ''l1'' = two_metrics"
    by (simp add: global_select_def workOf_def)
  have r: "respond (db ?c) (issued (db ?c)) (queryOf ?c ''l1'') = Inr [[Some ''151,134217728'']]"
    by (simp add: global_select_fields db_fixed_fields)
  have s: "selectRows ParseFloat_decimal two_metrics [[Some ''151,134217728'']] [] =
     Returns [\<lparr>Name = ''max_connections'', Value = 151, Type = GAUGE, Group = None, Meta = None\<rparr>,
               \<lparr>Name = ''innodb_buffer_pool_size'', Value = 134217728, Type = GAUGE,
                Group = None, Meta = None\<rparr>]"
    by (simp add: two_metrics_def ParseFloat_decimal_examples)
  have src: "sourceOf ?c ''l1'' = SOURCE_SELECT"
    by (simp add: global_select_fields)
  show ?thesis
    by (simp add: Collect_Global_select [OF src] collectSELECT_fst w r s del: selectRows.simps)
qed

lemma sourceOf_resetLevel:
  "sourceOf (resetLevel c l) l = []"
  "l' \<noteq> l \<Longrightarrow> sourceOf (resetLevel c l) l' = sourceOf c l'"
  by (simp_all add: resetLevel_def sourceOf_def)

lemma Prepare_plan_then_bad:
  fixes pf :: "string \<Rightarrow> 'v option"
  defines "c0 \<equiv> global_select (db_fixed [[Some ''151,134217728'']]) ''l1'' two_metrics"
  defines "c1 \<equiv> snd (prepareLevel pf c0 ''l2'' two_metrics None)"
  shows "fst (prepareLevels pf c0 [(''l2'', level_of two_metrics None)]) = Returns None"
    and "snd (prepareLevels pf c0 [(''l2'', level_of two_metrics None)]) = c1"
    and "Prepare pf c0 plan_then_bad =
           (Returns (Some (InvalidMetricName ''bad name'')), resetLevel c1 ''l1'')"
    and "sourceOf c1 ''l2'' = SOURCE_SELECT"
proof -
  have d0: "db c0 = db_fixed [[Some ''151,134217728'']]"
    by (simp add: c0_def global_select_fields)
  have dom0: "Collect_level (level_of two_metrics None) (domain c0) =
      Some \<lparr>Metrics = two_metrics, Options = None\<rparr>"
    by (simp add: c0_def global_select_fields level_of_domain)
  have ok: "fst (prepareLevel pf c0 ''l2'' (Metrics \<lparr>Metrics = two_metrics, Options = None\<rparr>)
      (Options \<lparr>Metrics = two_metrics, Options = None\<rparr>)) = Returns None"
    using db_fixed_adopts_select [OF d0, of pf "''l2''"] by simp
  show src: "sourceOf c1 ''l2'' = SOURCE_SELECT"
    using db_fixed_adopts_select [OF d0, of pf "''l2''"] by (simp add: c1_def)
  have step: "prepareLevels pf c0 ((''l2'', level_of two_metrics None) # rest) =
      prepareLevels pf c1 rest" for rest
    using prepareLevels_ok [OF dom0 ok, of rest] by (simp add: c1_def)
  show "fst (prepareLevels pf c0 [(''l2'', level_of two_metrics None)]) = Returns None"
    unfolding step by simp
  show "snd (prepareLevels pf c0 [(''l2'', level_of two_metrics None)]) = c1"
    unfolding step by simp
  have dom1: "domain c1 = ''var.global''"
    by (simp add: c1_def prepareLevel_domain c0_def global_select_fields)
  show "Prepare pf c0 plan_then_bad =
           (Returns (Some (InvalidMetricName ''bad name'')), resetLevel c1 ''l1'')"
  proof -
    have "Prepare pf c0 plan_then_bad =
        prepareLevels pf c1 [(''l1'', level_of [''max_connections'', ''bad name''] None),
          (''l3'', level_of two_metrics None)]"
      by (simp add: Prepare_def plan_then_bad_def step del: prepareLevels.simps)
    then show ?thesis
      by (simp add: dom1 level_of_domain prepareLevel_bad_name)
  qed
qed
lemma db_pfs_only_fields:
  "respond db_pfs_only h (selectQuery work) = Inl ''unknown system variable''"
  "respond db_pfs_only h (pfsQuery work) = Inr [[Some ''max_connections'', Some ''151'']]"
  "issued db_pfs_only = []"
  by (simp_all add: db_pfs_only_def selectQuery_def pfsQuery_def)

lemma db_show_only_fields:
  "respond db_show_only h (selectQuery work) = Inl ''access denied''"
  "respond db_show_only h (pfsQuery work) = Inl ''access denied''"
  "respond db_show_only h (showQuery work) = Inr [[Some ''max_connections'', Some ''151'']]"
  "issued db_show_only = []"
  by (simp_all add: db_show_only_def selectQuery_def pfsQuery_def showQuery_def)

lemma optSource_examples:
  "optSource (Some [OPT_SOURCE \<mapsto> ''select'']) = SOURCE_SELECT"
  "optSource (Some [OPT_SOURCE \<mapsto> ''file'']) = ''file''"
  "''file'' \<notin> {[], ''auto'', SOURCE_SELECT, SOURCE_PFS, SOURCE_SHOW}"
  by (simp_all add: optSource_def SOURCE_SELECT_def SOURCE_PFS_def SOURCE_SHOW_def)

lemma optSource_examples2:
  "optSource (Some [OPT_SOURCE \<mapsto> ''pfs'']) = SOURCE_PFS"
  "optSource (Some [OPT_SOURCE \<mapsto> ''show'']) = SOURCE_SHOW"
  "optSource (Some [OPT_SOURCE \<mapsto> ''auto'']) = ''auto''"
  by (simp_all add: optSource_def SOURCE_PFS_def SOURCE_SHOW_def)
lemma db_down_fields:
  "respond db_down h q = Inl ''connection refused''" "issued db_down = []"
  by (simp_all add: db_down_def)

lemma selectQuery_no_metrics:
  "selectQuery [] = ''SELECT CONCAT_WS('' @ [CHR 0x27] @ '','' @ [CHR 0x27] @ '', ) v;''"
  by (simp add: selectQuery_def)

lemma no_metrics_adopts_select:
  assumes "db c = db_fixed []"
  shows "fst (prepareLevel pf c l [] None) = Returns None \<and>
         sourceOf (snd (prepareLevel pf c l [] None)) l = SOURCE_SELECT \<and>
         queryOf (snd (prepareLevel pf c l [] None)) l = selectQuery [] \<and>
         issued (db (snd (prepareLevel pf c l [] None))) = [selectQuery []]"
proof -
  have v: "validateMetricNames [] = None" by simp
  have resp: "respond (db c) (issued (db c)) (selectQuery []) = Inr []"
    by (simp add: assms db_fixed_fields)
  have enough: "\<forall>r\<in>set []. \<forall>v. Scan1 r = Some v \<longrightarrow> length [] \<le> length (Split v CHR '','')"
    by simp
  show ?thesis
    using prepareLevel_adopts_select [OF v _ resp enough, of None pf l]
    by (simp add: optSource_None assms db_fixed_fields)
qed

lemma adopts_pfs_show:
  "sourceOf (snd (prepareLevel pf (NewGlobal db_pfs_only) l two_metrics None)) l = SOURCE_PFS"
  "sourceOf (snd (prepareLevel pf (NewGlobal db_show_only) l two_metrics None)) l = SOURCE_SHOW"
proof -
  have a: "optSource None = [] \<or> optSource None = ''auto''"
    by (simp add: optSource_None)
  show "sourceOf (snd (prepareLevel pf (NewGlobal db_pfs_only) l two_metrics None)) l = SOURCE_PFS"
    using prepareLevel_adopts_pfs [OF two_metrics_valid a, of "NewGlobal db_pfs_only"
        "''unknown system variable''" "[[Some ''max_connections'', Some ''151'']]" pf l]
    by (simp add: NewGlobal_def db_pfs_only_fields)
  show "sourceOf (snd (prepareLevel pf (NewGlobal db_show_only) l two_metrics None)) l = SOURCE_SHOW"
    using prepareLevel_adopts_show [OF two_metrics_valid a, of "NewGlobal db_show_only"
        "''access denied''" "''access denied''" "[[Some ''max_connections'', Some ''151'']]" pf l]
    by (simp add: NewGlobal_def db_show_only_fields)
qed

lemma db_null_variable_fields:
  "respond db_null_variable h (selectQuery work) = Inr [[Some ''151'']]"
  "respond db_null_variable h (pfsQuery work) = Inr [[Some ''max_connections'', Some ''151'']]"
  "issued db_null_variable = []"
  by (simp_all add: db_null_variable_def selectQuery_def pfsQuery_def)

lemma short_row_panics:
  "selectRows ParseFloat_decimal two_metrics [[Some ''151'']] [] = Panics (IndexOutOfRange 1 1)"
  by (simp add: two_metrics_def ParseFloat_decimal_examples)

text \<open>Against the server that refuses every query, the automatic source fails after the
  show probe, whose tag stays.\<close>

lemma db_down_probes_fail:
  "fst (prepareLevel pf (NewGlobal db_down) l two_metrics None) =
     Returns (Some (AutoSourceFailed (DbError ''connection refused'')))"
  "sourceOf (snd (prepareLevel pf (NewGlobal db_down) l two_metrics None)) l = SOURCE_SHOW"
  "respond (db (snd (prepareLevel pf (NewGlobal db_down) l two_metrics None))) h q =
     Inl ''connection refused''"
proof -
  let ?c = "NewGlobal db_down"
  let ?c1 = "?c\<lparr>sourceIn := (sourceIn ?c)(l \<mapsto> []),
       queryIn := (queryIn ?c)(l \<mapsto> []), workIn := (workIn ?c)(l \<mapsto> two_metrics)\<rparr>"
  have a: "optSource None = [] \<or> optSource None = ''auto''"
    by (simp add: optSource_None)
  note eq = prepareLevel_auto [OF two_metrics_valid a, of pf ?c l]
  have dn: "db ?c = db_down" by (simp add: NewGlobal_def)
  have r1: "respond (db ?c1) (issued (db ?c1)) (selectQuery (workOf ?c1 l)) = Inl ''connection refused''"
    by (simp add: dn db_down_fields)
  have r2: "respond (db ?c1) (issued (db ?c1) @ [selectQuery (workOf ?c1 l)]) (pfsQuery (workOf ?c1 l)) =
      Inl ''connection refused''"
    by (simp add: dn db_down_fields)
  note au = autoSource_show [OF r1 r2, of pf]
  show "fst (prepareLevel pf ?c l two_metrics None) =
     Returns (Some (AutoSourceFailed (DbError ''connection refused'')))"
    unfolding eq au by (simp add: dn db_down_fields)
  show "sourceOf (snd (prepareLevel pf ?c l two_metrics None)) l = SOURCE_SHOW"
    unfolding eq au by (simp add: prepare_fields sourceOf_def)
  show "respond (db (snd (prepareLevel pf ?c l two_metrics None))) h q = Inl ''connection refused''"
    by (simp add: prepareLevel_respond dn db_down_fields)
qed

subsection \<open>Preparations that fail or panic\<close>

text \<open>The errors of the parts of \<open>prepareLevel\<close>: that of a metric name from the
  validation, that of the server from a forced source, that of the server, wrapped, from
  the automatic source.\<close>

lemma validateMetricNames_error:
  "validateMetricNames metrics = Some err \<Longrightarrow> \<exists>n. err = InvalidMetricName n"
  by (induction metrics) (auto split: if_splits)

lemma prepare_error:
  "fst (prepareSELECT pf c l) = Returns (Some err) \<Longrightarrow> \<exists>e. err = DbError e"
  "fst (preparePFS pf c l) = Returns (Some err) \<Longrightarrow> \<exists>e. err = DbError e"
  "fst (prepareSHOW pf c l) = Returns (Some err) \<Longrightarrow> \<exists>e. err = DbError e"
  by (auto simp: prepareSELECT_fst preparePFS_fst prepareSHOW_fst split: sum.splits outcome.splits)

lemma autoSource_error:
  assumes "fst (autoSource pf c l) = Returns (Some err)"
  shows "\<exists>e. err = AutoSourceFailed (DbError e)"
proof (cases "respond (db c) (issued (db c)) (selectQuery (workOf c l))")
  case (Inr rows)
  with assms show ?thesis
    by (simp add: autoSource_select [OF Inr] prepareSELECT_fst split: outcome.splits)
next
  case e1: (Inl e1)
  show ?thesis
  proof (cases "respond (db c) (issued (db c) @ [selectQuery (workOf c l)]) (pfsQuery (workOf c l))")
    case (Inr rows)
    with assms show ?thesis
      by (simp add: autoSource_pfs [OF e1 Inr])
  next
    case (Inl e2)
    with assms show ?thesis
      by (auto simp: autoSource_show [OF e1 Inl] split: sum.splits)
  qed
qed

text \<open>After a \<open>prepareLevel\<close> that returned an error: the tag of the level is empty
  when the error is that of a metric name or of the source option, and is the tag of
  the last source tried when the error is that of the probes.\<close>

lemma prepareLevel_failed_tag:
  assumes "fst (prepareLevel pf c l metrics opts) = Returns (Some err)"
  shows "((\<exists>n. err = InvalidMetricName n) \<or> (\<exists>s. err = InvalidSource s)) \<longrightarrow>
           sourceOf (snd (prepareLevel pf c l metrics opts)) l = []"
    and "((\<exists>e. err = DbError e) \<or> (\<exists>e. err = AutoSourceFailed e)) \<longrightarrow>
           sourceOf (snd (prepareLevel pf c l metrics opts)) l \<in>
             {SOURCE_SELECT, SOURCE_PFS, SOURCE_SHOW}"
proof -
  let ?c1 = "c\<lparr>sourceIn := (sourceIn c)(l \<mapsto> []),
       queryIn := (queryIn c)(l \<mapsto> []), workIn := (workIn c)(l \<mapsto> metrics)\<rparr>"
  have s1: "sourceOf ?c1 l = []"
    by (simp add: sourceOf_def)
  have both: "(((\<exists>n. err = InvalidMetricName n) \<or> (\<exists>s. err = InvalidSource s)) \<longrightarrow>
           sourceOf (snd (prepareLevel pf c l metrics opts)) l = []) \<and>
     (((\<exists>e. err = DbError e) \<or> (\<exists>e. err = AutoSourceFailed e)) \<longrightarrow>
           sourceOf (snd (prepareLevel pf c l metrics opts)) l \<in>
             {SOURCE_SELECT, SOURCE_PFS, SOURCE_SHOW})"
  proof (cases "validateMetricNames metrics")
    case (Some e)
    then have eq: "prepareLevel pf c l metrics opts = (Returns (Some e), resetLevel c l)"
      by (simp add: prepareLevel_def)
    with assms have "err = e" by simp
    with validateMetricNames_error [OF Some] obtain n where "err = InvalidMetricName n"
      by blast
    then show ?thesis
      by (simp add: eq sourceOf_resetLevel)
  next
    case None
    consider (auto_source) "optSource opts = [] \<or> optSource opts = ''auto''"
      | (by_select) "optSource opts = SOURCE_SELECT"
      | (by_pfs) "optSource opts = SOURCE_PFS"
      | (by_show) "optSource opts = SOURCE_SHOW"
      | (invalid) "optSource opts \<notin> {[], ''auto'', SOURCE_SELECT, SOURCE_PFS, SOURCE_SHOW}"
      by blast
    then show ?thesis
    proof cases
      case auto_source
      note eq = prepareLevel_auto [OF None auto_source, of pf c l]
      from assms obtain e where "err = AutoSourceFailed (DbError e)"
        unfolding eq using autoSource_error by blast
      then show ?thesis
        unfolding eq using autoSource_source [of pf ?c1 l] by simp
    next
      case by_select
      note eq = prepareLevel_manual(1) [OF None by_select, of pf c l]
      from assms obtain e where "err = DbError e"
        unfolding eq using prepare_error(1) by blast
      then show ?thesis
        unfolding eq by (simp add: prepare_fields sourceOf_def)
    next
      case by_pfs
      note eq = prepareLevel_manual(2) [OF None by_pfs, of pf c l]
      from assms obtain e where "err = DbError e"
        unfolding eq using prepare_error(2) by blast
      then show ?thesis
        unfolding eq by (simp add: prepare_fields sourceOf_def)
    next
      case by_show
      note eq = prepareLevel_manual(3) [OF None by_show, of pf c l]
      from assms obtain e where "err = DbError e"
        unfolding eq using prepare_error(3) by blast
      then show ?thesis
        unfolding eq by (simp add: prepare_fields sourceOf_def)
    next
      case invalid
      note eq = prepareLevel_manual(4) [OF None invalid, of pf c l]
      from assms have "err = InvalidSource (optSource opts)"
        unfolding eq by simp
      then show ?thesis
        unfolding eq using s1 by simp
    qed
  qed
  from both show "((\<exists>n. err = InvalidMetricName n) \<or> (\<exists>s. err = InvalidSource s)) \<longrightarrow>
           sourceOf (snd (prepareLevel pf c l metrics opts)) l = []"
    by (rule conjunct1)
  from both show "((\<exists>e. err = DbError e) \<or> (\<exists>e. err = AutoSourceFailed e)) \<longrightarrow>
           sourceOf (snd (prepareLevel pf c l metrics opts)) l \<in>
             {SOURCE_SELECT, SOURCE_PFS, SOURCE_SHOW}"
    by (rule conjunct2)
qed

lemma Collect_Global_no_tag:
  "sourceOf c l = [] \<Longrightarrow> Collect_Global pf c l = (Panics (InvalidSourceInCollect []), c)"
  by (simp add: Collect_Global_def SOURCE_distinct [symmetric])

lemma Prepare_unvisited_tag:
  assumes "\<forall>lv. (l, lv) \<in> set (Levels plan) \<longrightarrow> Collect_level lv ''var.global'' = None"
  shows "sourceOf (snd (Prepare pf (NewGlobal d) plan)) l = []"
proof -
  have "\<forall>lv. (l, lv) \<in> set (Levels plan) \<longrightarrow> Collect_level lv (domain (NewGlobal d)) = None"
    using assms by (simp add: domain_NewGlobal)
  from prepareLevels_unvisited [OF this, of pf]
  have "sourceIn (snd (Prepare pf (NewGlobal d) plan)) l = sourceIn (NewGlobal d) l"
    by (simp add: Prepare_def)
  then show ?thesis
    by (simp add: sourceOf_def NewGlobal_def)
qed

text \<open>The select probe on a row with fewer fields than metrics: the panic of
  \<open>collectSELECT\<close> leaves \<open>prepareLevel\<close>, with the select query the only one issued,
  under the automatic source as under the option \<open>select\<close>.\<close>

lemma prepareLevel_select_probe_panics:
  assumes "validateMetricNames metrics = None"
    and "optSource opts = [] \<or> optSource opts = ''auto'' \<or> optSource opts = SOURCE_SELECT"
    and "respond (db c) (issued (db c)) (selectQuery metrics) = Inr rows"
    and "selectRows pf metrics rows [] = Panics p"
  shows "fst (prepareLevel pf c l metrics opts) = Panics p"
    and "issued (db (snd (prepareLevel pf c l metrics opts))) = issued (db c) @ [selectQuery metrics]"
proof -
  let ?c1 = "c\<lparr>sourceIn := (sourceIn c)(l \<mapsto> []),
       queryIn := (queryIn c)(l \<mapsto> []), workIn := (workIn c)(l \<mapsto> metrics)\<rparr>"
  have r: "respond (db ?c1) (issued (db ?c1)) (selectQuery (workOf ?c1 l)) = Inr rows"
    unfolding workOf_loaded db_loaded by (rule assms(3))
  have eq: "prepareLevel pf c l metrics opts = prepareSELECT pf ?c1 l"
  proof (cases "optSource opts = SOURCE_SELECT")
    case True
    then show ?thesis by (rule prepareLevel_manual(1) [OF assms(1)])
  next
    case False
    with assms(2) have a: "optSource opts = [] \<or> optSource opts = ''auto''" by blast
    show ?thesis
      unfolding prepareLevel_auto [OF assms(1) a] by (rule autoSource_select [OF r])
  qed
  show "fst (prepareLevel pf c l metrics opts) = Panics p"
    by (simp add: eq prepareSELECT_fst workOf_loaded assms(3,4) del: selectRows.simps)
  show "issued (db (snd (prepareLevel pf c l metrics opts))) = issued (db c) @ [selectQuery metrics]"
    unfolding eq by (simp add: db_prepare workOf_loaded)
qed

text \<open>The only panic of the prepare functions is that of the index.\<close>

lemma autoSource_no_source_panic:
  "fst (autoSource pf c l) \<noteq> Panics (InvalidSourceInCollect s)"
proof (cases "respond (db c) (issued (db c)) (selectQuery (workOf c l))")
  case (Inr rows)
  show ?thesis
    unfolding autoSource_select [OF Inr] prepareSELECT_fst Inr
    using selectRows_no_source_panic [of pf "workOf c l" rows "[]" s]
    by (auto split: outcome.splits)
next
  case e1: (Inl e1)
  show ?thesis
  proof (cases "respond (db c) (issued (db c) @ [selectQuery (workOf c l)]) (pfsQuery (workOf c l))")
    case (Inr rows)
    show ?thesis
      by (simp add: autoSource_pfs [OF e1 Inr])
  next
    case (Inl e2)
    show ?thesis
      by (auto simp: autoSource_show [OF e1 Inl] split: sum.splits)
  qed
qed

lemma prepareLevel_no_source_panic:
  "fst (prepareLevel pf c l metrics opts) \<noteq> Panics (InvalidSourceInCollect s)"
proof (cases rule: prepareLevel_ends [of pf c l metrics opts])
  case manual_select
  show ?thesis
    unfolding manual_select(2) prepareSELECT_fst
    using selectRows_no_source_panic [of pf _ _ "[]" s]
    by (auto split: sum.splits outcome.splits)
next
  case auto_source
  show ?thesis
    unfolding auto_source(2) by (rule autoSource_no_source_panic)
qed (simp_all add: preparePFS_fst prepareSHOW_fst split: sum.splits)

lemma prepareLevels_no_source_panic:
  "fst (prepareLevels pf c ls) \<noteq> Panics (InvalidSourceInCollect s)"
proof (induction ls arbitrary: c)
  case Nil
  show ?case by simp
next
  case (Cons x ls)
  obtain levelName level where x: "x = (levelName, level)" by (cases x)
  show ?case
  proof (cases "Collect_level level (domain c)")
    case None
    then show ?thesis using Cons.IH [of c] by (simp add: x)
  next
    case (Some dm)
    show ?thesis
    proof (cases "fst (prepareLevel pf c levelName (Metrics dm) (Options dm)) = Returns None")
      case True
      show ?thesis
        unfolding x prepareLevels_ok [OF Some True] by (rule Cons.IH)
    next
      case False
      show ?thesis
        unfolding x prepareLevels_stop [OF Some False] by (rule prepareLevel_no_source_panic)
    qed
  qed
qed

text \<open>A level whose source option is none of select, pfs, show, auto, or empty is not
  prepared: its \<open>prepareLevel\<close> returns an error, that of the option or that of a metric
  name.\<close>

lemma prepareLevel_invalid_option:
  assumes "optSource opts \<notin> {[], ''auto'', SOURCE_SELECT, SOURCE_PFS, SOURCE_SHOW}"
  shows "\<exists>err. fst (prepareLevel pf c l metrics opts) = Returns (Some err)"
proof (cases "validateMetricNames metrics")
  case None
  from prepareLevel_invalid_source [OF None assms, of pf c l] show ?thesis by blast
next
  case (Some e)
  then show ?thesis by (simp add: prepareLevel_def)
qed

text \<open>\<open>Prepare\<close> on a plan with such a level does not return nil: it returns an error
  (that of the level, or that of a level visited before it), unless a level visited
  before it ends in the panic of the index.\<close>

lemma prepareLevels_invalid_source:
  assumes "(l, lv) \<in> set ls"
    and "Collect_level lv (domain c) = Some dm"
    and "optSource (Options dm) \<notin> {[], ''auto'', SOURCE_SELECT, SOURCE_PFS, SOURCE_SHOW}"
  shows "fst (prepareLevels pf c ls) \<noteq> Returns None"
  using assms(1,2)
proof (induction ls arbitrary: c)
  case Nil
  then show ?case by simp
next
  case (Cons x ls)
  obtain levelName level where x: "x = (levelName, level)" by (cases x)
  show ?case
  proof (cases "Collect_level level (domain c)")
    case None
    with Cons.prems have "(l, lv) \<in> set ls" by (auto simp: x)
    from Cons.IH [OF this Cons.prems(2)] None show ?thesis by (simp add: x)
  next
    case (Some dm')
    show ?thesis
    proof (cases "fst (prepareLevel pf c levelName (Metrics dm') (Options dm')) = Returns None")
      case False
      then show ?thesis
        unfolding x prepareLevels_stop [OF Some False] .
    next
      case True
      have "(l, lv) \<noteq> (levelName, level)"
      proof
        assume "(l, lv) = (levelName, level)"
        with Some Cons.prems(2) have "dm' = dm" by simp
        with True prepareLevel_invalid_option [OF assms(3), of pf c levelName "Metrics dm"]
        show False by simp
      qed
      with Cons.prems(1) have mem: "(l, lv) \<in> set ls" by (auto simp: x)
      have "Collect_level lv (domain (snd (prepareLevel pf c levelName (Metrics dm') (Options dm')))) =
          Some dm"
        using Cons.prems(2) by (simp add: prepareLevel_domain)
      from Cons.IH [OF mem this] show ?thesis
        unfolding x prepareLevels_ok [OF Some True] .
    qed
  qed
qed

lemma Prepare_invalid_source:
  assumes "(l, lv) \<in> set (Levels plan)"
    and "Collect_level lv (domain c) = Some dm"
    and "optSource (Options dm) \<notin> {[], ''auto'', SOURCE_SELECT, SOURCE_PFS, SOURCE_SHOW}"
  shows "(\<exists>err. fst (Prepare pf c plan) = Returns (Some err)) \<or>
         (\<exists>i n. fst (Prepare pf c plan) = Panics (IndexOutOfRange i n))"
proof (cases "fst (Prepare pf c plan)")
  case (Returns r)
  with prepareLevels_invalid_source [OF assms [unfolded Prepare_def], of pf]
  show ?thesis by (cases r) (simp_all add: Prepare_def)
next
  case (Panics p)
  with prepareLevels_no_source_panic [of pf c "Levels plan"]
  show ?thesis by (cases p) (simp_all add: Prepare_def)
qed

text \<open>On a plan of one level with valid metric names, the error is that of the option
  and no query is issued.\<close>

lemma Prepare_invalid_source_one:
  assumes "domain c = ''var.global''"
    and "validateMetricNames metrics = None"
    and "optSource opts \<notin> {[], ''auto'', SOURCE_SELECT, SOURCE_PFS, SOURCE_SHOW}"
  shows "fst (Prepare pf c (plan_one l metrics opts)) = Returns (Some (InvalidSource (optSource opts)))"
    and "issued (db (snd (Prepare pf c (plan_one l metrics opts)))) = issued (db c)"
proof -
  note e = prepareLevel_invalid_source [OF assms(2,3), of pf c l]
  then have "fst (prepareLevel pf c l metrics opts) \<noteq> Returns None" by simp
  note P = Prepare_plan_one(2) [OF assms(1) this]
  show "fst (Prepare pf c (plan_one l metrics opts)) = Returns (Some (InvalidSource (optSource opts)))"
    unfolding P using e by (rule conjunct1)
  show "issued (db (snd (Prepare pf c (plan_one l metrics opts)))) = issued (db c)"
    unfolding P using e by (rule conjunct2)
qed

lemma Prepare_invalid_source_example:
  "fst (Prepare ParseFloat_decimal (NewGlobal db_pfs_only)
         (plan_one ''l1'' two_metrics (Some [OPT_SOURCE \<mapsto> ''file'']))) =
     Returns (Some (InvalidSource ''file'')) \<and>
   issued (db (snd (Prepare ParseFloat_decimal (NewGlobal db_pfs_only)
         (plan_one ''l1'' two_metrics (Some [OPT_SOURCE \<mapsto> ''file'']))))) = []"
proof -
  have inv: "optSource (Some [OPT_SOURCE \<mapsto> ''file'']) \<notin>
      {[], ''auto'', SOURCE_SELECT, SOURCE_PFS, SOURCE_SHOW}"
    unfolding optSource_examples(2) by (rule optSource_examples(3))
  note T = Prepare_invalid_source_one [OF domain_NewGlobal two_metrics_valid inv,
      of ParseFloat_decimal db_pfs_only "''l1''"]
  have "issued (db (NewGlobal db_pfs_only)) = []"
    by (simp add: NewGlobal_def db_pfs_only_fields)
  with T show ?thesis
    unfolding optSource_examples(2) by simp
qed

subsection \<open>Prepare and its failures\<close>

text \<open>
  C1, as the claim states it, fails. A collector holds level \<open>l1\<close> prepared with the
  select source. Prepare of a plan that visits \<open>l2\<close> (which prepares), then \<open>l1\<close>
  with the metric name \<open>bad name\<close>, returns the error of that name; afterwards the
  source tag of \<open>l1\<close> is empty, so that Collect of \<open>l1\<close> panics where it collected
  before, and \<open>l2\<close>, prepared earlier in the same call, has the tag select.
\<close>

theorem Prepare_not_all_or_nothing_counterexample:
  "sourceOf (global_select (db_fixed [[Some ''151,134217728'']]) ''l1'' two_metrics) ''l1'' =
     SOURCE_SELECT \<and>
   sourceOf (global_select (db_fixed [[Some ''151,134217728'']]) ''l1'' two_metrics) ''l2'' = [] \<and>
   fst (Collect_Global ParseFloat_decimal
          (global_select (db_fixed [[Some ''151,134217728'']]) ''l1'' two_metrics) ''l1'') =
     Returns ([\<lparr>Name = ''max_connections'', Value = 151, Type = GAUGE, Group = None, Meta = None\<rparr>,
               \<lparr>Name = ''innodb_buffer_pool_size'', Value = 134217728, Type = GAUGE,
                Group = None, Meta = None\<rparr>], None) \<and>
   fst (Prepare ParseFloat_decimal
          (global_select (db_fixed [[Some ''151,134217728'']]) ''l1'' two_metrics) plan_then_bad) =
     Returns (Some (InvalidMetricName ''bad name'')) \<and>
   sourceOf (snd (Prepare ParseFloat_decimal
          (global_select (db_fixed [[Some ''151,134217728'']]) ''l1'' two_metrics) plan_then_bad))
      ''l1'' = [] \<and>
   sourceOf (snd (Prepare ParseFloat_decimal
          (global_select (db_fixed [[Some ''151,134217728'']]) ''l1'' two_metrics) plan_then_bad))
      ''l2'' = SOURCE_SELECT \<and>
   fst (Collect_Global ParseFloat_decimal (snd (Prepare ParseFloat_decimal
          (global_select (db_fixed [[Some ''151,134217728'']]) ''l1'' two_metrics) plan_then_bad))
      ''l1'') = Panics (InvalidSourceInCollect [])"
  using global_select_collects
  by (simp add: Prepare_plan_then_bad(3,4) global_select_fields sourceOf_resetLevel
      Collect_Global_def [of _ "resetLevel c l" for c l] SOURCE_distinct [symmetric])

text \<open>
  C1, amended. Prepare visits the levels in turn and stops at the first level with the
  var.global domain whose preparation fails: when the levels before it prepare without
  error, Prepare returns the error of that level and leaves the collector as the failed
  \<open>prepareLevel\<close> left it. The state (\<open>sourceIn\<close>, \<open>queryIn\<close>, \<open>workIn\<close>) of
  every level name other than the failing one and the ones prepared before it is what it
  was before the call.
\<close>

theorem Prepare_stops_at_first_failure:
  assumes split: "Levels plan = pre @ (levelName, level) # post"
    and pre_ok: "fst (prepareLevels pf c pre) = Returns None"
    and dm: "Collect_level level (domain c) = Some dm"
    and fail: "fst (prepareLevel pf (snd (prepareLevels pf c pre)) levelName (Metrics dm) (Options dm))
                 = Returns (Some err)"
  shows "fst (Prepare pf c plan) = Returns (Some err) \<and>
     snd (Prepare pf c plan) =
       snd (prepareLevel pf (snd (prepareLevels pf c pre)) levelName (Metrics dm) (Options dm)) \<and>
     (\<forall>l. l \<noteq> levelName \<and> (\<forall>lv. (l, lv) \<in> set pre \<longrightarrow> Collect_level lv (domain c) = None) \<longrightarrow>
        sourceIn (snd (Prepare pf c plan)) l = sourceIn c l \<and>
        queryIn (snd (Prepare pf c plan)) l = queryIn c l \<and>
        workIn (snd (Prepare pf c plan)) l = workIn c l)"
proof -
  let ?c1 = "snd (prepareLevels pf c pre)"
  have dm1: "Collect_level level (domain ?c1) = Some dm"
    using dm by (simp add: prepareLevels_domain)
  have stop: "fst (prepareLevel pf ?c1 levelName (Metrics dm) (Options dm)) \<noteq> Returns None"
    using fail by simp
  have eq: "Prepare pf c plan = prepareLevel pf ?c1 levelName (Metrics dm) (Options dm)"
    unfolding Prepare_def split prepareLevels_append [OF pre_ok]
    by (rule prepareLevels_stop [OF dm1 stop])
  have frame: "sourceIn (snd (Prepare pf c plan)) l = sourceIn c l \<and>
        queryIn (snd (Prepare pf c plan)) l = queryIn c l \<and>
        workIn (snd (Prepare pf c plan)) l = workIn c l"
    if ne: "l \<noteq> levelName"
      and un: "\<forall>lv. (l, lv) \<in> set pre \<longrightarrow> Collect_level lv (domain c) = None" for l
    using prepareLevels_unvisited [OF un, of pf]
    by (simp add: eq prepareLevel_other [OF ne])
  show ?thesis
    using fail frame by (simp add: eq)
qed

theorem Prepare_stops_at_first_failure_witness:
  "Levels plan_then_bad =
     [(''l2'', level_of two_metrics None)] @
     (''l1'', level_of [''max_connections'', ''bad name''] None) #
     [(''l3'', level_of two_metrics None)] \<and>
   fst (prepareLevels ParseFloat_decimal
          (global_select (db_fixed [[Some ''151,134217728'']]) ''l1'' two_metrics)
          [(''l2'', level_of two_metrics None)]) = Returns None \<and>
   fst (Prepare ParseFloat_decimal
          (global_select (db_fixed [[Some ''151,134217728'']]) ''l1'' two_metrics) plan_then_bad) =
     Returns (Some (InvalidMetricName ''bad name'')) \<and>
   sourceIn (snd (Prepare ParseFloat_decimal
          (global_select (db_fixed [[Some ''151,134217728'']]) ''l1'' two_metrics) plan_then_bad))
      ''l3'' = None"
proof -
  let ?c0 = "global_select (db_fixed [[Some ''151,134217728'']]) ''l1'' two_metrics"
  let ?bad = "level_of [''max_connections'', ''bad name''] None"
  let ?dm = "\<lparr>Metrics = [''max_connections'', ''bad name''], Options = None\<rparr>"
  have split: "Levels plan_then_bad =
     [(''l2'', level_of two_metrics None)] @ (''l1'', ?bad) # [(''l3'', level_of two_metrics None)]"
    by (simp add: plan_then_bad_def)
  have pre_ok: "fst (prepareLevels ParseFloat_decimal ?c0 [(''l2'', level_of two_metrics None)]) =
      Returns None"
    by (rule Prepare_plan_then_bad(1))
  have dm: "Collect_level ?bad (domain ?c0) = Some ?dm"
    by (simp add: global_select_fields level_of_domain)
  have fail: "fst (prepareLevel ParseFloat_decimal
      (snd (prepareLevels ParseFloat_decimal ?c0 [(''l2'', level_of two_metrics None)])) ''l1''
      (Metrics ?dm) (Options ?dm)) = Returns (Some (InvalidMetricName ''bad name''))"
    by (simp add: prepareLevel_bad_name del: prepareLevels.simps)
  have un: "''l3'' \<noteq> ''l1'' \<and>
      (\<forall>lv. (''l3'', lv) \<in> set [(''l2'', level_of two_metrics None)] \<longrightarrow>
         Collect_level lv (domain ?c0) = None)"
    by simp
  note T = Prepare_stops_at_first_failure [OF split pre_ok dm fail]
  from T have err: "fst (Prepare ParseFloat_decimal ?c0 plan_then_bad) =
      Returns (Some (InvalidMetricName ''bad name''))"
    by (rule conjunct1)
  have "sourceIn (snd (Prepare ParseFloat_decimal ?c0 plan_then_bad)) ''l3'' =
      sourceIn ?c0 ''l3''"
    by (rule T [THEN conjunct2, THEN conjunct2, THEN spec, THEN mp, OF un, THEN conjunct1])
  then have l3: "sourceIn (snd (Prepare ParseFloat_decimal ?c0 plan_then_bad)) ''l3'' = None"
    by (simp add: global_select_fields)
  from split pre_ok err l3 show ?thesis
    by (intro conjI)
qed

subsection \<open>The order of the sources\<close>

text \<open>
  For valid metric names: when the source option is absent, empty or \<open>auto\<close>,
  \<open>prepareLevel\<close> issues the select query first and adopts select when the server
  answers it (with a field for every metric in each row); when the server refuses it, it
  issues the pfs query next and adopts pfs when that is answered; when that is refused
  too, it issues the show query and adopts show when that is answered; when all three
  are refused it returns an error, having issued exactly these three queries in this
  order. With the option \<open>select\<close>, \<open>pfs\<close> or \<open>show\<close> it issues the query of that
  source only, and a refusal is the result, with no other source tried. Any other
  value is an error, with no query issued.
\<close>

lemma prepareLevel_source_order:
  assumes valid: "validateMetricNames metrics = None"
  shows
  "(optSource opts = [] \<or> optSource opts = ''auto'' \<longrightarrow>
      (\<forall>rows. respond (db c) (issued (db c)) (selectQuery metrics) = Inr rows \<and>
          (\<forall>r\<in>set rows. \<forall>v. Scan1 r = Some v \<longrightarrow> length metrics \<le> length (Split v CHR '','')) \<longrightarrow>
          fst (prepareLevel pf c l metrics opts) = Returns None \<and>
          sourceOf (snd (prepareLevel pf c l metrics opts)) l = SOURCE_SELECT \<and>
          queryOf (snd (prepareLevel pf c l metrics opts)) l = selectQuery metrics \<and>
          issued (db (snd (prepareLevel pf c l metrics opts))) = issued (db c) @ [selectQuery metrics]) \<and>
      (\<forall>e1 rows. respond (db c) (issued (db c)) (selectQuery metrics) = Inl e1 \<and>
          respond (db c) (issued (db c) @ [selectQuery metrics]) (pfsQuery metrics) = Inr rows \<longrightarrow>
          fst (prepareLevel pf c l metrics opts) = Returns None \<and>
          sourceOf (snd (prepareLevel pf c l metrics opts)) l = SOURCE_PFS \<and>
          queryOf (snd (prepareLevel pf c l metrics opts)) l = pfsQuery metrics \<and>
          issued (db (snd (prepareLevel pf c l metrics opts))) =
            issued (db c) @ [selectQuery metrics, pfsQuery metrics]) \<and>
      (\<forall>e1 e2 rows. respond (db c) (issued (db c)) (selectQuery metrics) = Inl e1 \<and>
          respond (db c) (issued (db c) @ [selectQuery metrics]) (pfsQuery metrics) = Inl e2 \<and>
          respond (db c) (issued (db c) @ [selectQuery metrics, pfsQuery metrics])
            (showQuery metrics) = Inr rows \<longrightarrow>
          fst (prepareLevel pf c l metrics opts) = Returns None \<and>
          sourceOf (snd (prepareLevel pf c l metrics opts)) l = SOURCE_SHOW \<and>
          queryOf (snd (prepareLevel pf c l metrics opts)) l = showQuery metrics \<and>
          issued (db (snd (prepareLevel pf c l metrics opts))) =
            issued (db c) @ [selectQuery metrics, pfsQuery metrics, showQuery metrics]) \<and>
      (\<forall>e1 e2 e3. respond (db c) (issued (db c)) (selectQuery metrics) = Inl e1 \<and>
          respond (db c) (issued (db c) @ [selectQuery metrics]) (pfsQuery metrics) = Inl e2 \<and>
          respond (db c) (issued (db c) @ [selectQuery metrics, pfsQuery metrics])
            (showQuery metrics) = Inl e3 \<longrightarrow>
          fst (prepareLevel pf c l metrics opts) = Returns (Some (AutoSourceFailed (DbError e3))) \<and>
          issued (db (snd (prepareLevel pf c l metrics opts))) =
            issued (db c) @ [selectQuery metrics, pfsQuery metrics, showQuery metrics])) \<and>
   (optSource opts = SOURCE_SELECT \<longrightarrow>
      issued (db (snd (prepareLevel pf c l metrics opts))) = issued (db c) @ [selectQuery metrics] \<and>
      sourceOf (snd (prepareLevel pf c l metrics opts)) l = SOURCE_SELECT \<and>
      (\<forall>e. respond (db c) (issued (db c)) (selectQuery metrics) = Inl e \<longrightarrow>
           fst (prepareLevel pf c l metrics opts) = Returns (Some (DbError e)))) \<and>
   (optSource opts = SOURCE_PFS \<longrightarrow>
      issued (db (snd (prepareLevel pf c l metrics opts))) = issued (db c) @ [pfsQuery metrics] \<and>
      sourceOf (snd (prepareLevel pf c l metrics opts)) l = SOURCE_PFS \<and>
      (\<forall>e. respond (db c) (issued (db c)) (pfsQuery metrics) = Inl e \<longrightarrow>
           fst (prepareLevel pf c l metrics opts) = Returns (Some (DbError e))) \<and>
      (\<forall>rows. respond (db c) (issued (db c)) (pfsQuery metrics) = Inr rows \<longrightarrow>
           fst (prepareLevel pf c l metrics opts) = Returns None)) \<and>
   (optSource opts = SOURCE_SHOW \<longrightarrow>
      issued (db (snd (prepareLevel pf c l metrics opts))) = issued (db c) @ [showQuery metrics] \<and>
      sourceOf (snd (prepareLevel pf c l metrics opts)) l = SOURCE_SHOW \<and>
      (\<forall>e. respond (db c) (issued (db c)) (showQuery metrics) = Inl e \<longrightarrow>
           fst (prepareLevel pf c l metrics opts) = Returns (Some (DbError e))) \<and>
      (\<forall>rows. respond (db c) (issued (db c)) (showQuery metrics) = Inr rows \<longrightarrow>
           fst (prepareLevel pf c l metrics opts) = Returns None)) \<and>
   (optSource opts \<notin> {[], ''auto'', SOURCE_SELECT, SOURCE_PFS, SOURCE_SHOW} \<longrightarrow>
      fst (prepareLevel pf c l metrics opts) = Returns (Some (InvalidSource (optSource opts))) \<and>
      issued (db (snd (prepareLevel pf c l metrics opts))) = issued (db c))"
  (is "(?auto \<longrightarrow> ?A \<and> ?B \<and> ?C \<and> ?D) \<and> ?S \<and> ?P \<and> ?W \<and> ?I")
proof (intro conjI)
  show "?auto \<longrightarrow> ?A \<and> ?B \<and> ?C \<and> ?D"
  proof (intro impI conjI)
    assume a: ?auto
    show ?A using prepareLevel_adopts_select [OF valid a] by blast
    show ?B using prepareLevel_adopts_pfs [OF valid a] by blast
    show ?C using prepareLevel_adopts_show [OF valid a] by blast
    show ?D using prepareLevel_auto_fails [OF valid a] by blast
  qed
  show ?S using prepareLevel_forced_select [OF valid] by blast
  show ?P using prepareLevel_forced_pfs [OF valid] by blast
  show ?W using prepareLevel_forced_show [OF valid] by blast
  show ?I using prepareLevel_invalid_source [OF valid] by blast
qed

lemma prepareLevel_source_order_examples:
  "validateMetricNames two_metrics = None \<and>
   fst (prepareLevel ParseFloat_decimal (NewGlobal (db_fixed [[Some ''151,134217728'']])) ''l1''
          two_metrics None) = Returns None \<and>
   sourceOf (snd (prepareLevel ParseFloat_decimal (NewGlobal (db_fixed [[Some ''151,134217728'']]))
          ''l1'' two_metrics None)) ''l1'' = SOURCE_SELECT \<and>
   issued (db (snd (prepareLevel ParseFloat_decimal (NewGlobal (db_fixed [[Some ''151,134217728'']]))
          ''l1'' two_metrics None))) = [selectQuery two_metrics] \<and>
   respond db_pfs_only [] (selectQuery two_metrics) = Inl ''unknown system variable'' \<and>
   respond db_pfs_only [selectQuery two_metrics] (pfsQuery two_metrics) =
     Inr [[Some ''max_connections'', Some ''151'']] \<and>
   fst (prepareLevel ParseFloat_decimal (NewGlobal db_pfs_only) ''l1'' two_metrics None) =
     Returns None \<and>
   sourceOf (snd (prepareLevel ParseFloat_decimal (NewGlobal db_pfs_only) ''l1'' two_metrics None))
     ''l1'' = SOURCE_PFS \<and>
   issued (db (snd (prepareLevel ParseFloat_decimal (NewGlobal db_pfs_only) ''l1'' two_metrics None))) =
     [selectQuery two_metrics, pfsQuery two_metrics] \<and>
   fst (prepareLevel ParseFloat_decimal (NewGlobal db_show_only) ''l1'' two_metrics
          (Some [OPT_SOURCE \<mapsto> ''auto''])) = Returns None \<and>
   sourceOf (snd (prepareLevel ParseFloat_decimal (NewGlobal db_show_only) ''l1'' two_metrics
          (Some [OPT_SOURCE \<mapsto> ''auto'']))) ''l1'' = SOURCE_SHOW \<and>
   issued (db (snd (prepareLevel ParseFloat_decimal (NewGlobal db_show_only) ''l1'' two_metrics
          (Some [OPT_SOURCE \<mapsto> ''auto''])))) =
     [selectQuery two_metrics, pfsQuery two_metrics, showQuery two_metrics] \<and>
   fst (prepareLevel ParseFloat_decimal (NewGlobal db_down) ''l1'' two_metrics None) =
     Returns (Some (AutoSourceFailed (DbError ''connection refused''))) \<and>
   issued (db (snd (prepareLevel ParseFloat_decimal (NewGlobal db_down) ''l1'' two_metrics None))) =
     [selectQuery two_metrics, pfsQuery two_metrics, showQuery two_metrics] \<and>
   fst (prepareLevel ParseFloat_decimal (NewGlobal db_pfs_only) ''l1'' two_metrics
          (Some [OPT_SOURCE \<mapsto> ''select''])) =
     Returns (Some (DbError ''unknown system variable'')) \<and>
   issued (db (snd (prepareLevel ParseFloat_decimal (NewGlobal db_pfs_only) ''l1'' two_metrics
          (Some [OPT_SOURCE \<mapsto> ''select''])))) = [selectQuery two_metrics] \<and>
   fst (prepareLevel ParseFloat_decimal (NewGlobal db_pfs_only) ''l1'' two_metrics
          (Some [OPT_SOURCE \<mapsto> ''pfs''])) = Returns None \<and>
   issued (db (snd (prepareLevel ParseFloat_decimal (NewGlobal db_pfs_only) ''l1'' two_metrics
          (Some [OPT_SOURCE \<mapsto> ''pfs''])))) = [pfsQuery two_metrics] \<and>
   fst (prepareLevel ParseFloat_decimal (NewGlobal db_down) ''l1'' two_metrics
          (Some [OPT_SOURCE \<mapsto> ''show''])) = Returns (Some (DbError ''connection refused'')) \<and>
   issued (db (snd (prepareLevel ParseFloat_decimal (NewGlobal db_down) ''l1'' two_metrics
          (Some [OPT_SOURCE \<mapsto> ''show''])))) = [showQuery two_metrics] \<and>
   fst (prepareLevel ParseFloat_decimal (NewGlobal db_pfs_only) ''l1'' two_metrics
          (Some [OPT_SOURCE \<mapsto> ''file''])) = Returns (Some (InvalidSource ''file'')) \<and>
   issued (db (snd (prepareLevel ParseFloat_decimal (NewGlobal db_pfs_only) ''l1'' two_metrics
          (Some [OPT_SOURCE \<mapsto> ''file''])))) = []"
proof -
  let ?f = "NewGlobal (db_fixed [[Some ''151,134217728'']])"
  let ?p = "NewGlobal db_pfs_only"
  let ?s = "NewGlobal db_show_only"
  let ?d = "NewGlobal db_down"
  have db: "db ?f = db_fixed [[Some ''151,134217728'']]" "db ?p = db_pfs_only"
    "db ?s = db_show_only" "db ?d = db_down"
    by (simp_all add: NewGlobal_def)
  note T = prepareLevel_source_order [OF two_metrics_valid, of _ _ ParseFloat_decimal "''l1''"]
  have auto_none: "optSource None = [] \<or> optSource None = ''auto''"
    by (simp add: optSource_None)
  have auto_auto: "optSource (Some [OPT_SOURCE \<mapsto> ''auto'']) = [] \<or>
      optSource (Some [OPT_SOURCE \<mapsto> ''auto'']) = ''auto''"
    by (simp add: optSource_examples2)
  have answered: "respond (db ?f) (issued (db ?f)) (selectQuery two_metrics) =
        Inr [[Some ''151,134217728'']] \<and>
      (\<forall>r\<in>set [[Some ''151,134217728'']]. \<forall>v. Scan1 r = Some v \<longrightarrow>
         length two_metrics \<le> length (Split v CHR '',''))"
    by (simp add: db db_fixed_fields two_metrics_def)
  note by_select = T [of None ?f, THEN conjunct1, THEN mp, OF auto_none, THEN conjunct1,
      THEN spec, THEN mp, OF answered]
  have refused_then_answered:
    "respond (db ?p) (issued (db ?p)) (selectQuery two_metrics) = Inl ''unknown system variable'' \<and>
     respond (db ?p) (issued (db ?p) @ [selectQuery two_metrics]) (pfsQuery two_metrics) =
       Inr [[Some ''max_connections'', Some ''151'']]"
    by (simp add: db db_pfs_only_fields)
  note by_pfs = T [of None ?p, THEN conjunct1, THEN mp, OF auto_none, THEN conjunct2,
      THEN conjunct1, THEN spec, THEN spec, THEN mp, OF refused_then_answered]
  have twice_refused:
    "respond (db ?s) (issued (db ?s)) (selectQuery two_metrics) = Inl ''access denied'' \<and>
     respond (db ?s) (issued (db ?s) @ [selectQuery two_metrics]) (pfsQuery two_metrics) =
       Inl ''access denied'' \<and>
     respond (db ?s) (issued (db ?s) @ [selectQuery two_metrics, pfsQuery two_metrics])
       (showQuery two_metrics) = Inr [[Some ''max_connections'', Some ''151'']]"
    by (simp add: db db_show_only_fields)
  note by_show = T [of "Some [OPT_SOURCE \<mapsto> ''auto'']" ?s, THEN conjunct1, THEN mp, OF auto_auto,
      THEN conjunct2, THEN conjunct2, THEN conjunct1, THEN spec, THEN spec, THEN spec, THEN mp,
      OF twice_refused]
  have all_refused:
    "respond (db ?d) (issued (db ?d)) (selectQuery two_metrics) = Inl ''connection refused'' \<and>
     respond (db ?d) (issued (db ?d) @ [selectQuery two_metrics]) (pfsQuery two_metrics) =
       Inl ''connection refused'' \<and>
     respond (db ?d) (issued (db ?d) @ [selectQuery two_metrics, pfsQuery two_metrics])
       (showQuery two_metrics) = Inl ''connection refused''"
    by (simp add: db db_down_fields)
  note none = T [of None ?d, THEN conjunct1, THEN mp, OF auto_none, THEN conjunct2,
      THEN conjunct2, THEN conjunct2, THEN spec, THEN spec, THEN spec, THEN mp, OF all_refused]
  note sel = T [of "Some [OPT_SOURCE \<mapsto> ''select'']" ?p, THEN conjunct2, THEN conjunct1, THEN mp,
      OF optSource_examples(1)]
  have refused: "respond (db ?p) (issued (db ?p)) (selectQuery two_metrics) =
      Inl ''unknown system variable''"
    by (simp add: db db_pfs_only_fields)
  note sel_err = sel [THEN conjunct2, THEN conjunct2, THEN spec, THEN mp, OF refused]
  note pfs = T [of "Some [OPT_SOURCE \<mapsto> ''pfs'']" ?p, THEN conjunct2, THEN conjunct2,
      THEN conjunct1, THEN mp, OF optSource_examples2(1)]
  have pfs_answered: "respond (db ?p) (issued (db ?p)) (pfsQuery two_metrics) =
      Inr [[Some ''max_connections'', Some ''151'']]"
    by (simp add: db db_pfs_only_fields)
  note pfs_ok = pfs [THEN conjunct2, THEN conjunct2, THEN conjunct2, THEN spec, THEN mp,
      OF pfs_answered]
  note shw = T [of "Some [OPT_SOURCE \<mapsto> ''show'']" ?d, THEN conjunct2, THEN conjunct2,
      THEN conjunct2, THEN conjunct1, THEN mp, OF optSource_examples2(2)]
  have show_refused: "respond (db ?d) (issued (db ?d)) (showQuery two_metrics) =
      Inl ''connection refused''"
    by (simp add: db db_down_fields)
  note shw_err = shw [THEN conjunct2, THEN conjunct2, THEN conjunct1, THEN spec, THEN mp,
      OF show_refused]
  have inv: "optSource (Some [OPT_SOURCE \<mapsto> ''file'']) \<notin>
      {[], ''auto'', SOURCE_SELECT, SOURCE_PFS, SOURCE_SHOW}"
    unfolding optSource_examples(2) by (rule optSource_examples(3))
  note bad_src = T [of "Some [OPT_SOURCE \<mapsto> ''file'']" ?p, THEN conjunct2, THEN conjunct2,
      THEN conjunct2, THEN conjunct2, THEN mp, OF inv]
  show ?thesis
    using by_select by_pfs by_show none sel [THEN conjunct1] sel_err pfs [THEN conjunct1] pfs_ok
      shw [THEN conjunct1] shw_err bad_src
    by (simp add: db db_pfs_only_fields db_fixed_fields db_down_fields db_show_only_fields
        optSource_examples two_metrics_valid)
qed

text \<open>
  C2 does not hold of the code when the server answers the select probe with a row of
  fewer fields than the level has metrics. The names \<open>max_connections\<close> and
  \<open>innodb_buffer_pool_size\<close> are valid and the source option is absent; the server
  answers the select query with the row \<open>151\<close> and would answer the pfs query. The
  probe of \<open>prepareSELECT\<close> runs \<open>collectSELECT\<close>, which reads \<open>values[1]\<close>
  without a bounds check: \<open>prepareLevel\<close> panics with an index out of range, having
  issued the select query only and stored the select tag, so that it neither adopts the
  select source by returning nil nor goes on to pfs, and \<open>Prepare\<close> panics with it.
\<close>

theorem prepareLevel_short_probe_row_panics:
  "validateMetricNames two_metrics = None \<and>
   optSource None = [] \<and>
   respond db_null_variable [] (selectQuery two_metrics) = Inr [[Some ''151'']] \<and>
   respond db_null_variable [selectQuery two_metrics] (pfsQuery two_metrics) =
     Inr [[Some ''max_connections'', Some ''151'']] \<and>
   fst (prepareLevel ParseFloat_decimal (NewGlobal db_null_variable) ''l1'' two_metrics None) =
     Panics (IndexOutOfRange 1 1) \<and>
   issued (db (snd (prepareLevel ParseFloat_decimal (NewGlobal db_null_variable) ''l1''
     two_metrics None))) = [selectQuery two_metrics] \<and>
   sourceOf (snd (prepareLevel ParseFloat_decimal (NewGlobal db_null_variable) ''l1''
     two_metrics None)) ''l1'' = SOURCE_SELECT \<and>
   fst (Prepare ParseFloat_decimal (NewGlobal db_null_variable) (plan_one ''l1'' two_metrics None)) =
     Panics (IndexOutOfRange 1 1)"
proof -
  let ?c = "NewGlobal db_null_variable"
  let ?c1 = "?c\<lparr>sourceIn := (sourceIn ?c)(''l1'' \<mapsto> []),
       queryIn := (queryIn ?c)(''l1'' \<mapsto> []), workIn := (workIn ?c)(''l1'' \<mapsto> two_metrics)\<rparr>"
  have a: "optSource None = [] \<or> optSource None = ''auto''"
    by (simp add: optSource_None)
  have eq1: "prepareLevel ParseFloat_decimal ?c ''l1'' two_metrics None =
      autoSource ParseFloat_decimal ?c1 ''l1''"
    by (rule prepareLevel_auto [OF two_metrics_valid a])
  have w: "workOf ?c1 ''l1'' = two_metrics"
    by (rule workOf_loaded)
  have dn: "db ?c = db_null_variable"
    by (simp add: NewGlobal_def)
  have rn: "respond (db ?c) (issued (db ?c)) (selectQuery two_metrics) = Inr [[Some ''151'']]"
    by (simp add: dn db_null_variable_fields)
  have r: "respond (db ?c1) (issued (db ?c1)) (selectQuery (workOf ?c1 ''l1'')) = Inr [[Some ''151'']]"
    by (simp add: w rn)
  have eq2: "autoSource ParseFloat_decimal ?c1 ''l1'' = prepareSELECT ParseFloat_decimal ?c1 ''l1''"
    by (rule autoSource_select [OF r])
  have f: "fst (prepareSELECT ParseFloat_decimal ?c1 ''l1'') = Panics (IndexOutOfRange 1 1)"
    by (simp add: prepareSELECT_fst w rn short_row_panics del: selectRows.simps)
  have i: "issued (db (snd (prepareSELECT ParseFloat_decimal ?c1 ''l1''))) = [selectQuery two_metrics]"
    by (simp add: db_prepare w dn db_null_variable_fields)
  have s: "sourceOf (snd (prepareSELECT ParseFloat_decimal ?c1 ''l1'')) ''l1'' = SOURCE_SELECT"
    by (simp add: prepare_fields sourceOf_def)
  have pl: "fst (prepareLevel ParseFloat_decimal ?c ''l1'' two_metrics None) =
      Panics (IndexOutOfRange 1 1)"
    unfolding eq1 eq2 by (rule f)
  have il: "issued (db (snd (prepareLevel ParseFloat_decimal ?c ''l1'' two_metrics None))) =
      [selectQuery two_metrics]"
    unfolding eq1 eq2 by (rule i)
  have sl: "sourceOf (snd (prepareLevel ParseFloat_decimal ?c ''l1'' two_metrics None)) ''l1'' =
      SOURCE_SELECT"
    unfolding eq1 eq2 by (rule s)
  from pl have "fst (prepareLevel ParseFloat_decimal ?c ''l1'' two_metrics None) \<noteq> Returns None"
    by simp
  from Prepare_plan_one(2) [OF domain_NewGlobal this] pl
  have P: "fst (Prepare ParseFloat_decimal ?c (plan_one ''l1'' two_metrics None)) =
      Panics (IndexOutOfRange 1 1)"
    by simp
  have r1: "respond db_null_variable [] (selectQuery two_metrics) = Inr [[Some ''151'']]"
    by (rule db_null_variable_fields(1))
  have r2: "respond db_null_variable [selectQuery two_metrics] (pfsQuery two_metrics) =
     Inr [[Some ''max_connections'', Some ''151'']]"
    by (rule db_null_variable_fields(2))
  from two_metrics_valid optSource_None r1 r2 pl il sl P show ?thesis
    by (intro conjI)
qed

subsection \<open>Collecting from the select source\<close>

text \<open>
  C3. After a \<open>prepareLevel\<close> that returned nil and adopted the select source for the
  metrics \<open>m1..mn\<close>, Collect against a server (in any state \<open>d\<close>) that answers the
  level's query with one row of \<open>n\<close> comma-separated values, all of which parse,
  returns nil error and exactly one value per metric, in the order of the metric list,
  the i-th named \<open>mi\<close> with the i-th parsed value and type GAUGE. The instance that
  follows is the scenario \<open>max_connections\<close>, \<open>innodb_buffer_pool_size\<close> and the row
  \<open>151,134217728\<close>.
\<close>

theorem Collect_select_one_value_per_metric:
  assumes prep: "fst (prepareLevel pf c l metrics opts) = Returns None"
    and src: "sourceOf (snd (prepareLevel pf c l metrics opts)) l = SOURCE_SELECT"
    and row: "respond d (issued d) (selectQuery metrics) = Inr [[Some val]]"
    and len: "length (Split val CHR '','') = length metrics"
    and parse: "\<forall>s\<in>set (Split val CHR '',''). pf s \<noteq> None"
  shows "fst (Collect_Global pf ((snd (prepareLevel pf c l metrics opts))\<lparr>db := d\<rparr>) l) =
     Returns (map (\<lambda>(name, s). \<lparr>Name = name, Value = the (pf s), Type = GAUGE, Group = None, Meta = None\<rparr>)
                (zip metrics (Split val CHR '','')), None)"
proof -
  let ?c = "(snd (prepareLevel pf c l metrics opts))\<lparr>db := d\<rparr>"
  have q: "queryOf ?c l = selectQuery metrics"
    using prepareLevel_success_select [OF prep src] by (simp add: per_level_db_update)
  have w: "workOf ?c l = metrics"
    using prepareLevel_success(2) [OF prep] by (simp add: per_level_db_update)
  have pv: "parseValues pf (Split val CHR '','') 0 metrics [] =
      Returns (map (\<lambda>(name, s). \<lparr>Name = name, Value = the (pf s), Type = GAUGE, Group = None, Meta = None\<rparr>)
                (zip metrics (Split val CHR '','')))"
    using parseValues_enough [of 0 metrics "Split val CHR '',''" pf "[]"] len
    by (simp add: all_parsed [OF parse])
  have "Collect_Global pf ?c l = collectSELECT pf ?c l"
    by (rule Collect_Global_select) (simp add: per_level_db_update src)
  then show ?thesis
    by (simp add: collectSELECT_fst q w row pv)
qed

theorem Collect_select_one_value_per_metric_witness:
  "fst (prepareLevel ParseFloat_decimal (NewGlobal (db_fixed [[Some ''151,134217728'']])) ''l1''
          two_metrics None) = Returns None \<and>
   sourceOf (snd (prepareLevel ParseFloat_decimal (NewGlobal (db_fixed [[Some ''151,134217728'']]))
          ''l1'' two_metrics None)) ''l1'' = SOURCE_SELECT \<and>
   Split ''151,134217728'' CHR '','' = [''151'', ''134217728''] \<and>
   fst (Collect_Global ParseFloat_decimal
          ((snd (prepareLevel ParseFloat_decimal (NewGlobal (db_fixed [[Some ''151,134217728'']]))
              ''l1'' two_metrics None))\<lparr>db := db_fixed [[Some ''151,134217728'']]\<rparr>) ''l1'') =
     Returns ([\<lparr>Name = ''max_connections'', Value = 151, Type = GAUGE, Group = None, Meta = None\<rparr>,
               \<lparr>Name = ''innodb_buffer_pool_size'', Value = 134217728, Type = GAUGE,
                Group = None, Meta = None\<rparr>], None)"
proof -
  let ?d = "db_fixed [[Some ''151,134217728'']]"
  let ?R = "prepareLevel ParseFloat_decimal (NewGlobal ?d) ''l1'' two_metrics None"
  have sp: "Split ''151,134217728'' CHR '','' = [''151'', ''134217728'']"
    by simp
  have enough: "\<forall>r\<in>set [[Some ''151,134217728'']]. \<forall>v. Scan1 r = Some v \<longrightarrow>
      length two_metrics \<le> length (Split v CHR '','')"
    by (simp add: two_metrics_def)
  have resp: "respond (db (NewGlobal ?d)) (issued (db (NewGlobal ?d))) (selectQuery two_metrics) =
      Inr [[Some ''151,134217728'']]"
    by (simp add: NewGlobal_def db_fixed_fields)
  have ad: "fst ?R = Returns None \<and> sourceOf (snd ?R) ''l1'' = SOURCE_SELECT"
    using prepareLevel_adopts_select [OF two_metrics_valid _ resp enough, of None ParseFloat_decimal "''l1''"]
    by (simp add: optSource_None)
  have row: "respond ?d (issued ?d) (selectQuery two_metrics) = Inr [[Some ''151,134217728'']]"
    by (simp add: db_fixed_fields)
  have len: "length (Split ''151,134217728'' CHR '','') = length two_metrics"
    by (simp add: two_metrics_def)
  have parse: "\<forall>s\<in>set (Split ''151,134217728'' CHR '',''). ParseFloat_decimal s \<noteq> None"
    by (simp add: ParseFloat_decimal_examples)
  from ad have prep: "fst ?R = Returns None" and src: "sourceOf (snd ?R) ''l1'' = SOURCE_SELECT"
    by simp_all
  show ?thesis
    using Collect_select_one_value_per_metric [OF prep src row len parse] ad
    by (simp add: two_metrics_def ParseFloat_decimal_examples)
qed

text \<open>
  C4 does not hold of the code: \<open>values[idx]\<close> is read without a bounds check. The
  server answers the probe of Prepare with a row of two values, so Prepare returns nil;
  it answers the later query of Collect with the row \<open>151\<close>, one value for two
  metrics, and Collect panics with an index out of range instead of returning the value
  it parsed.
\<close>

theorem collectSELECT_short_row_panics:
  "fst (Prepare ParseFloat_decimal (NewGlobal db_short_row) (plan_one ''l1'' two_metrics None)) =
     Returns None \<and>
   fst (Collect_Global ParseFloat_decimal
     (snd (Prepare ParseFloat_decimal (NewGlobal db_short_row) (plan_one ''l1'' two_metrics None)))
     ''l1'') = Panics (IndexOutOfRange 1 1)"
proof -
  let ?c = "NewGlobal db_short_row"
  let ?R = "prepareLevel ParseFloat_decimal ?c ''l1'' two_metrics None"
  have enough: "\<forall>r\<in>set [[Some ''151,134217728'']]. \<forall>v. Scan1 r = Some v \<longrightarrow>
      length two_metrics \<le> length (Split v CHR '','')"
    by (simp add: two_metrics_def)
  have resp: "respond (db ?c) (issued (db ?c)) (selectQuery two_metrics) =
      Inr [[Some ''151,134217728'']]"
    by (simp add: NewGlobal_def db_short_row_fields)
  have ad: "fst ?R = Returns None \<and> sourceOf (snd ?R) ''l1'' = SOURCE_SELECT \<and>
      queryOf (snd ?R) ''l1'' = selectQuery two_metrics \<and>
      issued (db (snd ?R)) = issued (db ?c) @ [selectQuery two_metrics]"
    using prepareLevel_adopts_select [OF two_metrics_valid _ resp enough, of None ParseFloat_decimal "''l1''"]
    by (simp add: optSource_None)
  then have ok: "fst ?R = Returns None" by simp
  have P: "Prepare ParseFloat_decimal ?c (plan_one ''l1'' two_metrics None) = (Returns None, snd ?R)"
    by (rule Prepare_plan_one(1) [OF domain_NewGlobal ok])
  have w: "workOf (snd ?R) ''l1'' = two_metrics"
    by (rule prepareLevel_success(2) [OF ok])
  have r2: "respond (db (snd ?R)) (issued (db (snd ?R))) (queryOf (snd ?R) ''l1'') = Inr [[Some ''151'']]"
    using ad by (simp add: prepareLevel_respond NewGlobal_def db_short_row_fields)
  have "Collect_Global ParseFloat_decimal (snd ?R) ''l1'' = collectSELECT ParseFloat_decimal (snd ?R) ''l1''"
    using ad by (simp add: Collect_Global_select)
  moreover have "selectRows ParseFloat_decimal two_metrics [[Some ''151'']] [] =
      Panics (IndexOutOfRange 1 1)"
    by (simp add: two_metrics_def ParseFloat_decimal_examples)
  ultimately have "fst (Collect_Global ParseFloat_decimal (snd ?R) ''l1'') =
      Panics (IndexOutOfRange 1 1)"
    by (simp add: collectSELECT_fst r2 w)
  with P show ?thesis by simp
qed

subsection \<open>Prepared levels and the panic of Collect\<close>

lemma Collect_Global_no_source_panic:
  assumes "sourceOf c l \<in> {SOURCE_SELECT, SOURCE_PFS, SOURCE_SHOW}"
  shows "fst (Collect_Global pf c l) \<noteq> Panics (InvalidSourceInCollect s)"
proof (cases "sourceOf c l = SOURCE_SELECT")
  case True
  have "selectRows pf (workOf c l) rows [] \<noteq> Panics (InvalidSourceInCollect s)" for rows
    by (rule selectRows_no_source_panic)
  with True show ?thesis
    by (auto simp: Collect_Global_select collectSELECT_fst split: sum.splits outcome.splits)
next
  case False
  with assms show ?thesis
    by (auto simp: Collect_Global_def collectPFS_def collectSHOW_def collectSHOWorPFS_fst
        split: sum.splits)
qed

text \<open>
  C5, as the claim states it, fails in its converse. Against a server that refuses every
  query, Prepare of a plan with the one level \<open>l1\<close> returns the error of the
  automatic source, so that \<open>l1\<close> was never successfully prepared; but
  \<open>prepareSHOW\<close>, the last source tried, stored its tag before it probed, so the tag
  of \<open>l1\<close> is show, and Collect for \<open>l1\<close> returns the error of the server with no
  metrics instead of panicking.
\<close>

theorem Collect_after_refused_probes_counterexample:
  "fst (Prepare ParseFloat_decimal (NewGlobal db_down) (plan_one ''l1'' two_metrics None)) =
     Returns (Some (AutoSourceFailed (DbError ''connection refused''))) \<and>
   sourceOf (snd (Prepare ParseFloat_decimal (NewGlobal db_down) (plan_one ''l1'' two_metrics None)))
     ''l1'' = SOURCE_SHOW \<and>
   fst (Collect_Global ParseFloat_decimal
     (snd (Prepare ParseFloat_decimal (NewGlobal db_down) (plan_one ''l1'' two_metrics None))) ''l1'') =
     Returns ([], Some (DbError ''connection refused''))"
proof -
  let ?R = "prepareLevel ParseFloat_decimal (NewGlobal db_down) ''l1'' two_metrics None"
  note f = db_down_probes_fail [of ParseFloat_decimal "''l1''"]
  from f(1) have "fst ?R \<noteq> Returns None" by simp
  from Prepare_plan_one(2) [OF domain_NewGlobal this]
  have P: "Prepare ParseFloat_decimal (NewGlobal db_down) (plan_one ''l1'' two_metrics None) = ?R" .
  have "fst (Collect_Global ParseFloat_decimal (snd ?R) ''l1'') =
      Returns ([], Some (DbError ''connection refused''))"
    by (simp add: Collect_Global_def f(2) SOURCE_distinct collectSHOW_def collectSHOWorPFS_fst f(3))
  with f(1,2) show ?thesis
    unfolding P by (intro conjI)
qed

text \<open>
  C5, amended. After a Prepare that returned nil, every level of the plan that contains the
  domain has one of the source tags select, pfs, show, and Collect for it, whatever the
  state of the server, does not end in the invalid-source panic. Collect dispatches on
  the tag: select to \<open>collectSELECT\<close>, pfs to \<open>collectPFS\<close>, show to
  \<open>collectSHOW\<close>; with any other tag it panics with the invalid-source message and
  changes nothing, and with one of these three it does not end in that panic. The tag of
  a level name is empty, and Collect for it panics with the invalid-source message,
  after a Prepare on a new collector whose plan has no level of that name with the
  domain, and after a \<open>prepareLevel\<close> that returned the error of a metric name or of
  the source option, whatever the state of the server. After a \<open>prepareLevel\<close> that
  returned the error of the server, from a forced source or wrapped by the automatic
  source, the tag is one of select, pfs, show, and Collect for the level does not end in
  the invalid-source panic.
\<close>

theorem Collect_Global_panics_by_tag:
  "(fst (Prepare pf c plan) = Returns None \<longrightarrow>
      (\<forall>(levelName, level)\<in>set (Levels plan). Collect_level level (domain c) \<noteq> None \<longrightarrow>
         sourceOf (snd (Prepare pf c plan)) levelName \<in> {SOURCE_SELECT, SOURCE_PFS, SOURCE_SHOW} \<and>
         (\<forall>d s. fst (Collect_Global pf ((snd (Prepare pf c plan))\<lparr>db := d\<rparr>) levelName) \<noteq>
                  Panics (InvalidSourceInCollect s)))) \<and>
   (sourceOf c' l = SOURCE_SELECT \<longrightarrow> Collect_Global pf c' l = collectSELECT pf c' l) \<and>
   (sourceOf c' l = SOURCE_PFS \<longrightarrow> Collect_Global pf c' l = collectPFS pf c' l) \<and>
   (sourceOf c' l = SOURCE_SHOW \<longrightarrow> Collect_Global pf c' l = collectSHOW pf c' l) \<and>
   (sourceOf c' l \<notin> {SOURCE_SELECT, SOURCE_PFS, SOURCE_SHOW} \<longrightarrow>
      Collect_Global pf c' l = (Panics (InvalidSourceInCollect (sourceOf c' l)), c')) \<and>
   (sourceOf c' l \<in> {SOURCE_SELECT, SOURCE_PFS, SOURCE_SHOW} \<longrightarrow>
      (\<forall>s. fst (Collect_Global pf c' l) \<noteq> Panics (InvalidSourceInCollect s))) \<and>
   ((\<forall>lv. (l, lv) \<in> set (Levels plan) \<longrightarrow> Collect_level lv ''var.global'' = None) \<longrightarrow>
      Collect_Global pf (snd (Prepare pf (NewGlobal d0) plan)) l =
        (Panics (InvalidSourceInCollect []), snd (Prepare pf (NewGlobal d0) plan))) \<and>
   (fst (prepareLevel pf c l metrics opts) = Returns (Some err) \<and>
    ((\<exists>n. err = InvalidMetricName n) \<or> (\<exists>s. err = InvalidSource s)) \<longrightarrow>
      (\<forall>d. Collect_Global pf ((snd (prepareLevel pf c l metrics opts))\<lparr>db := d\<rparr>) l =
         (Panics (InvalidSourceInCollect []), (snd (prepareLevel pf c l metrics opts))\<lparr>db := d\<rparr>))) \<and>
   (fst (prepareLevel pf c l metrics opts) = Returns (Some err) \<and>
    ((\<exists>e. err = DbError e) \<or> (\<exists>e. err = AutoSourceFailed e)) \<longrightarrow>
      sourceOf (snd (prepareLevel pf c l metrics opts)) l \<in> {SOURCE_SELECT, SOURCE_PFS, SOURCE_SHOW} \<and>
      (\<forall>d s. fst (Collect_Global pf ((snd (prepareLevel pf c l metrics opts))\<lparr>db := d\<rparr>) l) \<noteq>
                Panics (InvalidSourceInCollect s)))"
  (is "?nil \<and> ?sel \<and> ?pfs \<and> ?shw \<and> ?other \<and> ?tagged \<and> ?unvisited \<and> ?rejected \<and>
      ?refused")
proof (intro conjI)
  show ?nil
  proof (intro impI)
    assume ok: "fst (Prepare pf c plan) = Returns None"
    show "\<forall>(levelName, level)\<in>set (Levels plan). Collect_level level (domain c) \<noteq> None \<longrightarrow>
         sourceOf (snd (Prepare pf c plan)) levelName \<in> {SOURCE_SELECT, SOURCE_PFS, SOURCE_SHOW} \<and>
         (\<forall>d s. fst (Collect_Global pf ((snd (Prepare pf c plan))\<lparr>db := d\<rparr>) levelName) \<noteq>
                  Panics (InvalidSourceInCollect s))"
    proof (clarify, intro conjI allI)
      fix levelName level y
      assume mem: "(levelName, level) \<in> set (Levels plan)"
        and dm: "Collect_level level (domain c) = Some y"
      from mem dm have "\<exists>lv. (levelName, lv) \<in> set (Levels plan) \<and> Collect_level lv (domain c) \<noteq> None"
        by auto
      with ok show src: "sourceOf (snd (Prepare pf c plan)) levelName \<in> {SOURCE_SELECT, SOURCE_PFS, SOURCE_SHOW}"
        unfolding Prepare_def by (intro prepareLevels_sources) auto
      fix d s
      show "fst (Collect_Global pf ((snd (Prepare pf c plan))\<lparr>db := d\<rparr>) levelName) \<noteq>
                  Panics (InvalidSourceInCollect s)"
        by (rule Collect_Global_no_source_panic) (use src in \<open>simp add: per_level_db_update\<close>)
    qed
  qed
  show ?sel by (simp add: Collect_Global_def)
  show ?pfs by (simp add: Collect_Global_def SOURCE_distinct)
  show ?shw by (simp add: Collect_Global_def SOURCE_distinct)
  show ?other by (simp add: Collect_Global_def)
  show ?tagged
    by (intro impI allI) (rule Collect_Global_no_source_panic)
  show ?unvisited
    using Prepare_unvisited_tag [of l plan pf d0] Collect_Global_no_tag by blast
  show ?rejected
  proof (intro impI allI)
    fix d
    assume a: "fst (prepareLevel pf c l metrics opts) = Returns (Some err) \<and>
      ((\<exists>n. err = InvalidMetricName n) \<or> (\<exists>s. err = InvalidSource s))"
    then have "sourceOf (snd (prepareLevel pf c l metrics opts)) l = []"
      using prepareLevel_failed_tag(1) [of pf c l metrics opts err] by blast
    then have "sourceOf ((snd (prepareLevel pf c l metrics opts))\<lparr>db := d\<rparr>) l = []"
      by (simp add: per_level_db_update)
    then show "Collect_Global pf ((snd (prepareLevel pf c l metrics opts))\<lparr>db := d\<rparr>) l =
         (Panics (InvalidSourceInCollect []), (snd (prepareLevel pf c l metrics opts))\<lparr>db := d\<rparr>)"
      by (rule Collect_Global_no_tag)
  qed
  show ?refused
  proof (intro impI conjI allI)
    assume a: "fst (prepareLevel pf c l metrics opts) = Returns (Some err) \<and>
      ((\<exists>e. err = DbError e) \<or> (\<exists>e. err = AutoSourceFailed e))"
    then show src: "sourceOf (snd (prepareLevel pf c l metrics opts)) l \<in>
        {SOURCE_SELECT, SOURCE_PFS, SOURCE_SHOW}"
      using prepareLevel_failed_tag(2) [of pf c l metrics opts err] by blast
    fix d s
    show "fst (Collect_Global pf ((snd (prepareLevel pf c l metrics opts))\<lparr>db := d\<rparr>) l) \<noteq>
                Panics (InvalidSourceInCollect s)"
      by (rule Collect_Global_no_source_panic) (use src in \<open>simp add: per_level_db_update\<close>)
  qed
qed

theorem Collect_Global_panics_by_tag_witness:
  "fst (Prepare ParseFloat_decimal (NewGlobal (db_fixed [[Some ''151,134217728'']]))
         (plan_one ''l1'' two_metrics None)) = Returns None \<and>
   Collect_level (level_of two_metrics None)
     (domain (NewGlobal (db_fixed [[Some ''151,134217728'']]))) \<noteq> None \<and>
   sourceOf (snd (Prepare ParseFloat_decimal (NewGlobal (db_fixed [[Some ''151,134217728'']]))
         (plan_one ''l1'' two_metrics None))) ''l1'' = SOURCE_SELECT \<and>
   fst (Collect_Global ParseFloat_decimal
     ((snd (Prepare ParseFloat_decimal (NewGlobal (db_fixed [[Some ''151,134217728'']]))
         (plan_one ''l1'' two_metrics None)))\<lparr>db := db_down\<rparr>) ''l1'') \<noteq>
     Panics (InvalidSourceInCollect []) \<and>
   Collect_Global ParseFloat_decimal
       (global_select (db_fixed [[Some ''151,134217728'']]) ''l1'' two_metrics) ''l1'' =
     collectSELECT ParseFloat_decimal
       (global_select (db_fixed [[Some ''151,134217728'']]) ''l1'' two_metrics) ''l1'' \<and>
   Collect_Global ParseFloat_decimal
       (snd (prepareLevel ParseFloat_decimal (NewGlobal db_pfs_only) ''l1'' two_metrics None)) ''l1'' =
     collectPFS ParseFloat_decimal
       (snd (prepareLevel ParseFloat_decimal (NewGlobal db_pfs_only) ''l1'' two_metrics None)) ''l1'' \<and>
   Collect_Global ParseFloat_decimal
       (snd (prepareLevel ParseFloat_decimal (NewGlobal db_show_only) ''l1'' two_metrics None)) ''l1'' =
     collectSHOW ParseFloat_decimal
       (snd (prepareLevel ParseFloat_decimal (NewGlobal db_show_only) ''l1'' two_metrics None)) ''l1'' \<and>
   sourceOf (NewGlobal db_down) ''l1'' = [] \<and>
   Collect_Global ParseFloat_decimal (NewGlobal db_down) ''l1'' =
     (Panics (InvalidSourceInCollect []), NewGlobal db_down) \<and>
   sourceOf (global_select (db_fixed [[Some ''151,134217728'']]) ''l1'' two_metrics) ''l1'' \<in>
     {SOURCE_SELECT, SOURCE_PFS, SOURCE_SHOW} \<and>
   fst (Collect_Global ParseFloat_decimal
       (global_select (db_fixed [[Some ''151,134217728'']]) ''l1'' two_metrics) ''l1'') \<noteq>
     Panics (InvalidSourceInCollect []) \<and>
   Collect_Global ParseFloat_decimal
       (snd (Prepare ParseFloat_decimal (NewGlobal (db_fixed [[Some ''151,134217728'']]))
          (plan_one ''l1'' two_metrics None))) ''l2'' =
     (Panics (InvalidSourceInCollect []),
      snd (Prepare ParseFloat_decimal (NewGlobal (db_fixed [[Some ''151,134217728'']]))
          (plan_one ''l1'' two_metrics None))) \<and>
   fst (prepareLevel ParseFloat_decimal (NewGlobal (db_fixed [[Some ''151,134217728'']])) ''l1''
          [''max_connections'', ''bad name''] None) =
     Returns (Some (InvalidMetricName ''bad name'')) \<and>
   fst (Collect_Global ParseFloat_decimal
       ((snd (prepareLevel ParseFloat_decimal (NewGlobal (db_fixed [[Some ''151,134217728'']])) ''l1''
          [''max_connections'', ''bad name''] None))\<lparr>db := db_fixed [[Some ''151,134217728'']]\<rparr>)
       ''l1'') = Panics (InvalidSourceInCollect []) \<and>
   fst (prepareLevel ParseFloat_decimal (NewGlobal db_pfs_only) ''l1'' two_metrics
          (Some [OPT_SOURCE \<mapsto> ''file''])) = Returns (Some (InvalidSource ''file'')) \<and>
   fst (Collect_Global ParseFloat_decimal
       ((snd (prepareLevel ParseFloat_decimal (NewGlobal db_pfs_only) ''l1'' two_metrics
          (Some [OPT_SOURCE \<mapsto> ''file''])))\<lparr>db := db_pfs_only\<rparr>) ''l1'') =
     Panics (InvalidSourceInCollect []) \<and>
   fst (prepareLevel ParseFloat_decimal (NewGlobal db_down) ''l1'' two_metrics None) =
     Returns (Some (AutoSourceFailed (DbError ''connection refused''))) \<and>
   sourceOf (snd (prepareLevel ParseFloat_decimal (NewGlobal db_down) ''l1'' two_metrics None)) ''l1''
     \<in> {SOURCE_SELECT, SOURCE_PFS, SOURCE_SHOW} \<and>
   fst (Collect_Global ParseFloat_decimal
       ((snd (prepareLevel ParseFloat_decimal (NewGlobal db_down) ''l1'' two_metrics None))
          \<lparr>db := db_down\<rparr>) ''l1'') \<noteq> Panics (InvalidSourceInCollect [])"
proof -
  let ?c = "NewGlobal (db_fixed [[Some ''151,134217728'']])"
  let ?plan = "plan_one ''l1'' two_metrics None"
  let ?sel = "global_select (db_fixed [[Some ''151,134217728'']]) ''l1'' two_metrics"
  let ?pfs = "snd (prepareLevel ParseFloat_decimal (NewGlobal db_pfs_only) ''l1'' two_metrics None)"
  let ?shw = "snd (prepareLevel ParseFloat_decimal (NewGlobal db_show_only) ''l1'' two_metrics None)"
  have d: "db ?c = db_fixed [[Some ''151,134217728'']]"
    by (simp add: NewGlobal_def)
  note ad = db_fixed_adopts_select [OF d, of ParseFloat_decimal "''l1''"]
  have P: "Prepare ParseFloat_decimal ?c ?plan =
      (Returns None, snd (prepareLevel ParseFloat_decimal ?c ''l1'' two_metrics None))"
    using ad by (intro Prepare_plan_one(1) domain_NewGlobal) simp
  then have ok: "fst (Prepare ParseFloat_decimal ?c ?plan) = Returns None"
    by simp
  have mem: "(''l1'', level_of two_metrics None) \<in> set (Levels ?plan)"
    by (simp add: plan_one_def)
  have dm: "Collect_level (level_of two_metrics None) (domain ?c) \<noteq> None"
    by (simp add: domain_NewGlobal level_of_domain)
  note T = Collect_Global_panics_by_tag [where pf = ParseFloat_decimal]
  note lvl = T [where c = ?c and plan = ?plan, THEN conjunct1, THEN mp, OF ok, THEN bspec, OF mem,
      unfolded prod.case, THEN mp, OF dm]
  note no_panic = lvl [THEN conjunct2, THEN spec, THEN spec, of db_down "[]"]
  note to_select = T [where c' = ?sel and l = "''l1''", THEN conjunct2, THEN conjunct1, THEN mp,
      OF global_select_fields(3)]
  note to_pfs = T [where c' = ?pfs and l = "''l1''", THEN conjunct2, THEN conjunct2, THEN conjunct1,
      THEN mp, OF adopts_pfs_show(1)]
  note to_show = T [where c' = ?shw and l = "''l1''", THEN conjunct2, THEN conjunct2, THEN conjunct2,
      THEN conjunct1, THEN mp, OF adopts_pfs_show(2)]
  have s0: "sourceOf (NewGlobal db_down) ''l1'' = []"
    by (simp add: NewGlobal_def sourceOf_def)
  have inv: "sourceOf (NewGlobal db_down) ''l1'' \<notin> {SOURCE_SELECT, SOURCE_PFS, SOURCE_SHOW}"
    by (simp add: s0 SOURCE_distinct [symmetric])
  note panics = T [where c' = "NewGlobal db_down" and l = "''l1''", THEN conjunct2, THEN conjunct2,
      THEN conjunct2, THEN conjunct2, THEN conjunct1, THEN mp, OF inv, unfolded s0]
  have src: "sourceOf (snd (Prepare ParseFloat_decimal ?c ?plan)) ''l1'' = SOURCE_SELECT"
    using ad by (simp add: P)
  have tag: "sourceOf ?sel ''l1'' \<in> {SOURCE_SELECT, SOURCE_PFS, SOURCE_SHOW}"
    by (simp add: global_select_fields)
  note tagged = T [where c' = ?sel and l = "''l1''", THEN conjunct2, THEN conjunct2, THEN conjunct2,
      THEN conjunct2, THEN conjunct2, THEN conjunct1, THEN mp, OF tag, THEN spec, of "[]"]
  have unv: "\<forall>lv. (''l2'', lv) \<in> set (Levels ?plan) \<longrightarrow> Collect_level lv ''var.global'' = None"
    by (simp add: plan_one_def)
  note unvisited = T [where l = "''l2''" and plan = ?plan
        and ?d0.0 = "db_fixed [[Some ''151,134217728'']]",
      THEN conjunct2, THEN conjunct2, THEN conjunct2, THEN conjunct2, THEN conjunct2,
      THEN conjunct2, THEN conjunct1, THEN mp, OF unv]
  have bad: "fst (prepareLevel ParseFloat_decimal ?c ''l1'' [''max_connections'', ''bad name''] None) =
      Returns (Some (InvalidMetricName ''bad name''))"
    by (simp add: prepareLevel_bad_name)
  have bad_hyp: "fst (prepareLevel ParseFloat_decimal ?c ''l1'' [''max_connections'', ''bad name''] None) =
      Returns (Some (InvalidMetricName ''bad name'')) \<and>
      ((\<exists>n. InvalidMetricName ''bad name'' = InvalidMetricName n) \<or>
       (\<exists>s. InvalidMetricName ''bad name'' = InvalidSource s))"
    using bad by blast
  note rejected_name = T [where c = ?c and l = "''l1''"
        and metrics = "[''max_connections'', ''bad name'']" and opts = None
        and err = "InvalidMetricName ''bad name''",
      THEN conjunct2, THEN conjunct2, THEN conjunct2, THEN conjunct2, THEN conjunct2,
      THEN conjunct2, THEN conjunct2, THEN conjunct1, THEN mp, OF bad_hyp, THEN spec,
      of "db_fixed [[Some ''151,134217728'']]"]
  have inv_src: "optSource (Some [OPT_SOURCE \<mapsto> ''file'']) \<notin>
      {[], ''auto'', SOURCE_SELECT, SOURCE_PFS, SOURCE_SHOW}"
    unfolding optSource_examples(2) by (rule optSource_examples(3))
  have bad_src: "fst (prepareLevel ParseFloat_decimal (NewGlobal db_pfs_only) ''l1'' two_metrics
          (Some [OPT_SOURCE \<mapsto> ''file''])) = Returns (Some (InvalidSource ''file''))"
    using prepareLevel_invalid_source [OF two_metrics_valid inv_src, of ParseFloat_decimal
        "NewGlobal db_pfs_only" "''l1''"]
    unfolding optSource_examples(2) by (rule conjunct1)
  have src_hyp: "fst (prepareLevel ParseFloat_decimal (NewGlobal db_pfs_only) ''l1'' two_metrics
          (Some [OPT_SOURCE \<mapsto> ''file''])) = Returns (Some (InvalidSource ''file'')) \<and>
      ((\<exists>n. InvalidSource ''file'' = InvalidMetricName n) \<or>
       (\<exists>s. InvalidSource ''file'' = InvalidSource s))"
    using bad_src by blast
  note rejected_source = T [where c = "NewGlobal db_pfs_only" and l = "''l1''"
        and metrics = two_metrics and opts = "Some [OPT_SOURCE \<mapsto> ''file'']"
        and err = "InvalidSource ''file''",
      THEN conjunct2, THEN conjunct2, THEN conjunct2, THEN conjunct2, THEN conjunct2,
      THEN conjunct2, THEN conjunct2, THEN conjunct1, THEN mp, OF src_hyp, THEN spec, of db_pfs_only]
  note down = db_down_probes_fail [of ParseFloat_decimal "''l1''"]
  have down_hyp: "fst (prepareLevel ParseFloat_decimal (NewGlobal db_down) ''l1'' two_metrics None) =
      Returns (Some (AutoSourceFailed (DbError ''connection refused''))) \<and>
      ((\<exists>e. AutoSourceFailed (DbError ''connection refused'') = DbError e) \<or>
       (\<exists>e. AutoSourceFailed (DbError ''connection refused'') = AutoSourceFailed e))"
    using down(1) by blast
  note refused = T [where c = "NewGlobal db_down" and l = "''l1''"
        and metrics = two_metrics and opts = None
        and err = "AutoSourceFailed (DbError ''connection refused'')",
      THEN conjunct2, THEN conjunct2, THEN conjunct2, THEN conjunct2, THEN conjunct2,
      THEN conjunct2, THEN conjunct2, THEN conjunct2, THEN mp, OF down_hyp]
  note refused_no_panic = refused [THEN conjunct2, THEN spec, THEN spec, of db_down "[]"]
  have rn: "fst (Collect_Global ParseFloat_decimal
       ((snd (prepareLevel ParseFloat_decimal ?c ''l1''
          [''max_connections'', ''bad name''] None))\<lparr>db := db_fixed [[Some ''151,134217728'']]\<rparr>)
       ''l1'') = Panics (InvalidSourceInCollect [])"
    unfolding rejected_name by simp
  have rs: "fst (Collect_Global ParseFloat_decimal
       ((snd (prepareLevel ParseFloat_decimal (NewGlobal db_pfs_only) ''l1'' two_metrics
          (Some [OPT_SOURCE \<mapsto> ''file''])))\<lparr>db := db_pfs_only\<rparr>) ''l1'') =
     Panics (InvalidSourceInCollect [])"
    unfolding rejected_source by simp
  from ok dm src no_panic to_select to_pfs to_show s0 panics tag tagged unvisited bad rn bad_src rs
    down(1) refused [THEN conjunct1] refused_no_panic
  show ?thesis
    by (intro conjI)
qed

subsection \<open>Levels without metrics\<close>

lemma Collect_Global_issued:
  assumes "sourceOf c l \<in> {SOURCE_SELECT, SOURCE_PFS, SOURCE_SHOW}"
  shows "issued (db (snd (Collect_Global pf c l))) = issued (db c) @ [queryOf c l]"
  using assms
  by (auto simp: Collect_Global_def collectPFS_def collectSHOW_def collectSELECT_snd
      collectSHOWorPFS_snd)

lemma Collect_Global_no_rows:
  assumes "sourceOf c l \<in> {SOURCE_SELECT, SOURCE_PFS, SOURCE_SHOW}"
    and "respond (db c) (issued (db c)) (queryOf c l) = Inr []"
  shows "fst (Collect_Global pf c l) = Returns ([], None)"
  using assms
  by (auto simp: Collect_Global_def collectPFS_def collectSHOW_def collectSELECT_fst
      collectSHOWorPFS_fst)

lemma Collect_Global_select_no_work:
  assumes "sourceOf c l = SOURCE_SELECT" and "workOf c l = []"
    and "respond (db c) (issued (db c)) (queryOf c l) = Inr rows"
  shows "fst (Collect_Global pf c l) = Returns ([], None)"
  using assms
  by (simp add: Collect_Global_select collectSELECT_fst selectRows_no_work)

text \<open>
  C6, as the claim states it, fails. For a level with no metrics the probe of Prepare is
  issued all the same: against a server that answers every query with no rows, Prepare
  succeeds having issued \<open>SELECT CONCAT_WS(',', ) v;\<close>, and Collect issues that query
  again; against a server that refuses every query, Prepare fails.
\<close>

theorem empty_metrics_issue_queries_counterexample:
  "fst (Prepare ParseFloat_decimal (NewGlobal (db_fixed [])) (plan_one ''l1'' [] None)) =
     Returns None \<and>
   issued (db (NewGlobal (db_fixed []))) = [] \<and>
   issued (db (snd (Prepare ParseFloat_decimal (NewGlobal (db_fixed [])) (plan_one ''l1'' [] None)))) =
     [''SELECT CONCAT_WS('' @ [CHR 0x27] @ '','' @ [CHR 0x27] @ '', ) v;''] \<and>
   issued (db (snd (Collect_Global ParseFloat_decimal
     (snd (Prepare ParseFloat_decimal (NewGlobal (db_fixed [])) (plan_one ''l1'' [] None))) ''l1''))) =
     [''SELECT CONCAT_WS('' @ [CHR 0x27] @ '','' @ [CHR 0x27] @ '', ) v;'',
      ''SELECT CONCAT_WS('' @ [CHR 0x27] @ '','' @ [CHR 0x27] @ '', ) v;''] \<and>
   fst (Prepare ParseFloat_decimal (NewGlobal db_down) (plan_one ''l1'' [] None)) =
     Returns (Some (AutoSourceFailed (DbError ''connection refused'')))"
proof -
  let ?c = "NewGlobal (db_fixed [])"
  let ?R = "prepareLevel ParseFloat_decimal ?c ''l1'' [] None"
  have d: "db ?c = db_fixed []" by (simp add: NewGlobal_def)
  note ad = no_metrics_adopts_select [OF d, of ParseFloat_decimal "''l1''"]
  have P: "Prepare ParseFloat_decimal ?c (plan_one ''l1'' [] None) = (Returns None, snd ?R)"
    using ad by (intro Prepare_plan_one(1) domain_NewGlobal) simp
  have src: "sourceOf (snd ?R) ''l1'' \<in> {SOURCE_SELECT, SOURCE_PFS, SOURCE_SHOW}"
    using ad by simp
  have col: "issued (db (snd (Collect_Global ParseFloat_decimal (snd ?R) ''l1''))) =
      [selectQuery [], selectQuery []]"
    using ad by (simp add: Collect_Global_issued [OF src])
  let ?e = "NewGlobal db_down"
  have v: "validateMetricNames [] = None" by simp
  have dd: "db ?e = db_down" by (simp add: NewGlobal_def)
  have fail: "fst (prepareLevel ParseFloat_decimal ?e ''l1'' [] None) =
      Returns (Some (AutoSourceFailed (DbError ''connection refused'')))"
    using prepareLevel_auto_fails [OF v, of None ?e "''connection refused''"
        "''connection refused''" "''connection refused''" ParseFloat_decimal "''l1''"]
    by (simp add: optSource_None dd db_down_fields)
  then have "fst (prepareLevel ParseFloat_decimal ?e ''l1'' [] None) \<noteq> Returns None"
    by simp
  from Prepare_plan_one(2) [OF domain_NewGlobal this] fail
  have Pd: "fst (Prepare ParseFloat_decimal ?e (plan_one ''l1'' [] None)) =
      Returns (Some (AutoSourceFailed (DbError ''connection refused'')))"
    by simp
  show ?thesis
    using ad col Pd by (simp add: P d db_fixed_fields selectQuery_no_metrics)
qed

text \<open>
  C6, amended. An empty metric list passes validation. When \<open>prepareLevel\<close> for a
  level without metrics returns nil, it has issued at least one query, and the level's
  metric list is empty; a later Collect for the level, whatever the state \<open>d\<close> of the
  server, issues exactly one query, the one stored for the level, and returns the empty
  sequence with nil error when the server answers with no rows, and, under the select
  source, whenever the server answers at all.
\<close>

theorem empty_metrics_prepare_collect:
  "validateMetricNames [] = None \<and>
   (fst (prepareLevel pf c l [] opts) = Returns None \<longrightarrow>
      (\<exists>q qs. issued (db (snd (prepareLevel pf c l [] opts))) = issued (db c) @ q # qs) \<and>
      workOf (snd (prepareLevel pf c l [] opts)) l = [] \<and>
      (\<forall>d. issued (db (snd (Collect_Global pf ((snd (prepareLevel pf c l [] opts))\<lparr>db := d\<rparr>) l))) =
             issued d @ [queryOf (snd (prepareLevel pf c l [] opts)) l]) \<and>
      (\<forall>d. respond d (issued d) (queryOf (snd (prepareLevel pf c l [] opts)) l) = Inr [] \<longrightarrow>
           fst (Collect_Global pf ((snd (prepareLevel pf c l [] opts))\<lparr>db := d\<rparr>) l) =
             Returns ([], None)) \<and>
      (\<forall>d rows. sourceOf (snd (prepareLevel pf c l [] opts)) l = SOURCE_SELECT \<and>
           respond d (issued d) (queryOf (snd (prepareLevel pf c l [] opts)) l) = Inr rows \<longrightarrow>
           fst (Collect_Global pf ((snd (prepareLevel pf c l [] opts))\<lparr>db := d\<rparr>) l) =
             Returns ([], None)))"
proof (intro conjI impI allI)
  show "validateMetricNames [] = None" by simp
next
  assume ok: "fst (prepareLevel pf c l [] opts) = Returns None"
  let ?c' = "snd (prepareLevel pf c l [] opts)"
  show "\<exists>q qs. issued (db ?c') = issued (db c) @ q # qs"
    by (rule prepareLevel_success_issued [OF ok])
  show w: "workOf ?c' l = []"
    by (rule prepareLevel_success(2) [OF ok])
  have src: "sourceOf (?c'\<lparr>db := d\<rparr>) l \<in> {SOURCE_SELECT, SOURCE_PFS, SOURCE_SHOW}" for d
    using prepareLevel_success(1) [OF ok] by (simp add: per_level_db_update)
  show "issued (db (snd (Collect_Global pf (?c'\<lparr>db := d\<rparr>) l))) = issued d @ [queryOf ?c' l]" for d
    using Collect_Global_issued [OF src, of pf d] by (simp add: per_level_db_update)
  show "fst (Collect_Global pf (?c'\<lparr>db := d\<rparr>) l) = Returns ([], None)"
    if "respond d (issued d) (queryOf ?c' l) = Inr []" for d
    using that by (intro Collect_Global_no_rows src) (simp add: per_level_db_update)
  show "fst (Collect_Global pf (?c'\<lparr>db := d\<rparr>) l) = Returns ([], None)"
    if "sourceOf ?c' l = SOURCE_SELECT \<and> respond d (issued d) (queryOf ?c' l) = Inr rows" for d rows
    using that w
    by (intro Collect_Global_select_no_work [where rows = rows]) (simp_all add: per_level_db_update)
qed

theorem empty_metrics_prepare_collect_witness:
  "fst (prepareLevel ParseFloat_decimal (NewGlobal (db_fixed [])) ''l1'' [] None) = Returns None \<and>
   issued (db (snd (prepareLevel ParseFloat_decimal (NewGlobal (db_fixed [])) ''l1'' [] None))) =
     issued (db (NewGlobal (db_fixed []))) @ [selectQuery []] \<and>
   sourceOf (snd (prepareLevel ParseFloat_decimal (NewGlobal (db_fixed [])) ''l1'' [] None)) ''l1'' =
     SOURCE_SELECT \<and>
   respond (db_fixed []) (issued (db_fixed []))
     (queryOf (snd (prepareLevel ParseFloat_decimal (NewGlobal (db_fixed [])) ''l1'' [] None)) ''l1'') =
     Inr [] \<and>
   fst (Collect_Global ParseFloat_decimal
     ((snd (prepareLevel ParseFloat_decimal (NewGlobal (db_fixed [])) ''l1'' [] None))
        \<lparr>db := db_fixed []\<rparr>) ''l1'') = Returns ([], None) \<and>
   issued (db (snd (Collect_Global ParseFloat_decimal
     ((snd (prepareLevel ParseFloat_decimal (NewGlobal (db_fixed [])) ''l1'' [] None))
        \<lparr>db := db_fixed []\<rparr>) ''l1''))) = [selectQuery []] \<and>
   respond (db_fixed [[Some ''151'']]) (issued (db_fixed [[Some ''151'']]))
     (queryOf (snd (prepareLevel ParseFloat_decimal (NewGlobal (db_fixed [])) ''l1'' [] None)) ''l1'') =
     Inr [[Some ''151'']] \<and>
   fst (Collect_Global ParseFloat_decimal
     ((snd (prepareLevel ParseFloat_decimal (NewGlobal (db_fixed [])) ''l1'' [] None))
        \<lparr>db := db_fixed [[Some ''151'']]\<rparr>) ''l1'') = Returns ([], None)"
proof -
  let ?c = "NewGlobal (db_fixed [])"
  let ?R = "prepareLevel ParseFloat_decimal ?c ''l1'' [] None"
  have d: "db ?c = db_fixed []" by (simp add: NewGlobal_def)
  note ad = no_metrics_adopts_select [OF d, of ParseFloat_decimal "''l1''"]
  from ad have ok: "fst ?R = Returns None" by simp
  note T = empty_metrics_prepare_collect [of ParseFloat_decimal ?c "''l1''" None, THEN conjunct2,
      THEN mp, OF ok]
  have resp: "respond (db_fixed []) (issued (db_fixed [])) (queryOf (snd ?R) ''l1'') = Inr []"
    by (simp add: db_fixed_fields)
  have resp1: "respond (db_fixed [[Some ''151'']]) (issued (db_fixed [[Some ''151'']]))
      (queryOf (snd ?R) ''l1'') = Inr [[Some ''151'']]"
    by (simp add: db_fixed_fields)
  from ad have sel: "sourceOf (snd ?R) ''l1'' = SOURCE_SELECT" by simp
  note iss = T [THEN conjunct2, THEN conjunct2, THEN conjunct1, THEN spec, of "db_fixed []"]
  note emp = T [THEN conjunct2, THEN conjunct2, THEN conjunct2, THEN conjunct1, THEN spec,
      THEN mp, OF resp]
  note emp1 = T [THEN conjunct2, THEN conjunct2, THEN conjunct2, THEN conjunct2, THEN spec,
      THEN spec, THEN mp, OF conjI [OF sel resp1]]
  show ?thesis
    using ad iss emp emp1 resp resp1 by (simp add: d db_fixed_fields)
qed

subsection \<open>The built-in factory\<close>

text \<open>
  C7, as the claim states it, fails: the built-in factory has no case for \<open>io.table\<close>
  and answers it with the error of an unknown domain.
\<close>

theorem factory_Make_io_table_counterexample:
  "factory_Make ''io.table'' \<lparr>DB = db_down\<rparr> = Inl (CollectorNotRegistered ''io.table'')"
  by (simp add: factory_Make_def)

text \<open>
  C7, amended. The built-in factory makes a collector for every domain of
  \<open>builtinCollectors\<close>, which is \<open>status.global\<close>, \<open>var.global\<close>, \<open>size.data\<close>,
  \<open>size.binlogs\<close> and \<open>innodb\<close>, and returns an error for every other domain.
\<close>

theorem factory_Make_builtinCollectors:
  "(dmn \<in> set builtinCollectors \<longrightarrow> (\<exists>mc. factory_Make dmn args = Inr mc)) \<and>
   (dmn \<notin> set builtinCollectors \<longrightarrow> factory_Make dmn args = Inl (CollectorNotRegistered dmn))"
  by (auto simp: factory_Make_def builtinCollectors_def)

theorem factory_Make_builtinCollectors_witness:
  "''innodb'' \<in> set builtinCollectors \<and>
   factory_Make ''innodb'' \<lparr>DB = db_down\<rparr> = Inr (innodb_Metrics db_down) \<and>
   ''status.local'' \<notin> set builtinCollectors \<and>
   factory_Make ''status.local'' \<lparr>DB = db_down\<rparr> = Inl (CollectorNotRegistered ''status.local'')"
  using factory_Make_builtinCollectors [of "''innodb''" "\<lparr>DB = db_down\<rparr>"]
    factory_Make_builtinCollectors [of "''status.local''" "\<lparr>DB = db_down\<rparr>"]
  by (simp add: builtinCollectors_def factory_Make_def)

subsection \<open>The registry\<close>

lemma init_innodb: "factory (init False r_initial) ''innodb'' = Some factory_Make"
  by (simp add: init_def r_initial_def builtinCollectors_def Register_def)

text \<open>
  C8. When the domain is bound, Register in strict mode returns an error and leaves the
  registry as it was; in non-strict mode it returns nil and binds the new factory, which
  Make then uses. When the domain is unbound, Make returns an error, and Register (in
  either mode) returns nil and binds the factory, which Make then uses; a second Register
  of the domain after that is an error that changes nothing in strict mode, and replaces
  the factory in non-strict mode.
\<close>

theorem Register_strict_duplicate:
  "(factory r dmn \<noteq> None \<longrightarrow>
      Register True r dmn g = (Some (AlreadyRegistered dmn), r) \<and>
      fst (Register False r dmn g) = None \<and>
      factory (snd (Register False r dmn g)) = (factory r)(dmn \<mapsto> g) \<and>
      Make (snd (Register False r dmn g)) dmn args = g dmn args) \<and>
   (factory r dmn = None \<longrightarrow>
      Make r dmn args = Inl (NotRegistered dmn) \<and>
      fst (Register Strict r dmn f) = None \<and>
      factory (snd (Register Strict r dmn f)) = (factory r)(dmn \<mapsto> f) \<and>
      Make (snd (Register Strict r dmn f)) dmn args = f dmn args \<and>
      Register True (snd (Register Strict r dmn f)) dmn g =
        (Some (AlreadyRegistered dmn), snd (Register Strict r dmn f)) \<and>
      fst (Register False (snd (Register Strict r dmn f)) dmn g) = None \<and>
      Make (snd (Register False (snd (Register Strict r dmn f)) dmn g)) dmn args = g dmn args)"
  by (simp add: Register_def Make_def)

theorem Register_strict_duplicate_witness:
  "factory (init False r_initial) ''innodb'' \<noteq> None \<and>
   Register True (init False r_initial) ''innodb'' factory_none =
     (Some (AlreadyRegistered ''innodb''), init False r_initial) \<and>
   fst (Register False (init False r_initial) ''innodb'' factory_none) = None \<and>
   Make (snd (Register False (init False r_initial) ''innodb'' factory_none)) ''innodb''
     \<lparr>DB = db_down\<rparr> = Inl (CollectorNotRegistered ''innodb'') \<and>
   factory r_initial ''innodb'' = None \<and>
   Make r_initial ''innodb'' \<lparr>DB = db_down\<rparr> = Inl (NotRegistered ''innodb'') \<and>
   fst (Register True r_initial ''innodb'' factory_Make) = None \<and>
   Make (snd (Register True r_initial ''innodb'' factory_Make)) ''innodb'' \<lparr>DB = db_down\<rparr> =
     Inr (innodb_Metrics db_down)"
proof -
  have bound: "factory (init False r_initial) ''innodb'' \<noteq> None"
    by (simp add: init_innodb)
  have unbound: "factory r_initial ''innodb'' = None"
    by (simp add: r_initial_def)
  show ?thesis
    using Register_strict_duplicate [of "init False r_initial" "''innodb''" factory_none "\<lparr>DB = db_down\<rparr>" True factory_Make]
      Register_strict_duplicate [of r_initial "''innodb''" factory_none "\<lparr>DB = db_down\<rparr>" True factory_Make]
      bound unbound
    by (simp add: factory_none_def factory_Make_def)
qed

subsection \<open>Metric-name validation\<close>

lemma validateMetricNames_find:
  "validateMetricNames metrics =
     (case find (\<lambda>n. \<not> MatchString n) metrics of
        None \<Rightarrow> None
      | Some n \<Rightarrow> Some (InvalidMetricName n))"
  by (induction metrics) auto

lemma MatchString_iff: "MatchString name \<longleftrightarrow> (\<forall>ch\<in>set name. validMetricChar ch)"
  by (simp add: MatchString_def list_all_iff)

lemma db_resetLevel: "db (resetLevel c l) = db c"
  by (simp add: resetLevel_def)

lemma queryOf_resetLevel: "queryOf (resetLevel c l) l = []"
  by (simp add: resetLevel_def queryOf_def)

lemma prepareLevel_invalid_name:
  assumes "\<exists>name\<in>set metrics. \<exists>ch\<in>set name. \<not> validMetricChar ch"
  shows "\<exists>name\<in>set metrics. (\<exists>ch\<in>set name. \<not> validMetricChar ch) \<and>
     prepareLevel pf c l metrics opts = (Returns (Some (InvalidMetricName name)), resetLevel c l)"
proof -
  from assms have "\<exists>n\<in>set metrics. \<not> MatchString n"
    by (simp add: MatchString_iff)
  then obtain name where f: "find (\<lambda>n. \<not> MatchString n) metrics = Some name"
    by (cases "find (\<lambda>n. \<not> MatchString n) metrics") (auto simp: find_None_iff)
  then have mem: "name \<in> set metrics" and nm: "\<not> MatchString name"
    by (auto simp: find_Some_iff)
  from f have "validateMetricNames metrics = Some (InvalidMetricName name)"
    by (simp add: validateMetricNames_find)
  then have "prepareLevel pf c l metrics opts =
      (Returns (Some (InvalidMetricName name)), resetLevel c l)"
    by (simp add: prepareLevel_def)
  with mem nm show ?thesis
    by (auto simp: MatchString_iff)
qed

text \<open>
  C9. If some metric name of a level has a character outside \<open>[A-Za-z0-9_-]\<close>, then
  \<open>prepareLevel\<close> returns the error naming such a metric, and the collector is then
  exactly the collector with the level reset: no query text is stored for the level and
  the handle has issued no query. So Prepare, when the levels before that level prepare
  without error, returns this error, with no query issued and none stored for the level.
  If the characters of every name (the empty name included) are in the class,
  validation passes.
\<close>

theorem validateMetricNames_rejects_before_sql:
  "((\<exists>name\<in>set metrics. \<exists>ch\<in>set name. \<not> validMetricChar ch) \<longrightarrow>
      (\<exists>name\<in>set metrics. (\<exists>ch\<in>set name. \<not> validMetricChar ch) \<and>
         prepareLevel pf c l metrics opts =
           (Returns (Some (InvalidMetricName name)), resetLevel c l) \<and>
         issued (db (resetLevel c l)) = issued (db c) \<and> queryOf (resetLevel c l) l = [])) \<and>
   (Levels plan = pre @ (l, level) # post \<and> fst (prepareLevels pf c pre) = Returns None \<and>
    Collect_level level (domain c) = Some dm \<and>
    (\<exists>name\<in>set (Metrics dm). \<exists>ch\<in>set name. \<not> validMetricChar ch) \<longrightarrow>
      (\<exists>name\<in>set (Metrics dm). (\<exists>ch\<in>set name. \<not> validMetricChar ch) \<and>
         fst (Prepare pf c plan) = Returns (Some (InvalidMetricName name)) \<and>
         issued (db (snd (Prepare pf c plan))) = issued (db (snd (prepareLevels pf c pre))) \<and>
         queryOf (snd (Prepare pf c plan)) l = [])) \<and>
   ((\<forall>name\<in>set metrics. \<forall>ch\<in>set name. validMetricChar ch) \<longrightarrow>
      validateMetricNames metrics = None)"
proof (intro conjI impI)
  assume "\<exists>name\<in>set metrics. \<exists>ch\<in>set name. \<not> validMetricChar ch"
  from prepareLevel_invalid_name [OF this, of pf c l opts]
  show "\<exists>name\<in>set metrics. (\<exists>ch\<in>set name. \<not> validMetricChar ch) \<and>
         prepareLevel pf c l metrics opts =
           (Returns (Some (InvalidMetricName name)), resetLevel c l) \<and>
         issued (db (resetLevel c l)) = issued (db c) \<and> queryOf (resetLevel c l) l = []"
    by (simp add: db_resetLevel queryOf_resetLevel)
next
  assume a: "Levels plan = pre @ (l, level) # post \<and> fst (prepareLevels pf c pre) = Returns None \<and>
    Collect_level level (domain c) = Some dm \<and>
    (\<exists>name\<in>set (Metrics dm). \<exists>ch\<in>set name. \<not> validMetricChar ch)"
  let ?c1 = "snd (prepareLevels pf c pre)"
  from a have split: "Levels plan = pre @ (l, level) # post"
    and pre_ok: "fst (prepareLevels pf c pre) = Returns None"
    and bad: "\<exists>name\<in>set (Metrics dm). \<exists>ch\<in>set name. \<not> validMetricChar ch"
    by simp_all
  from a have dm1: "Collect_level level (domain ?c1) = Some dm"
    by (simp add: prepareLevels_domain)
  from prepareLevel_invalid_name [OF bad, of pf ?c1 l "Options dm"]
  obtain name where mem: "name \<in> set (Metrics dm)"
    and ch: "\<exists>ch\<in>set name. \<not> validMetricChar ch"
    and eq: "prepareLevel pf ?c1 l (Metrics dm) (Options dm) =
      (Returns (Some (InvalidMetricName name)), resetLevel ?c1 l)"
    by blast
  from eq have stop: "fst (prepareLevel pf ?c1 l (Metrics dm) (Options dm)) \<noteq> Returns None"
    by simp
  have "Prepare pf c plan = prepareLevel pf ?c1 l (Metrics dm) (Options dm)"
    unfolding Prepare_def split prepareLevels_append [OF pre_ok]
    by (rule prepareLevels_stop [OF dm1 stop])
  with eq have "Prepare pf c plan = (Returns (Some (InvalidMetricName name)), resetLevel ?c1 l)"
    by simp
  with mem ch show "\<exists>name\<in>set (Metrics dm). (\<exists>ch\<in>set name. \<not> validMetricChar ch) \<and>
         fst (Prepare pf c plan) = Returns (Some (InvalidMetricName name)) \<and>
         issued (db (snd (Prepare pf c plan))) = issued (db (snd (prepareLevels pf c pre))) \<and>
         queryOf (snd (Prepare pf c plan)) l = []"
    by (auto simp: db_resetLevel queryOf_resetLevel)
next
  assume "\<forall>name\<in>set metrics. \<forall>ch\<in>set name. validMetricChar ch"
  then have "find (\<lambda>n. \<not> MatchString n) metrics = None"
    by (simp add: find_None_iff MatchString_iff)
  then show "validateMetricNames metrics = None"
    by (simp add: validateMetricNames_find)
qed

theorem validateMetricNames_rejects_before_sql_witness:
  "\<not> validMetricChar CHR '' '' \<and>
   prepareLevel ParseFloat_decimal (NewGlobal db_down) ''l1'' [''max_connections'', ''bad name''] None =
     (Returns (Some (InvalidMetricName ''bad name'')), resetLevel (NewGlobal db_down) ''l1'') \<and>
   issued (db (resetLevel (NewGlobal db_down) ''l1'')) = [] \<and>
   fst (Prepare ParseFloat_decimal
          (global_select (db_fixed [[Some ''151,134217728'']]) ''l1'' two_metrics) plan_then_bad) =
     Returns (Some (InvalidMetricName ''bad name'')) \<and>
   issued (db (snd (Prepare ParseFloat_decimal
          (global_select (db_fixed [[Some ''151,134217728'']]) ''l1'' two_metrics) plan_then_bad))) =
     [selectQuery two_metrics] \<and>
   validateMetricNames [''max_connections'', '''', ''Innodb-x_9''] = None"
proof -
  let ?c0 = "global_select (db_fixed [[Some ''151,134217728'']]) ''l1'' two_metrics"
  let ?bad = "level_of [''max_connections'', ''bad name''] None"
  let ?dm = "\<lparr>Metrics = [''max_connections'', ''bad name''], Options = None\<rparr>"
  have sp: "\<not> validMetricChar CHR '' ''"
    by (simp add: validMetricChar_def)
  have bad: "\<exists>name\<in>set [''max_connections'', ''bad name'']. \<exists>ch\<in>set name. \<not> validMetricChar ch"
    using sp by simp
  have good: "\<forall>name\<in>set [''max_connections'', '''', ''Innodb-x_9'']. \<forall>ch\<in>set name. validMetricChar ch"
    by (simp add: validMetricChar_def)
  have hyp: "Levels plan_then_bad =
       [(''l2'', level_of two_metrics None)] @ (''l1'', ?bad) # [(''l3'', level_of two_metrics None)] \<and>
     fst (prepareLevels ParseFloat_decimal ?c0 [(''l2'', level_of two_metrics None)]) = Returns None \<and>
     Collect_level ?bad (domain ?c0) = Some ?dm \<and>
     (\<exists>name\<in>set (Metrics ?dm). \<exists>ch\<in>set name. \<not> validMetricChar ch)"
    using bad Prepare_plan_then_bad(1) [of ParseFloat_decimal]
    by (simp add: plan_then_bad_def global_select_fields level_of_domain del: prepareLevels.simps)
  note T = validateMetricNames_rejects_before_sql [of _ ParseFloat_decimal]
  note lvl = T [THEN conjunct1, THEN mp, OF bad, of "NewGlobal db_down" "''l1''" None]
  note prep = T [THEN conjunct2, THEN conjunct1, THEN mp, OF hyp]
  note ok = T [THEN conjunct2, THEN conjunct2, THEN mp, OF good]
  have i1: "issued (db (snd (prepareLevel ParseFloat_decimal ?c0 ''l2'' two_metrics None))) =
      [selectQuery two_metrics]"
    using db_fixed_adopts_select [of ?c0 ParseFloat_decimal "''l2''"]
    by (simp add: global_select_fields)
  show ?thesis
    using lvl prep ok sp
    by (simp add: prepareLevel_bad_name Prepare_plan_then_bad(3) db_resetLevel i1
        NewGlobal_def db_down_fields)
qed

subsection \<open>Event names\<close>

text \<open>
  C10. Each event name of the spec's list is the value of a constant of the event
  package. \<open>REGISTER_METRICS\<close> is the one constant whose declaration is modelled from
  the spec; the other twenty-four are the source's.
\<close>

theorem event_names_defined:
  "MONITOR_STARTED = ''monitor-started'' \<and> MONITOR_STOPPED = ''monitor-stopped'' \<and>
   MONITOR_ERROR = ''monitor-error'' \<and> MONITOR_PANIC = ''monitor-panic'' \<and>
   MONITOR_CONNECTING = ''connecting'' \<and> MONITOR_CONNECTED = ''connected'' \<and>
   LPC_RUNNING = ''lpc-running'' \<and> LPC_PAUSED = ''lpc-paused'' \<and>
   LPC_BLOCKED = ''lpc-blocked'' \<and> LPC_PANIC = ''lpc-panic'' \<and>
   ENGINE_PREPARE = ''engine-prepare'' \<and> ENGINE_PREPARE_SUCCESS = ''engine-prepare-success'' \<and>
   ENGINE_PREPARE_ERROR = ''engine-prepare-error'' \<and>
   ENGINE_COLLECT_ERROR = ''engine-collect-error'' \<and>
   CHANGE_PLAN = ''change-plan'' \<and> CHANGE_PLAN_SUCCESS = ''change-plan-success'' \<and>
   CHANGE_PLAN_ERROR = ''change-plan-error'' \<and>
   STATE_CHANGE_BEGIN = ''state-change-begin'' \<and> STATE_CHANGE_END = ''state-change-end'' \<and>
   STATE_CHANGE_ABORT = ''state-change-abort'' \<and>
   SINK_ERROR = ''sink-error'' \<and> SINK_SEND_ERROR = ''sink-send-error'' \<and>
   COLLECTOR_ERROR = ''collector-error'' \<and> COLLECTOR_PANIC = ''collector-panic'' \<and>
   REGISTER_METRICS = ''register-metrics''"
  unfolding MONITOR_STARTED_def MONITOR_STOPPED_def MONITOR_ERROR_def MONITOR_PANIC_def
    MONITOR_CONNECTING_def MONITOR_CONNECTED_def LPC_RUNNING_def LPC_PAUSED_def LPC_BLOCKED_def
    LPC_PANIC_def ENGINE_PREPARE_def ENGINE_PREPARE_SUCCESS_def ENGINE_PREPARE_ERROR_def
    ENGINE_COLLECT_ERROR_def CHANGE_PLAN_def CHANGE_PLAN_SUCCESS_def CHANGE_PLAN_ERROR_def
    STATE_CHANGE_BEGIN_def STATE_CHANGE_END_def STATE_CHANGE_ABORT_def SINK_ERROR_def
    SINK_SEND_ERROR_def COLLECTOR_ERROR_def COLLECTOR_PANIC_def REGISTER_METRICS_def
  by (intro conjI refl)

end
